theory Spec2Isabelle
  imports Complex_Main "HOL-Library.Sublist"
begin

section \<open>The vector field planner of prpy (prpy/planning/vectorfield.py)\<close>

text \<open>
  The planner follows a joint-space velocity field by explicit Euler integration.  The
  kinematics and collision engine (openravepy), the helpers of \<^verbatim>\<open>prpy.util\<close>, the wall
  clock and numpy's floating-point arithmetic are not part of the planner: they are the
  fields of a record the planner reads.

  A Python float is a real number, or one of \<^verbatim>\<open>inf\<close>, \<^verbatim>\<open>-inf\<close> and \<^verbatim>\<open>nan\<close>.  In the
  three places where a property of the planner depends on how numpy rounds, the rounding
  is part of the model: the line that rescales a velocity to the velocity limits
  (a quotient and a product of arrays), \<^verbatim>\<open>numpy.linalg.norm\<close>, and the division of the
  direction by its norm.  There the result of a division or a product is the rounding
  of the exact result, by the function \<open>round_float\<close> of the record, and the norm of a
  vector is what the function \<open>linalg_norm\<close> of the record returns; IEEE 754 double
  precision is one instance (\<open>binary64\<close> and \<open>norm64\<close> below), exact arithmetic is
  another.  The other operations (the time step, the Euler step, the comparisons with the
  clock, the projection in the evaluator of the offset planner) are exact.

  A division of one array by another gives numpy's results on a zero divisor
  (\<^verbatim>\<open>inf\<close>, \<^verbatim>\<open>-inf\<close>, \<^verbatim>\<open>nan\<close>; a zero is taken as \<^verbatim>\<open>+0.0\<close>); a run in which such a
  value would reach the robot's configuration or a waypoint ends with the outcome
  \<open>NonFinite\<close>.  \<^verbatim>\<open>GetDOFVelocityLimits\<close> and \<^verbatim>\<open>GetDOFResolutions\<close> hold one number for
  every joint of the robot; the configuration, the velocities and the result of the
  Jacobian solve hold one for every active joint, and \<open>FollowVectorField\<close> makes the
  joints of the arm the active ones (line 255).  So the rescaling line divides an array
  over all joints by one over the arm's joints, and numpy's broadcasting is modelled
  there: unequal lengths raise \<^verbatim>\<open>ValueError\<close>, unless one of the arrays has length one.
  The decorator \<^verbatim>\<open>@PlanningMethod\<close> and the class \<^verbatim>\<open>BasePlanner\<close> are not among the
  sources (base.py there defines the exceptions and an earlier planner framework); a
  decorated method is taken to run its body.
\<close>

subsection \<open>Numbers and arrays\<close>

datatype npfloat = Fin real | PInf | NInf | NaN

text \<open>numpy's \<^verbatim>\<open>a / b\<close> on float64 scalars, computed exactly.\<close>

definition np_div :: "real \<Rightarrow> real \<Rightarrow> npfloat" where
  "np_div a b =
     (if b \<noteq> 0 then Fin (a / b)
      else if 0 < a then PInf
      else if a < 0 then NInf
      else NaN)"

fun np_abs :: "npfloat \<Rightarrow> npfloat" where
  "np_abs (Fin x) = Fin \<bar>x\<bar>"
| "np_abs PInf = PInf"
| "np_abs NInf = PInf"
| "np_abs NaN = NaN"

text \<open>The comparison \<^verbatim>\<open>x < y\<close>: every comparison with \<^verbatim>\<open>nan\<close> is false.\<close>

fun np_lt :: "npfloat \<Rightarrow> npfloat \<Rightarrow> bool" where
  "np_lt (Fin a) (Fin b) = (a < b)"
| "np_lt (Fin a) PInf = True"
| "np_lt NInf (Fin b) = True"
| "np_lt NInf PInf = True"
| "np_lt _ _ = False"

datatype exn =
    PlanningError string
  | UnsupportedPlanningError string
  | ValueError string

text \<open>
  \<^verbatim>\<open>class UnsupportedPlanningError(PlanningError)\<close> (base.py): a handler
  \<^verbatim>\<open>except PlanningError\<close> takes both, and no \<^verbatim>\<open>ValueError\<close>.
\<close>

fun isinstance_PlanningError :: "exn \<Rightarrow> bool" where
  "isinstance_PlanningError (PlanningError m) = True"
| "isinstance_PlanningError (UnsupportedPlanningError m) = True"
| "isinstance_PlanningError (ValueError m) = False"

fun isinstance_UnsupportedPlanningError :: "exn \<Rightarrow> bool" where
  "isinstance_UnsupportedPlanningError (UnsupportedPlanningError m) = True"
| "isinstance_UnsupportedPlanningError (PlanningError m) = False"
| "isinstance_UnsupportedPlanningError (ValueError m) = False"

datatype 'a outcome = Return 'a | Raise exn | NonFinite

text \<open>
  Python's builtin \<^verbatim>\<open>min\<close> over the elements of an array: the first element is the
  candidate, and a later element replaces it when it compares less.
\<close>

fun py_min_from :: "npfloat \<Rightarrow> npfloat list \<Rightarrow> npfloat" where
  "py_min_from m [] = m"
| "py_min_from m (x # xs) = py_min_from (if np_lt x m then x else m) xs"

definition py_min :: "npfloat list \<Rightarrow> npfloat outcome" where
  "py_min xs =
     (case xs of
        [] \<Rightarrow> Raise (ValueError ''min() arg is an empty sequence'')
      | x # ys \<Rightarrow> Return (py_min_from x ys))"

text \<open>The Euclidean norm, which \<^verbatim>\<open>numpy.linalg.norm\<close> computes in floating point.\<close>

definition euclidean_norm :: "real list \<Rightarrow> real" where
  "euclidean_norm v = sqrt (sum_list (map (\<lambda>x. x * x) v))"

text \<open>
  An array of floats all of which are numbers is an array of the model; an array that
  holds \<^verbatim>\<open>inf\<close> or \<^verbatim>\<open>nan\<close> has none.
\<close>

fun finite_values :: "npfloat list \<Rightarrow> real list option" where
  "finite_values [] = Some []"
| "finite_values (Fin x # xs) = map_option ((#) x) (finite_values xs)"
| "finite_values (_ # xs) = None"

definition np_array :: "npfloat list \<Rightarrow> real list outcome" where
  "np_array xs = (case finite_values xs of Some v \<Rightarrow> Return v | None \<Rightarrow> NonFinite)"

text \<open>
  An elementwise operation on two one-dimensional arrays: numpy broadcasts an array of
  length one and raises \<^verbatim>\<open>ValueError\<close> for any other two lengths that differ (the
  shapes, which numpy appends to the message, are left out).
\<close>

definition np_broadcast :: "(real \<Rightarrow> real \<Rightarrow> 'a) \<Rightarrow> real list \<Rightarrow> real list \<Rightarrow> 'a list outcome" where
  "np_broadcast f xs ys =
     (if length xs = length ys then Return (map2 f xs ys)
      else if length xs = 1 then Return (map (f (hd xs)) ys)
      else if length ys = 1 then Return (map (\<lambda>x. f x (hd ys)) xs)
      else Raise (ValueError ''operands could not be broadcast together with shapes''))"

type_synonym vec3 = "real \<times> real \<times> real"

fun list3 :: "vec3 \<Rightarrow> real list" where
  "list3 (x, y, z) = [x, y, z]"

fun dot3 :: "vec3 \<Rightarrow> vec3 \<Rightarrow> real" where
  "dot3 (a, b, c) (x, y, z) = a * x + b * y + c * z"

fun scale3 :: "real \<Rightarrow> vec3 \<Rightarrow> vec3" where
  "scale3 s (x, y, z) = (s * x, s * y, s * z)"

fun sub3 :: "vec3 \<Rightarrow> vec3 \<Rightarrow> vec3" where
  "sub3 (a, b, c) (x, y, z) = (a - x, b - y, c - z)"

definition vec_add :: "real list \<Rightarrow> real list \<Rightarrow> real list" where
  "vec_add u v = map2 (+) u v"

definition vec_scale :: "real list \<Rightarrow> real \<Rightarrow> real list" where
  "vec_scale v s = map (\<lambda>x. x * s) v"

subsection \<open>The engine, the helpers and the clock\<close>

text \<open>
  What the planner reads.  \<open>clock\<close> is the wall clock: \<open>clock P k\<close> is what the
  \<open>k\<close>-th call of \<^verbatim>\<open>time.time()\<close> returns.  The collision queries and the end-effector
  transform are functions of the robot's configuration.  \<open>GetActiveDOFValues\<close> and
  \<open>GetActiveDOFVelocities\<close> are the robot's state when the planner is called; the
  \<^verbatim>\<open>with robot:\<close> block of \<open>FollowVectorField\<close> restores it on every exit.
  \<open>GeodesicError\<close> returns the array \<^verbatim>\<open>[dx, dy, dz, angle]\<close>, here the pair of
  \<^verbatim>\<open>error[0:3]\<close> and \<^verbatim>\<open>error[3]\<close>; a twist is the pair of \<^verbatim>\<open>twist[0:3]\<close> and
  \<^verbatim>\<open>twist[3:6]\<close>.  \<open>linalg_norm\<close> is \<^verbatim>\<open>numpy.linalg.norm\<close> on a one-dimensional
  array, and \<open>round_float\<close> takes the exact result of a division or a product to the
  float that numpy returns for it.
\<close>

record 'p provider =
  clock :: "nat \<Rightarrow> real"
  GetDOFResolutions :: "real list"
  GetDOFVelocityLimits :: "real list"
  GetActiveDOFValues :: "real list"
  GetActiveDOFVelocities :: "real list"
  GetArmDOFValues :: "real list"
  CheckCollision :: "real list \<Rightarrow> bool"
  CheckSelfCollision :: "real list \<Rightarrow> bool"
  GetEndEffectorTransform :: "real list \<Rightarrow> 'p"
  GeodesicTwist :: "'p \<Rightarrow> 'p \<Rightarrow> vec3 \<times> vec3"
  GeodesicDistance :: "'p \<Rightarrow> 'p \<Rightarrow> real"
  GeodesicError :: "'p \<Rightarrow> 'p \<Rightarrow> vec3 \<times> real"
  ComputeJointVelocityFromTwist :: "real list \<Rightarrow> vec3 \<times> vec3 \<Rightarrow> real list"
  linalg_norm :: "real list \<Rightarrow> npfloat"
  round_float :: "real \<Rightarrow> npfloat"

text \<open>
  numpy's \<^verbatim>\<open>a / b\<close> on float64 scalars, rounded; and the norm of a vector of three
  components.
\<close>

definition np_divide :: "'p provider \<Rightarrow> real \<Rightarrow> real \<Rightarrow> npfloat" where
  "np_divide P a b =
     (if b \<noteq> 0 then round_float P (a / b)
      else if 0 < a then PInf
      else if a < 0 then NInf
      else NaN)"

definition norm3 :: "'p provider \<Rightarrow> vec3 \<Rightarrow> npfloat" where
  "norm3 P v = linalg_norm P (list3 v)"

text \<open>
  The effects a caller can observe: how often the clock was read, and how many goal
  poses were drawn from TSR chains.
\<close>

record world =
  ticks :: nat
  draws :: nat

definition time_time :: "'p provider \<Rightarrow> world \<Rightarrow> real \<times> world" where
  "time_time P w = (clock P (ticks w), w\<lparr>ticks := Suc (ticks w)\<rparr>)"

subsection \<open>Status, waypoints and the loop of FollowVectorField\<close>

datatype Status = TERMINATE | CACHE_AND_CONTINUE | CONTINUE

record waypoint =
  wq :: "real list"
  wdq :: "real list"
  wdt :: real

text \<open>
  Modelled from the spec: \<^verbatim>\<open>prpy.util.CopyTrajectory\<close> is not among the sources; the
  specification calls it a deep copy of the buffer built so far.  A trajectory is a
  value here, so the copy is the same list of waypoints, and later insertions into
  \<open>qtraj\<close> do not reach it.
\<close>

definition CopyTrajectory :: "waypoint list \<Rightarrow> waypoint list" where
  "CopyTrajectory traj = traj"

text \<open>The variables of the loop: the robot's configuration and the locals it assigns.\<close>

record loop_state =
  robot_q :: "real list"
  dqout :: "real list"
  qtraj :: "waypoint list"
  cached_traj :: "waypoint list option"
  wld :: world

text \<open>The arguments and the locals that stay fixed during one call.\<close>

record 'p run =
  run_robot :: "'p provider"
  run_vectorfield :: "real list \<Rightarrow> real list outcome"
  run_terminate :: "real list \<Rightarrow> Status outcome"
  run_timelimit :: "real option"
  run_dq_tol :: real
  run_start_time :: real
  run_dt :: real

datatype exit = Break loop_state | Threw exn loop_state | Unmodelled loop_state

datatype step = Next loop_state | Exit exit

definition local_minimum_message :: string where
  "local_minimum_message =
     ''Local minimum, '' @ replicate 45 (CHR '' '') @ ''unable to progress''"

text \<open>
  One pass through the body of \<^verbatim>\<open>while True:\<close> (lines 270 to 304).  The local
  \<^verbatim>\<open>dqout\<close> assigned in line 290 is \<open>v\<close>; when it holds \<^verbatim>\<open>nan\<close> or \<^verbatim>\<open>inf\<close> its norm is
  \<^verbatim>\<open>nan\<close> or \<^verbatim>\<open>inf\<close>, the comparison with \<^verbatim>\<open>dq_tol\<close> is false and the pass goes on to
  \<^verbatim>\<open>fn_terminate\<close>, and only the integration step of lines 303 and 304 has no model.  The field \<open>dqout\<close> of the state is the
  velocity that the next pass records, so it is assigned where the pass ends.
\<close>

definition loop_body :: "'p run \<Rightarrow> loop_state \<Rightarrow> step" where
  "loop_body R st0 =
     (let (current_time, w) = time_time (run_robot R) (wld st0);
          st1 = st0\<lparr>wld := w\<rparr>
      in
      if (case run_timelimit R of
            None \<Rightarrow> False
          | Some limit \<Rightarrow> current_time - run_start_time R > limit)
      then Exit (Threw (PlanningError ''Reached time limit.'') st1)
      else if CheckCollision (run_robot R) (robot_q st1)
      then Exit (Threw (PlanningError ''Encountered collision.'') st1)
      else if CheckSelfCollision (run_robot R) (robot_q st1)
      then Exit (Threw (PlanningError ''Encountered self-collision.'') st1)
      else
        let q_curr = robot_q st1;
            waypoint = \<lparr>wq = q_curr, wdq = dqout st1, wdt = run_dt R\<rparr>;
            st2 = st1\<lparr>qtraj := qtraj st1 @ [waypoint]\<rparr>
        in
        (case run_vectorfield R q_curr of
           Raise e \<Rightarrow> Exit (Threw e st2)
         | v \<Rightarrow>
             if (case v of
                   Return dq \<Rightarrow> np_lt (linalg_norm (run_robot R) dq) (Fin (run_dq_tol R))
                 | _ \<Rightarrow> False)
             then Exit (Threw (PlanningError local_minimum_message) st2)
             else
               (case run_terminate R q_curr of
                  Raise e \<Rightarrow> Exit (Threw e st2)
                | NonFinite \<Rightarrow> Exit (Unmodelled st2)
                | Return status \<Rightarrow>
                    (let st3 = (if status = CACHE_AND_CONTINUE
                                then st2\<lparr>cached_traj := Some (CopyTrajectory (qtraj st2))\<rparr>
                                else st2)
                     in
                     if status = TERMINATE then Exit (Break st3)
                     else
                       (case v of
                          Return dq \<Rightarrow>
                            Next (st3\<lparr>dqout := dq,
                                      robot_q := vec_add q_curr (vec_scale dq (run_dt R))\<rparr>)
                        | _ \<Rightarrow> Exit (Unmodelled st3))))))"

text \<open>
  The loop has no bound of its own (with \<^verbatim>\<open>timelimit=None\<close>, or a clock that stands
  still, it can run forever), so it is given fuel: \<open>None\<close> says that the loop was
  still running when the fuel was used up.
\<close>

fun while_loop :: "nat \<Rightarrow> 'p run \<Rightarrow> loop_state \<Rightarrow> exit option" where
  "while_loop 0 R st = None"
| "while_loop (Suc n) R st =
     (case loop_body R st of
        Next st' \<Rightarrow> while_loop n R st'
      | Exit x \<Rightarrow> Some x)"

text \<open>
  \<open>iter R k st\<close> is the state at the start of pass \<open>k\<close> (counted from 0) of a loop
  started in \<open>st\<close>, when passes \<open>0\<close> to \<open>k - 1\<close> all reached the end of the body.
\<close>

fun iter :: "'p run \<Rightarrow> nat \<Rightarrow> loop_state \<Rightarrow> loop_state option" where
  "iter R 0 st = Some st"
| "iter R (Suc k) st =
     (case loop_body R st of
        Next st' \<Rightarrow> iter R k st'
      | Exit x \<Rightarrow> None)"

text \<open>The handler \<^verbatim>\<open>except PlanningError as e:\<close> (lines 306 to 311).\<close>

definition except_PlanningError :: "exn \<Rightarrow> waypoint list option \<Rightarrow> waypoint list outcome" where
  "except_PlanningError e cached =
     (if isinstance_PlanningError e
      then (case cached of Some traj \<Rightarrow> Return traj | None \<Rightarrow> Raise e)
      else Raise e)"

definition finish :: "exit \<Rightarrow> waypoint list outcome \<times> world" where
  "finish x =
     (case x of
        Break st \<Rightarrow> (Return (qtraj st), wld st)
      | Threw e st \<Rightarrow> (except_PlanningError e (cached_traj st), wld st)
      | Unmodelled st \<Rightarrow> (NonFinite, wld st))"

definition initial_state :: "'p provider \<Rightarrow> world \<Rightarrow> loop_state" where
  "initial_state P w =
     \<lparr>robot_q = GetActiveDOFValues P, dqout = GetActiveDOFVelocities P,
      qtraj = [], cached_traj = None, wld = w\<rparr>"

definition loop_locals ::
  "'p provider \<Rightarrow> (real list \<Rightarrow> real list outcome) \<Rightarrow> (real list \<Rightarrow> Status outcome) \<Rightarrow>
   real option \<Rightarrow> real \<Rightarrow> real \<Rightarrow> real \<Rightarrow> 'p run" where
  "loop_locals P fn_vectorfield fn_terminate timelimit dq_tol start_time dt =
     \<lparr>run_robot = P, run_vectorfield = fn_vectorfield,
      run_terminate = fn_terminate, run_timelimit = timelimit,
      run_dq_tol = dq_tol, run_start_time = start_time, run_dt = dt\<rparr>"

definition timestep :: "'p provider \<Rightarrow> npfloat outcome" where
  "timestep P = py_min (map2 np_div (GetDOFResolutions P) (GetDOFVelocityLimits P))"

definition FollowVectorField ::
  "nat \<Rightarrow> 'p provider \<Rightarrow> (real list \<Rightarrow> real list outcome) \<Rightarrow> (real list \<Rightarrow> Status outcome) \<Rightarrow>
   real option \<Rightarrow> real \<Rightarrow> world \<Rightarrow> (waypoint list outcome \<times> world) option" where
  "FollowVectorField fuel P fn_vectorfield fn_terminate timelimit dq_tol w0 =
     (let (start_time, w) = time_time P w0 in
      case timestep P of
        Raise e \<Rightarrow> Some (except_PlanningError e None, w)
      | NonFinite \<Rightarrow> Some (NonFinite, w)
      | Return (Fin dt) \<Rightarrow>
          map_option finish
            (while_loop fuel
               (loop_locals P fn_vectorfield fn_terminate timelimit dq_tol start_time dt)
               (initial_state P w))
      | Return _ \<Rightarrow> Some (NonFinite, w))"

subsection \<open>PlanToEndEffectorPose\<close>

text \<open>
  The product of a float and an array, \<^verbatim>\<open>m * dqout\<close>: each product is rounded, and a
  factor that is \<^verbatim>\<open>inf\<close> or \<^verbatim>\<open>nan\<close> leaves no number in the array.
\<close>

definition np_scale :: "'p provider \<Rightarrow> npfloat \<Rightarrow> real list \<Rightarrow> real list outcome" where
  "np_scale P m v =
     (case m of
        Fin s \<Rightarrow> np_array (map (\<lambda>x. round_float P (s * x)) v)
      | _ \<Rightarrow> NonFinite)"

text \<open>
  \<^verbatim>\<open>dqout = min(abs(robot.GetDOFVelocityLimits()/dqout))*dqout\<close>, the line under the
  comment "Go as fast as possible" in both velocity fields (lines 83 and 147).  The
  quotient is the division of two arrays, with broadcasting; \<^verbatim>\<open>min\<close> is Python's
  builtin.
\<close>

definition go_as_fast_as_possible :: "'p provider \<Rightarrow> real list \<Rightarrow> real list \<Rightarrow> real list outcome" where
  "go_as_fast_as_possible P limits dq =
     (case np_broadcast (np_divide P) limits dq of
        Raise e \<Rightarrow> Raise e
      | NonFinite \<Rightarrow> NonFinite
      | Return ratios \<Rightarrow>
          (case py_min (map np_abs ratios) of
             Raise e \<Rightarrow> Raise e
           | NonFinite \<Rightarrow> NonFinite
           | Return m \<Rightarrow> np_scale P m dq))"

definition vf_geodesic :: "'p provider \<Rightarrow> 'p \<Rightarrow> real list \<Rightarrow> real list outcome" where
  "vf_geodesic P goal_pose q =
     (let twist = GeodesicTwist P (GetEndEffectorTransform P q) goal_pose;
          dq = ComputeJointVelocityFromTwist P q twist
      in go_as_fast_as_possible P (GetDOFVelocityLimits P) dq)"

definition CloseEnough :: "'p provider \<Rightarrow> 'p \<Rightarrow> real \<Rightarrow> real list \<Rightarrow> Status outcome" where
  "CloseEnough P goal_pose pose_error_tol q =
     (let pose_error = GeodesicDistance P (GetEndEffectorTransform P q) goal_pose in
      if pose_error < pose_error_tol then Return TERMINATE else Return CONTINUE)"

definition PlanToEndEffectorPose ::
  "nat \<Rightarrow> 'p provider \<Rightarrow> 'p \<Rightarrow> real option \<Rightarrow> real \<Rightarrow> world \<Rightarrow>
   (waypoint list outcome \<times> world) option" where
  "PlanToEndEffectorPose fuel P goal_pose timelimit pose_error_tol w =
     FollowVectorField fuel P (vf_geodesic P goal_pose)
       (CloseEnough P goal_pose pose_error_tol) timelimit (1 / 10000) w"

subsection \<open>PlanToEndEffectorOffset\<close>

definition vf_straightline :: "'p provider \<Rightarrow> 'p \<Rightarrow> vec3 \<Rightarrow> real list \<Rightarrow> real list outcome" where
  "vf_straightline P Tstart direction q =
     (let twist = GeodesicTwist P (GetEndEffectorTransform P q) Tstart;
          twist' = (direction, snd twist);
          dq = ComputeJointVelocityFromTwist P q twist'
      in go_as_fast_as_possible P (GetDOFVelocityLimits P) dq)"

text \<open>
  The checks of \<^verbatim>\<open>TerminateMove\<close> on the array \<^verbatim>\<open>error\<close> (lines 158 to 172), and the
  closure itself, which first reads the error from the engine (lines 156 and 157).  The
  comparison \<^verbatim>\<open>position_deviation > position_tolerance\<close> is false when the norm is
  \<^verbatim>\<open>nan\<close>.
\<close>

definition TerminateMove_on ::
  "'p provider \<Rightarrow> vec3 \<Rightarrow> real \<Rightarrow> real \<Rightarrow> real \<Rightarrow> real \<Rightarrow> vec3 \<times> real \<Rightarrow> Status outcome" where
  "TerminateMove_on P direction distance max_distance position_tolerance angular_tolerance error =
     (if \<bar>snd error\<bar> > angular_tolerance
      then Raise (PlanningError ''Deviated from orientation constraint.'')
      else
        let distance_moved = dot3 (fst error) direction;
            position_deviation = norm3 P (sub3 (fst error) (scale3 distance_moved direction))
        in
        if np_lt (Fin position_tolerance) position_deviation
        then Raise (PlanningError ''Deviated from straight line constraint.'')
        else if distance_moved > max_distance then Return TERMINATE
        else if distance_moved > distance then Return CACHE_AND_CONTINUE
        else Return CONTINUE)"

definition TerminateMove ::
  "'p provider \<Rightarrow> 'p \<Rightarrow> vec3 \<Rightarrow> real \<Rightarrow> real \<Rightarrow> real \<Rightarrow> real \<Rightarrow> real list \<Rightarrow> Status outcome" where
  "TerminateMove P Tstart direction distance max_distance position_tolerance angular_tolerance q =
     (let Tnow = GetEndEffectorTransform P q;
          error = GeodesicError P Tstart Tnow
      in TerminateMove_on P direction distance max_distance position_tolerance
           angular_tolerance error)"

text \<open>
  \<^verbatim>\<open>direction /= numpy.linalg.norm(direction)\<close> (line 130): each component is divided by
  the norm and rounded; a number divided by \<^verbatim>\<open>inf\<close> is zero, and divided by \<^verbatim>\<open>nan\<close> it
  is \<^verbatim>\<open>nan\<close>.
\<close>

fun vec3_of :: "npfloat \<Rightarrow> npfloat \<Rightarrow> npfloat \<Rightarrow> vec3 outcome" where
  "vec3_of (Fin x) (Fin y) (Fin z) = Return (x, y, z)"
| "vec3_of _ _ _ = NonFinite"

fun div3 :: "'p provider \<Rightarrow> vec3 \<Rightarrow> npfloat \<Rightarrow> vec3 outcome" where
  "div3 P (x, y, z) (Fin n) = vec3_of (np_divide P x n) (np_divide P y n) (np_divide P z n)"
| "div3 P (x, y, z) PInf = Return (0, 0, 0)"
| "div3 P (x, y, z) NInf = Return (0, 0, 0)"
| "div3 P (x, y, z) NaN = NonFinite"

definition PlanToEndEffectorOffset ::
  "nat \<Rightarrow> 'p provider \<Rightarrow> vec3 \<Rightarrow> real \<Rightarrow> real option \<Rightarrow> real option \<Rightarrow> real \<Rightarrow> real \<Rightarrow> world \<Rightarrow>
   (waypoint list outcome \<times> world) option" where
  "PlanToEndEffectorOffset fuel P direction distance max_distance timelimit
     position_tolerance angular_tolerance w =
     (if distance < 0
      then Some (Raise (ValueError ''Distance must be non-negative.''), w)
      else if norm3 P direction = Fin 0
      then Some (Raise (ValueError ''Direction must be non-zero''), w)
      else if (case max_distance of None \<Rightarrow> False | Some m \<Rightarrow> m < distance)
      then Some (Raise (ValueError ''Max distance is less than minimum distance.''), w)
      else if position_tolerance < 0
      then Some (Raise (ValueError ''Position tolerance must be non-negative.''), w)
      else if angular_tolerance < 0
      then Some (Raise (ValueError ''Angular tolerance must be non-negative.''), w)
      else
        (case div3 P direction (norm3 P direction) of
           Raise e \<Rightarrow> Some (Raise e, w)
         | NonFinite \<Rightarrow> Some (NonFinite, w)
         | Return direction' \<Rightarrow>
             let max_distance' = (case max_distance of None \<Rightarrow> distance | Some m \<Rightarrow> m);
                 Tstart = GetEndEffectorTransform P (GetActiveDOFValues P)
             in
             FollowVectorField fuel P (vf_straightline P Tstart direction')
               (TerminateMove P Tstart direction' distance max_distance'
                  position_tolerance angular_tolerance)
               timelimit (1 / 10000) w))"

subsection \<open>PlanToTSR\<close>

text \<open>
  A TSR chain: its three flags, and its sampler; \<open>sample c k\<close> is the pose that
  \<^verbatim>\<open>c.sample()\<close> returns when \<open>k\<close> poses have been drawn before.
\<close>

record 'p tsrchain =
  sample_start :: bool
  sample_goal :: bool
  constrain :: bool
  sample :: "nat \<Rightarrow> 'p"

text \<open>
  A ranker: the default \<^verbatim>\<open>NominalConfiguration\<close> of \<^verbatim>\<open>prpy.ik_ranking\<close>, or a callable
  of the caller's that scores configurations.
\<close>

datatype ranker =
    NominalConfiguration "real list" real
  | CustomRanker "real list list \<Rightarrow> real list"

definition timeout_message :: string where
  "timeout_message = ''Reached timeout without finding solution''"

text \<open>
  The loop \<^verbatim>\<open>for tsrchain in tsr_sampler:\<close> (lines 222 to 231).  \<open>i\<close> counts the
  chains that \<^verbatim>\<open>itertools.cycle\<close> has handed out; \<^verbatim>\<open>takewhile\<close> reads the clock after it
  has taken a chain from the cycle.  The pose planner is called with its own fuel.
\<close>

fun tsr_loop ::
  "nat \<Rightarrow> nat \<Rightarrow> 'p provider \<Rightarrow> 'p tsrchain list \<Rightarrow> real \<Rightarrow> real \<Rightarrow> nat \<Rightarrow> world \<Rightarrow>
   (waypoint list outcome \<times> world) option" where
  "tsr_loop 0 fuel P tsrchains timelimit_time pose_error_tol i w = None"
| "tsr_loop (Suc n) fuel P tsrchains timelimit_time pose_error_tol i w =
     (if tsrchains = [] then Some (Raise (PlanningError timeout_message), w)
      else
        let tsrchain = tsrchains ! (i mod length tsrchains);
            (t1, w1) = time_time P w
        in
        if \<not> t1 < timelimit_time then Some (Raise (PlanningError timeout_message), w1)
        else
          let ik_goal = sample tsrchain (draws w1);
              w2 = w1\<lparr>draws := Suc (draws w1)\<rparr>;
              (t2, w3) = time_time P w2
          in
          case PlanToEndEffectorPose fuel P ik_goal (Some (min (1 / 10) (timelimit_time - t2)))
                 pose_error_tol w3 of
            None \<Rightarrow> None
          | Some (Return traj, w4) \<Rightarrow> Some (Return traj, w4)
          | Some (NonFinite, w4) \<Rightarrow> Some (NonFinite, w4)
          | Some (Raise e, w4) \<Rightarrow>
              if isinstance_PlanningError e
              then tsr_loop n fuel P tsrchains timelimit_time pose_error_tol (Suc i) w4
              else Some (Raise e, w4))"

definition PlanToTSR ::
  "nat \<Rightarrow> nat \<Rightarrow> 'p provider \<Rightarrow> 'p tsrchain list \<Rightarrow> real \<Rightarrow> ranker option \<Rightarrow> real \<Rightarrow> real \<Rightarrow>
   world \<Rightarrow> (waypoint list outcome \<times> world) option" where
  "PlanToTSR rounds fuel P tsrchains timelimit ranker max_deviation pose_error_tol w =
     (let ranker' = (case ranker of
                       None \<Rightarrow> NominalConfiguration (GetArmDOFValues P) max_deviation
                     | Some r \<Rightarrow> r)
      in
      if list_ex (\<lambda>tsrchain. sample_start tsrchain \<or> constrain tsrchain) tsrchains
      then Some (Raise (PlanningError
                   ''Cannot handle start or trajectory-wide TSR constraints.''), w)
      else
        let tsrchains' = filter sample_goal tsrchains;
            (t0, w1) = time_time P w;
            timelimit_time = t0 + timelimit
        in tsr_loop rounds fuel P tsrchains' timelimit_time pose_error_tol 0 w1)"

subsection \<open>Notions the properties are stated with\<close>

text \<open>
  Pass \<open>k\<close> of a loop started in \<open>st\<close> ran to its end, and its call of
  \<^verbatim>\<open>fn_terminate\<close> returned \<open>CACHE_AND_CONTINUE\<close>.
\<close>

definition evaluates_cache :: "'p run \<Rightarrow> loop_state \<Rightarrow> nat \<Rightarrow> bool" where
  "evaluates_cache R st k =
     (case iter R (Suc k) st of
        None \<Rightarrow> False
      | Some s' \<Rightarrow>
          (case iter R k st of
             None \<Rightarrow> False
           | Some s \<Rightarrow> run_terminate R (robot_q s) = Return CACHE_AND_CONTINUE))"

text \<open>The last pass before pass \<open>n\<close> in which that happened, if there is one.\<close>

fun last_cache :: "'p run \<Rightarrow> loop_state \<Rightarrow> nat \<Rightarrow> nat option" where
  "last_cache R st 0 = None"
| "last_cache R st (Suc k) =
     (if evaluates_cache R st k then Some k else last_cache R st k)"

text \<open>The state in which the loop was left.\<close>

fun exit_state :: "exit \<Rightarrow> loop_state" where
  "exit_state (Break st) = st"
| "exit_state (Threw e st) = st"
| "exit_state (Unmodelled st) = st"

text \<open>The time at which waypoint \<open>k\<close> of a trajectory is reached: the sum of the first \<open>k\<close> time steps.\<close>

definition cumulative_time :: "waypoint list \<Rightarrow> nat \<Rightarrow> real" where
  "cumulative_time traj k = sum_list (map wdt (take k traj))"

subsection \<open>The loop as the specification describes it\<close>

text \<open>
  Section 4.3 of the specification describes a pass of the loop by seven steps, in terms
  of the clock, of the configuration at the start of the pass, and of what the engine,
  the generator and the evaluator answer there.  The definitions of this subsection
  follow that description (with the messages of the source) and make no use of
  \<open>loop_body\<close>: they are what the loop of the source is compared with.

  The configuration at the start of pass \<open>k\<close> is reached from the configuration \<open>q0\<close>
  by \<open>k\<close> Euler steps (step 7).  The velocity "computed in the previous iteration" is
  the initial estimate \<open>dq0\<close> for pass \<open>0\<close>, and for pass \<open>k + 1\<close> it is what the
  generator returned in pass \<open>k\<close>.
\<close>

fun spec_configuration :: "'p run \<Rightarrow> real list \<Rightarrow> nat \<Rightarrow> real list" where
  "spec_configuration R q0 0 = q0"
| "spec_configuration R q0 (Suc k) =
     (let q = spec_configuration R q0 k in
      case run_vectorfield R q of
        Return dq \<Rightarrow> vec_add q (vec_scale dq (run_dt R))
      | _ \<Rightarrow> q)"

fun spec_velocity :: "'p run \<Rightarrow> real list \<Rightarrow> real list \<Rightarrow> nat \<Rightarrow> real list" where
  "spec_velocity R q0 dq0 0 = dq0"
| "spec_velocity R q0 dq0 (Suc k) =
     (case run_vectorfield R (spec_configuration R q0 k) of
        Return dq \<Rightarrow> dq
      | _ \<Rightarrow> spec_velocity R q0 dq0 k)"

text \<open>
  Step 3: the waypoint of pass \<open>k\<close>, and the buffer after \<open>n\<close> passes have appended
  theirs.
\<close>

definition spec_waypoint :: "'p run \<Rightarrow> real list \<Rightarrow> real list \<Rightarrow> nat \<Rightarrow> waypoint" where
  "spec_waypoint R q0 dq0 k =
     \<lparr>wq = spec_configuration R q0 k, wdq = spec_velocity R q0 dq0 k, wdt = run_dt R\<rparr>"

definition spec_buffer :: "'p run \<Rightarrow> real list \<Rightarrow> real list \<Rightarrow> nat \<Rightarrow> waypoint list" where
  "spec_buffer R q0 dq0 n = map (spec_waypoint R q0 dq0) [0..<n]"

text \<open>
  Steps 1 and 2: the pass fails before it appends a waypoint, when the clock reading
  number \<open>tick\<close> is past the time limit or the engine reports a collision at \<open>q\<close>.
\<close>

definition spec_timeout :: "'p run \<Rightarrow> nat \<Rightarrow> bool" where
  "spec_timeout R tick =
     (case run_timelimit R of
        None \<Rightarrow> False
      | Some limit \<Rightarrow> clock (run_robot R) tick - run_start_time R > limit)"

definition spec_blocked :: "'p run \<Rightarrow> nat \<Rightarrow> real list \<Rightarrow> bool" where
  "spec_blocked R tick q =
     (spec_timeout R tick \<or> CheckCollision (run_robot R) q \<or> CheckSelfCollision (run_robot R) q)"

text \<open>
  How a pass ends that starts in the configuration \<open>q\<close> and reads the clock for the
  \<open>tick\<close>-th time: it fails (steps 1, 2, 4, 5 and 6), it ends the loop with success, or
  it goes on to step 7, with or without a copy of the buffer to the cache slot.  The
  description does not say what happens to a velocity that holds \<^verbatim>\<open>inf\<close> or \<^verbatim>\<open>nan\<close>.
\<close>

datatype verdict = Fails exn | Terminates | Caches | Continues | Undescribed

definition spec_pass :: "'p run \<Rightarrow> nat \<Rightarrow> real list \<Rightarrow> verdict" where
  "spec_pass R tick q =
     (if spec_timeout R tick then Fails (PlanningError ''Reached time limit.'')
      else if CheckCollision (run_robot R) q
      then Fails (PlanningError ''Encountered collision.'')
      else if CheckSelfCollision (run_robot R) q
      then Fails (PlanningError ''Encountered self-collision.'')
      else
        (case run_vectorfield R q of
           Raise e \<Rightarrow> Fails e
         | NonFinite \<Rightarrow>
             (case run_terminate R q of
                Raise e \<Rightarrow> Fails e
              | NonFinite \<Rightarrow> Undescribed
              | Return status \<Rightarrow> if status = TERMINATE then Terminates else Undescribed)
         | Return dq \<Rightarrow>
             if np_lt (linalg_norm (run_robot R) dq) (Fin (run_dq_tol R))
             then Fails (PlanningError local_minimum_message)
             else
               (case run_terminate R q of
                  Raise e \<Rightarrow> Fails e
                | NonFinite \<Rightarrow> Undescribed
                | Return status \<Rightarrow>
                    (case status of
                       TERMINATE \<Rightarrow> Terminates
                     | CACHE_AND_CONTINUE \<Rightarrow> Caches
                     | CONTINUE \<Rightarrow> Continues))))"

text \<open>
  The verdict of pass \<open>k\<close> of a run that starts in \<open>q0\<close> and reads the clock for the
  \<open>t0\<close>-th time in pass \<open>0\<close>; and the last pass before pass \<open>n\<close> that copied the buffer.
\<close>

definition spec_run :: "'p run \<Rightarrow> nat \<Rightarrow> real list \<Rightarrow> nat \<Rightarrow> verdict" where
  "spec_run R t0 q0 k = spec_pass R (t0 + k) (spec_configuration R q0 k)"

fun spec_last_cache :: "'p run \<Rightarrow> nat \<Rightarrow> real list \<Rightarrow> nat \<Rightarrow> nat option" where
  "spec_last_cache R t0 q0 0 = None"
| "spec_last_cache R t0 q0 (Suc k) =
     (if spec_run R t0 q0 k = Caches then Some k else spec_last_cache R t0 q0 k)"

subsection \<open>IEEE 754 double precision\<close>

text \<open>
  The rounding of a real number to the nearest double, ties to even.  \<open>bexp n x\<close> is the
  exponent \<open>e\<close> of a positive \<open>x\<close>, the integer with \<open>2^e \<le> x < 2^(e + 1)\<close>, found in at
  most \<open>n\<close> halvings or doublings.  The doubles between \<open>2^e\<close> and \<open>2^(e + 1)\<close> are the
  multiples of \<open>2^(e - 52)\<close>; below \<open>2^-1022\<close> they are the multiples of \<open>2^-1074\<close>.  A
  magnitude of \<open>2^1024 - 2^970\<close> or more, half a step above the largest double, rounds
  to an infinity, and one of \<open>2^-1075\<close> or less, half the smallest double, to zero.
\<close>

definition pow2 :: "int \<Rightarrow> real" where
  "pow2 e = (if 0 \<le> e then 2 ^ nat e else 1 / 2 ^ nat (- e))"

fun bexp :: "nat \<Rightarrow> real \<Rightarrow> int" where
  "bexp 0 x = 0"
| "bexp (Suc n) x =
     (if 2 \<le> x then bexp n (x / 2) + 1
      else if x < 1 then bexp n (2 * x) - 1
      else 0)"

definition round_even :: "real \<Rightarrow> int" where
  "round_even y =
     (let f = \<lfloor>y\<rfloor>; d = y - of_int f in
      if d < 1 / 2 then f
      else if 1 / 2 < d then f + 1
      else if even f then f else f + 1)"

definition binary64 :: "real \<Rightarrow> npfloat" where
  "binary64 x =
     (if 2 ^ 1024 - 2 ^ 970 \<le> \<bar>x\<bar> then (if 0 < x then PInf else NInf)
      else if \<bar>x\<bar> \<le> 1 / 2 ^ 1075 then Fin 0
      else
        let ulp = pow2 (max (bexp 1100 \<bar>x\<bar>) (- 1022) - 52)
        in Fin (of_int (round_even (x / ulp)) * ulp))"

text \<open>
  \<^verbatim>\<open>numpy.linalg.norm\<close> of a one-dimensional array is the square root of the dot product
  of the array with itself.  The squares are added from left to right here; the order
  is the linear algebra library's.
\<close>

fun np_add64 :: "npfloat \<Rightarrow> npfloat \<Rightarrow> npfloat" where
  "np_add64 (Fin a) (Fin b) = binary64 (a + b)"
| "np_add64 NaN y = NaN"
| "np_add64 x NaN = NaN"
| "np_add64 PInf NInf = NaN"
| "np_add64 NInf PInf = NaN"
| "np_add64 PInf y = PInf"
| "np_add64 x PInf = PInf"
| "np_add64 NInf y = NInf"
| "np_add64 x NInf = NInf"

fun np_sqrt64 :: "npfloat \<Rightarrow> npfloat" where
  "np_sqrt64 (Fin x) = (if x < 0 then NaN else binary64 (sqrt x))"
| "np_sqrt64 PInf = PInf"
| "np_sqrt64 NInf = NaN"
| "np_sqrt64 NaN = NaN"

definition norm64 :: "real list \<Rightarrow> npfloat" where
  "norm64 v = np_sqrt64 (foldl np_add64 (Fin 0) (map (\<lambda>x. binary64 (x * x)) v))"

text \<open>Arithmetic without rounding.\<close>

definition exact_norm :: "real list \<Rightarrow> npfloat" where
  "exact_norm v = Fin (euclidean_norm v)"

subsection \<open>A robot with one sliding joint\<close>

text \<open>
  The end effector sits at the joint value; a pose is its position on the axis.  The
  clock advances by a hundredth of a second per reading, and the robot is in collision
  beyond a quarter of a metre.  The joint moves a tenth of a metre per step at most
  one metre per second, so the time step is a tenth of a second.  It computes without
  rounding.
\<close>

definition slider :: "real provider" where
  "slider =
     \<lparr>clock = (\<lambda>k. real k / 100),
      GetDOFResolutions = [1 / 10],
      GetDOFVelocityLimits = [1],
      GetActiveDOFValues = [0],
      GetActiveDOFVelocities = [0],
      GetArmDOFValues = [0],
      CheckCollision = (\<lambda>q. sum_list q > 1 / 4),
      CheckSelfCollision = (\<lambda>q. False),
      GetEndEffectorTransform = sum_list,
      GeodesicTwist = (\<lambda>a b. ((b - a, 0, 0), (0, 0, 0))),
      GeodesicDistance = (\<lambda>a b. \<bar>b - a\<bar>),
      GeodesicError = (\<lambda>a b. ((b - a, 0, 0), 0)),
      ComputeJointVelocityFromTwist = (\<lambda>q twist. [fst (fst twist)]),
      linalg_norm = exact_norm,
      round_float = Fin\<rparr>"

text \<open>
  A gripper that flies freely: its configuration is \<open>[x, y, z, angle]\<close> and its pose is
  the configuration itself.  The geodesic error between two poses is the difference of
  the positions and the size of the difference of the angles; the twist is the
  difference of the positions and a rotation about one axis; the joint velocities are
  the linear part of the twist and that rotation.  It computes without rounding.
\<close>

definition flyer :: "real list provider" where
  "flyer =
     \<lparr>clock = (\<lambda>k. real k),
      GetDOFResolutions = [1, 1, 1, 1],
      GetDOFVelocityLimits = [1, 2, 3, 1],
      GetActiveDOFValues = [0, 0, 0, 0],
      GetActiveDOFVelocities = [0, 0, 0, 0],
      GetArmDOFValues = [0, 0, 0, 0],
      CheckCollision = (\<lambda>q. False),
      CheckSelfCollision = (\<lambda>q. False),
      GetEndEffectorTransform = (\<lambda>q. q),
      GeodesicTwist =
        (\<lambda>a b. case (a, b) of
                 ([x0, y0, z0, t0], [x, y, z, t]) \<Rightarrow> ((x - x0, y - y0, z - z0), (0, 0, t - t0))
               | _ \<Rightarrow> ((0, 0, 0), (0, 0, 0))),
      GeodesicDistance = (\<lambda>a b. 0),
      GeodesicError =
        (\<lambda>a b. case (a, b) of
                 ([x0, y0, z0, t0], [x, y, z, t]) \<Rightarrow> ((x - x0, y - y0, z - z0), \<bar>t - t0\<bar>)
               | _ \<Rightarrow> ((0, 0, 0), 0)),
      ComputeJointVelocityFromTwist =
        (\<lambda>q twist. case twist of ((vx, vy, vz), (wx, wy, wz)) \<Rightarrow> [vx, vy, vz, wz]),
      linalg_norm = exact_norm,
      round_float = Fin\<rparr>"

text \<open>
  A test bench: a robot at rest with the given velocity limits, one for each of its
  joints, whose Jacobian solve returns the given velocity of the arm's joints whatever
  the twist, with the given norm and rounding.  Its end effector stays where it is, and
  each joint's resolution is its velocity limit.
\<close>

definition bench ::
  "real list \<Rightarrow> real list \<Rightarrow> (real list \<Rightarrow> npfloat) \<Rightarrow> (real \<Rightarrow> npfloat) \<Rightarrow> unit provider" where
  "bench limits dq nrm rnd =
     \<lparr>clock = (\<lambda>k. real k),
      GetDOFResolutions = limits,
      GetDOFVelocityLimits = limits,
      GetActiveDOFValues = map (\<lambda>x. 0) dq,
      GetActiveDOFVelocities = map (\<lambda>x. 0) dq,
      GetArmDOFValues = map (\<lambda>x. 0) dq,
      CheckCollision = (\<lambda>q. False),
      CheckSelfCollision = (\<lambda>q. False),
      GetEndEffectorTransform = (\<lambda>q. ()),
      GeodesicTwist = (\<lambda>a b. ((0, 0, 0), (0, 0, 0))),
      GeodesicDistance = (\<lambda>a b. 1),
      GeodesicError = (\<lambda>a b. ((0, 0, 0), 0)),
      ComputeJointVelocityFromTwist = (\<lambda>q twist. dq),
      linalg_norm = nrm,
      round_float = rnd\<rparr>"

definition world0 :: world where
  "world0 = \<lparr>ticks = 0, draws = 0\<rparr>"

section \<open>Properties\<close>

lemmas slider_eval =
  slider_def world0_def loop_body_def Let_def time_time_def vf_straightline_def vf_geodesic_def
  go_as_fast_as_possible_def py_min_def np_div_def np_divide_def np_broadcast_def np_scale_def
  np_array_def exact_norm_def euclidean_norm_def vec_add_def vec_scale_def
  TerminateMove_def TerminateMove_on_def norm3_def CloseEnough_def CopyTrajectory_def
  FollowVectorField_def timestep_def initial_state_def loop_locals_def finish_def except_PlanningError_def
  PlanToEndEffectorPose_def PlanToEndEffectorOffset_def

lemmas flyer_eval =
  flyer_def world0_def loop_body_def Let_def time_time_def vf_straightline_def
  go_as_fast_as_possible_def py_min_def np_div_def np_divide_def np_broadcast_def np_scale_def
  np_array_def exact_norm_def euclidean_norm_def vec_add_def vec_scale_def
  TerminateMove_def TerminateMove_on_def norm3_def timestep_def loop_locals_def

lemmas bench_eval =
  bench_def world0_def loop_body_def Let_def time_time_def vf_straightline_def
  go_as_fast_as_possible_def py_min_def np_div_def np_divide_def np_broadcast_def np_scale_def
  np_array_def exact_norm_def euclidean_norm_def vec_add_def vec_scale_def
  TerminateMove_def TerminateMove_on_def norm3_def
  FollowVectorField_def timestep_def initial_state_def loop_locals_def finish_def
  except_PlanningError_def PlanToEndEffectorOffset_def

lemmas spec_eval =
  spec_run_def spec_pass_def spec_timeout_def spec_blocked_def spec_buffer_def spec_waypoint_def

subsection \<open>One pass of the loop\<close>

lemma Status_CONTINUE: "s \<noteq> TERMINATE \<Longrightarrow> s \<noteq> CACHE_AND_CONTINUE \<Longrightarrow> s = CONTINUE"
  by (cases s) simp_all

lemma loop_body_Next:
  assumes "loop_body R s = Next s'"
  shows "qtraj s' = qtraj s @ [\<lparr>wq = robot_q s, wdq = dqout s, wdt = run_dt R\<rparr>]"
    and "run_vectorfield R (robot_q s) = Return (dqout s')"
    and "robot_q s' = vec_add (robot_q s) (vec_scale (dqout s') (run_dt R))"
    and "run_terminate R (robot_q s) = Return CACHE_AND_CONTINUE
         \<or> run_terminate R (robot_q s) = Return CONTINUE"
    and "cached_traj s' =
           (if run_terminate R (robot_q s) = Return CACHE_AND_CONTINUE
            then Some (qtraj s') else cached_traj s)"
    and "wld s' = (wld s)\<lparr>ticks := Suc (ticks (wld s))\<rparr>"
  using assms unfolding loop_body_def Let_def time_time_def CopyTrajectory_def
  by (auto split: if_splits outcome.splits option.splits prod.splits intro: Status_CONTINUE)

lemma loop_body_Threw:
  assumes "loop_body R s = Exit (Threw e s')"
  shows "cached_traj s' = cached_traj s"
    and "qtraj s' = qtraj s
         \<or> qtraj s' = qtraj s @ [\<lparr>wq = robot_q s, wdq = dqout s, wdt = run_dt R\<rparr>]"
    and "wld s' = (wld s)\<lparr>ticks := Suc (ticks (wld s))\<rparr>"
  using assms unfolding loop_body_def Let_def time_time_def CopyTrajectory_def
  by (auto split: if_splits outcome.splits option.splits prod.splits)

lemma loop_body_Break:
  assumes "loop_body R s = Exit (Break s')"
  shows "qtraj s' = qtraj s @ [\<lparr>wq = robot_q s, wdq = dqout s, wdt = run_dt R\<rparr>]"
    and "run_terminate R (robot_q s) = Return TERMINATE"
    and "cached_traj s' = cached_traj s"
    and "wld s' = (wld s)\<lparr>ticks := Suc (ticks (wld s))\<rparr>"
  using assms unfolding loop_body_def Let_def time_time_def CopyTrajectory_def
  by (auto split: if_splits outcome.splits option.splits prod.splits)

lemma loop_body_Unmodelled:
  assumes "loop_body R s = Exit (Unmodelled s')"
  shows "wld s' = (wld s)\<lparr>ticks := Suc (ticks (wld s))\<rparr>"
  using assms unfolding loop_body_def Let_def time_time_def CopyTrajectory_def
  by (auto split: if_splits outcome.splits option.splits prod.splits)

subsection \<open>Passes and fuel\<close>

lemma iter_Suc_snoc:
  "iter R (Suc k) st =
     (case iter R k st of
        None \<Rightarrow> None
      | Some s \<Rightarrow> (case loop_body R s of Next s' \<Rightarrow> Some s' | Exit x \<Rightarrow> None))"
proof (induction k arbitrary: st)
  case 0
  show ?case by (simp split: step.splits)
next
  case (Suc k)
  show ?case
  proof (cases "loop_body R st")
    case (Next st')
    then show ?thesis using Suc.IH [of st'] by simp
  next
    case (Exit x)
    then show ?thesis by simp
  qed
qed

lemma iter_SucD:
  assumes "iter R (Suc k) st = Some s'"
  obtains s where "iter R k st = Some s" and "loop_body R s = Next s'"
  using assms unfolding iter_Suc_snoc by (auto split: option.splits step.splits)

lemma iter_earlier:
  assumes "iter R n st = Some s" and "k \<le> n"
  shows "\<exists>s'. iter R k st = Some s'"
  using assms
proof (induction n arbitrary: s)
  case 0
  then show ?case by simp
next
  case (Suc n)
  show ?case
  proof (cases "k = Suc n")
    case True
    with Suc.prems show ?thesis by blast
  next
    case False
    from Suc.prems(1) obtain s0 where "iter R n st = Some s0"
      by (rule iter_SucD)
    with Suc.IH False Suc.prems(2) show ?thesis by simp
  qed
qed

lemma while_loop_iter:
  "iter R k st = Some s \<Longrightarrow> loop_body R s = Exit x \<Longrightarrow> k < fuel \<Longrightarrow>
   while_loop fuel R st = Some x"
proof (induction k arbitrary: st fuel)
  case 0
  then obtain f where "fuel = Suc f" by (cases fuel) auto
  with 0 show ?case by simp
next
  case (Suc k)
  then obtain f where f: "fuel = Suc f" by (cases fuel) auto
  from Suc.prems(1) obtain st' where n: "loop_body R st = Next st'" and i: "iter R k st' = Some s"
    by (cases "loop_body R st") auto
  from Suc.IH [OF i Suc.prems(2), of f] Suc.prems(3) f n show ?case by simp
qed

lemma while_loop_Some:
  "while_loop fuel R st = Some x \<Longrightarrow>
   \<exists>k s. k < fuel \<and> iter R k st = Some s \<and> loop_body R s = Exit x"
proof (induction fuel arbitrary: st)
  case 0
  then show ?case by simp
next
  case (Suc f)
  show ?case
  proof (cases "loop_body R st")
    case (Next st')
    with Suc.prems have "while_loop f R st' = Some x" by simp
    from Suc.IH [OF this] obtain k s
      where "k < f" "iter R k st' = Some s" "loop_body R s = Exit x"
      by blast
    with Next have "Suc k < Suc f \<and> iter R (Suc k) st = Some s \<and> loop_body R s = Exit x"
      by simp
    then show ?thesis by blast
  next
    case (Exit y)
    with Suc.prems have "0 < Suc f \<and> iter R 0 st = Some st \<and> loop_body R st = Exit x"
      by simp
    then show ?thesis by blast
  qed
qed

subsection \<open>The evaluator of PlanToEndEffectorOffset\<close>

text \<open>
  Claim C3.  The evaluator of PlanToEndEffectorOffset reads the geodesic error from the
  start pose to the current pose and checks, in this order: it fails when the size of
  the orientation component exceeds the angular tolerance; otherwise it fails when the
  norm of the position error, with its projection onto the direction removed, exceeds
  the position tolerance; otherwise it returns \<open>TERMINATE\<close> when the projection
  exceeds \<open>max_distance\<close>, \<open>CACHE_AND_CONTINUE\<close> when it exceeds \<open>distance\<close>,
  and \<open>CONTINUE\<close> otherwise.
\<close>

theorem TerminateMove_check_order:
  assumes "error = GeodesicError P Tstart (GetEndEffectorTransform P q)"
    and "distance_moved = dot3 (fst error) direction"
    and "position_deviation = norm3 P (sub3 (fst error) (scale3 distance_moved direction))"
    and "result = TerminateMove P Tstart direction distance max_distance
                    position_tolerance angular_tolerance q"
  shows "(\<bar>snd error\<bar> > angular_tolerance \<longrightarrow>
            result = Raise (PlanningError ''Deviated from orientation constraint.''))
       \<and> (\<not> \<bar>snd error\<bar> > angular_tolerance \<and> np_lt (Fin position_tolerance) position_deviation \<longrightarrow>
            result = Raise (PlanningError ''Deviated from straight line constraint.''))
       \<and> (\<not> \<bar>snd error\<bar> > angular_tolerance \<and> \<not> np_lt (Fin position_tolerance) position_deviation
            \<and> distance_moved > max_distance \<longrightarrow> result = Return TERMINATE)
       \<and> (\<not> \<bar>snd error\<bar> > angular_tolerance \<and> \<not> np_lt (Fin position_tolerance) position_deviation
            \<and> \<not> distance_moved > max_distance \<and> distance_moved > distance \<longrightarrow>
            result = Return CACHE_AND_CONTINUE)
       \<and> (\<not> \<bar>snd error\<bar> > angular_tolerance \<and> \<not> np_lt (Fin position_tolerance) position_deviation
            \<and> \<not> distance_moved > max_distance \<and> \<not> distance_moved > distance \<longrightarrow>
            result = Return CONTINUE)"
  using assms by (simp add: TerminateMove_def TerminateMove_on_def Let_def)

theorem TerminateMove_check_order_witness:
  "TerminateMove flyer [0, 0, 0, 0] (1, 0, 0) (1 / 10) (1 / 2) (1 / 100) (15 / 100) [5, 1, 0, 1]
     = Raise (PlanningError ''Deviated from orientation constraint.'')
   \<and> TerminateMove flyer [0, 0, 0, 0] (1, 0, 0) (1 / 10) (1 / 2) (1 / 100) (15 / 100) [5, 1, 0, 0]
     = Raise (PlanningError ''Deviated from straight line constraint.'')
   \<and> TerminateMove flyer [0, 0, 0, 0] (1, 0, 0) (1 / 10) (1 / 2) (1 / 100) (15 / 100) [5, 0, 0, 0]
     = Return TERMINATE
   \<and> TerminateMove flyer [0, 0, 0, 0] (1, 0, 0) (1 / 10) (1 / 2) (1 / 100) (15 / 100) [1 / 5, 0, 0, 0]
     = Return CACHE_AND_CONTINUE
   \<and> TerminateMove flyer [0, 0, 0, 0] (1, 0, 0) (1 / 10) (1 / 2) (1 / 100) (15 / 100) [0, 0, 0, 0]
     = Return CONTINUE"
proof -
  note ev = flyer_def norm3_def exact_norm_def euclidean_norm_def
  have 1: "TerminateMove flyer [0, 0, 0, 0] (1, 0, 0) (1 / 10) (1 / 2) (1 / 100) (15 / 100) [5, 1, 0, 1]
     = Raise (PlanningError ''Deviated from orientation constraint.'')"
    using TerminateMove_check_order [OF refl refl refl refl, where P = flyer and Tstart = "[0, 0, 0, 0]"
          and q = "[5, 1, 0, 1]" and direction = "(1, 0, 0)" and distance = "1 / 10"
          and max_distance = "1 / 2" and position_tolerance = "1 / 100"
          and angular_tolerance = "15 / 100"]
    by (simp add: ev)
  have 2: "TerminateMove flyer [0, 0, 0, 0] (1, 0, 0) (1 / 10) (1 / 2) (1 / 100) (15 / 100) [5, 1, 0, 0]
     = Raise (PlanningError ''Deviated from straight line constraint.'')"
    using TerminateMove_check_order [OF refl refl refl refl, where P = flyer and Tstart = "[0, 0, 0, 0]"
          and q = "[5, 1, 0, 0]" and direction = "(1, 0, 0)" and distance = "1 / 10"
          and max_distance = "1 / 2" and position_tolerance = "1 / 100"
          and angular_tolerance = "15 / 100"]
    by (simp add: ev)
  have 3: "TerminateMove flyer [0, 0, 0, 0] (1, 0, 0) (1 / 10) (1 / 2) (1 / 100) (15 / 100) [5, 0, 0, 0]
     = Return TERMINATE"
    using TerminateMove_check_order [OF refl refl refl refl, where P = flyer and Tstart = "[0, 0, 0, 0]"
          and q = "[5, 0, 0, 0]" and direction = "(1, 0, 0)" and distance = "1 / 10"
          and max_distance = "1 / 2" and position_tolerance = "1 / 100"
          and angular_tolerance = "15 / 100"]
    by (simp add: ev)
  have 4: "TerminateMove flyer [0, 0, 0, 0] (1, 0, 0) (1 / 10) (1 / 2) (1 / 100) (15 / 100) [1 / 5, 0, 0, 0]
     = Return CACHE_AND_CONTINUE"
    using TerminateMove_check_order [OF refl refl refl refl, where P = flyer and Tstart = "[0, 0, 0, 0]"
          and q = "[1 / 5, 0, 0, 0]" and direction = "(1, 0, 0)" and distance = "1 / 10"
          and max_distance = "1 / 2" and position_tolerance = "1 / 100"
          and angular_tolerance = "15 / 100"]
    by (simp add: ev)
  have 5: "TerminateMove flyer [0, 0, 0, 0] (1, 0, 0) (1 / 10) (1 / 2) (1 / 100) (15 / 100) [0, 0, 0, 0]
     = Return CONTINUE"
    using TerminateMove_check_order [OF refl refl refl refl, where P = flyer and Tstart = "[0, 0, 0, 0]"
          and q = "[0, 0, 0, 0]" and direction = "(1, 0, 0)" and distance = "1 / 10"
          and max_distance = "1 / 2" and position_tolerance = "1 / 100"
          and angular_tolerance = "15 / 100"]
    by (simp add: ev)
  from 1 2 3 4 5 show ?thesis by blast
qed

subsection \<open>What the passes leave in the buffer\<close>

lemma iter_length_qtraj:
  assumes "iter R k s0 = Some s"
  shows "length (qtraj s) = length (qtraj s0) + k"
  using assms
proof (induction k arbitrary: s)
  case 0
  then show ?case by simp
next
  case (Suc k)
  from Suc.prems obtain sk where sk: "iter R k s0 = Some sk" and nx: "loop_body R sk = Next s"
    by (rule iter_SucD)
  from Suc.IH [OF sk] loop_body_Next(1) [OF nx] show ?case by simp
qed

lemma iter_ticks:
  assumes "iter R k s0 = Some s"
  shows "wld s = (wld s0)\<lparr>ticks := ticks (wld s0) + k\<rparr>"
  using assms
proof (induction k arbitrary: s)
  case 0
  then show ?case by simp
next
  case (Suc k)
  from Suc.prems obtain sk where sk: "iter R k s0 = Some sk" and nx: "loop_body R sk = Next s"
    by (rule iter_SucD)
  from Suc.IH [OF sk] loop_body_Next(6) [OF nx] show ?case by simp
qed

lemma iter_prefix:
  assumes "iter R k s0 = Some sk" and "iter R n s0 = Some sn" and "k \<le> n"
  shows "prefix (qtraj sk) (qtraj sn)"
  using assms(2,3)
proof (induction n arbitrary: sn)
  case 0
  with assms(1) show ?case by simp
next
  case (Suc n)
  from Suc.prems(1) obtain s where s: "iter R n s0 = Some s" and nx: "loop_body R s = Next sn"
    by (rule iter_SucD)
  show ?case
  proof (cases "k = Suc n")
    case True
    with assms(1) Suc.prems(1) show ?thesis by simp
  next
    case False
    with Suc.prems(2) have "k \<le> n" by simp
    from Suc.IH [OF s this] have "prefix (qtraj sk) (qtraj s)" .
    moreover from loop_body_Next(1) [OF nx] have "prefix (qtraj s) (qtraj sn)" by simp
    ultimately show ?thesis by (rule prefix_order.trans)
  qed
qed

lemma iter_waypoint:
  assumes "iter R n s0 = Some sn" and "qtraj s0 = []" and "i < n"
  shows "\<exists>si. iter R i s0 = Some si
           \<and> qtraj sn ! i = \<lparr>wq = robot_q si, wdq = dqout si, wdt = run_dt R\<rparr>"
  using assms(1,3)
proof (induction n arbitrary: sn)
  case 0
  then show ?case by simp
next
  case (Suc n)
  from Suc.prems(1) obtain s where s: "iter R n s0 = Some s" and nx: "loop_body R s = Next sn"
    by (rule iter_SucD)
  have len: "length (qtraj s) = n"
    using iter_length_qtraj [OF s] assms(2) by simp
  have q: "qtraj sn = qtraj s @ [\<lparr>wq = robot_q s, wdq = dqout s, wdt = run_dt R\<rparr>]"
    by (rule loop_body_Next(1) [OF nx])
  show ?case
  proof (cases "i = n")
    case True
    with s q len show ?thesis by (simp add: nth_append)
  next
    case False
    with Suc.prems(2) have "i < n" by simp
    from Suc.IH [OF s this] obtain si where "iter R i s0 = Some si"
      and "qtraj s ! i = \<lparr>wq = robot_q si, wdq = dqout si, wdt = run_dt R\<rparr>"
      by blast
    with q len \<open>i < n\<close> show ?thesis by (simp add: nth_append)
  qed
qed

subsection \<open>The cache slot\<close>

lemma evaluates_cache_iff:
  assumes "iter R k s0 = Some s" and "loop_body R s = Next s'"
  shows "evaluates_cache R s0 k \<longleftrightarrow> run_terminate R (robot_q s) = Return CACHE_AND_CONTINUE"
  using assms unfolding evaluates_cache_def iter_Suc_snoc by simp

lemma last_cache_less: "last_cache R s0 n = Some m \<Longrightarrow> m < n"
  by (induction n) (auto split: if_splits)

lemma last_cache_None: "last_cache R s0 n = None \<longleftrightarrow> (\<forall>k<n. \<not> evaluates_cache R s0 k)"
  by (induction n) (auto simp: less_Suc_eq)

lemma last_cache_Some:
  "last_cache R s0 n = Some m \<longleftrightarrow>
     m < n \<and> evaluates_cache R s0 m \<and> (\<forall>j<n. m < j \<longrightarrow> \<not> evaluates_cache R s0 j)"
proof (induction n)
  case 0
  show ?case by simp
next
  case (Suc n)
  show ?case
  proof (cases "evaluates_cache R s0 n")
    case True
    then show ?thesis
      by (auto simp: less_Suc_eq intro: antisym dest: not_less_iff_gr_or_eq [THEN iffD1])
  next
    case False
    then show ?thesis using Suc.IH by (auto simp: less_Suc_eq)
  qed
qed

lemma iter_cached_traj:
  assumes "iter R n s0 = Some sn" and "qtraj s0 = []" and "cached_traj s0 = None"
  shows "cached_traj sn = map_option (\<lambda>m. take (Suc m) (qtraj sn)) (last_cache R s0 n)"
  using assms(1)
proof (induction n arbitrary: sn)
  case 0
  with assms(3) show ?case by simp
next
  case (Suc n)
  from Suc.prems(1) obtain s where s: "iter R n s0 = Some s" and nx: "loop_body R s = Next sn"
    by (rule iter_SucD)
  have len: "length (qtraj s) = n"
    using iter_length_qtraj [OF s] assms(2) by simp
  have q: "qtraj sn = qtraj s @ [\<lparr>wq = robot_q s, wdq = dqout s, wdt = run_dt R\<rparr>]"
    by (rule loop_body_Next(1) [OF nx])
  note ev = evaluates_cache_iff [OF s nx]
  show ?case
  proof (cases "evaluates_cache R s0 n")
    case True
    with ev loop_body_Next(5) [OF nx] q len show ?thesis by simp
  next
    case False
    with ev loop_body_Next(5) [OF nx] have c: "cached_traj sn = cached_traj s" by simp
    show ?thesis
    proof (cases "last_cache R s0 n")
      case None
      with c Suc.IH [OF s] False show ?thesis by simp
    next
      case (Some m)
      then have "m < n" by (rule last_cache_less)
      with c Suc.IH [OF s] False Some q len show ?thesis by simp
    qed
  qed
qed

subsection \<open>The result of FollowVectorField\<close>

lemma FollowVectorField_finite:
  assumes "timestep P = Return (Fin dt)"
  shows "FollowVectorField fuel P fn_vectorfield fn_terminate timelimit dq_tol w =
           map_option finish
             (while_loop fuel
                (loop_locals P fn_vectorfield fn_terminate timelimit dq_tol (clock P (ticks w)) dt)
                (initial_state P (w\<lparr>ticks := Suc (ticks w)\<rparr>)))"
  using assms by (simp add: FollowVectorField_def time_time_def)

subsection \<open>The waypoints of a run\<close>

lemma loop_body_Exit_qtraj:
  assumes "loop_body R s = Exit x"
  shows "qtraj (exit_state x) = qtraj s
         \<or> qtraj (exit_state x) = qtraj s @ [\<lparr>wq = robot_q s, wdq = dqout s, wdt = run_dt R\<rparr>]"
  using assms unfolding loop_body_def Let_def time_time_def CopyTrajectory_def
  by (auto split: if_splits outcome.splits option.splits prod.splits)

lemma loop_body_Exit_cached:
  assumes "loop_body R s = Exit x" and "cached_traj (exit_state x) = Some traj"
    and "cached_traj s = None \<or> (\<exists>t. cached_traj s = Some t \<and> prefix t (qtraj s))"
  shows "prefix traj (qtraj (exit_state x))"
  using assms unfolding loop_body_def Let_def time_time_def CopyTrajectory_def
  by (auto split: if_splits outcome.splits option.splits prod.splits)

lemma exit_waypoint:
  assumes "iter R n s0 = Some sn" and "loop_body R sn = Exit x" and "qtraj s0 = []"
    and "i < length (qtraj (exit_state x))"
  shows "i \<le> n \<and> (\<exists>si. iter R i s0 = Some si
           \<and> qtraj (exit_state x) ! i = \<lparr>wq = robot_q si, wdq = dqout si, wdt = run_dt R\<rparr>)"
proof -
  have len: "length (qtraj sn) = n"
    using iter_length_qtraj [OF assms(1)] assms(3) by simp
  show ?thesis
  proof (cases "i < n")
    case True
    from iter_waypoint [OF assms(1,3) True] obtain si where si: "iter R i s0 = Some si"
      and w: "qtraj sn ! i = \<lparr>wq = robot_q si, wdq = dqout si, wdt = run_dt R\<rparr>"
      by blast
    from loop_body_Exit_qtraj [OF assms(2)] w len True
    have "qtraj (exit_state x) ! i = \<lparr>wq = robot_q si, wdq = dqout si, wdt = run_dt R\<rparr>"
      by (auto simp: nth_append)
    with si True show ?thesis by auto
  next
    case False
    with loop_body_Exit_qtraj [OF assms(2)] assms(4) len
    have "i = n" and "qtraj (exit_state x) ! i = \<lparr>wq = robot_q sn, wdq = dqout sn, wdt = run_dt R\<rparr>"
      by (auto simp: nth_append)
    with assms(1) show ?thesis by auto
  qed
qed

lemma FollowVectorField_Return:
  assumes "timestep P = Return (Fin dt)"
    and "R = loop_locals P fn_vectorfield fn_terminate timelimit dq_tol (clock P (ticks w)) dt"
    and "s0 = initial_state P (w\<lparr>ticks := Suc (ticks w)\<rparr>)"
    and "FollowVectorField fuel P fn_vectorfield fn_terminate timelimit dq_tol w
           = Some (Return traj, w')"
  shows "\<exists>n sn x. n < fuel \<and> iter R n s0 = Some sn \<and> loop_body R sn = Exit x
           \<and> prefix traj (qtraj (exit_state x))
           \<and> (x = Break (exit_state x) \<and> traj = qtraj (exit_state x)
              \<or> (\<exists>e. x = Threw e (exit_state x) \<and> isinstance_PlanningError e
                    \<and> cached_traj (exit_state x) = Some traj))"
proof -
  have q0: "qtraj s0 = []" and c0: "cached_traj s0 = None"
    using assms(3) by (simp_all add: initial_state_def)
  from assms(4) FollowVectorField_finite [OF assms(1)] assms(2,3)
  obtain x where wl: "while_loop fuel R s0 = Some x" and fin: "finish x = (Return traj, w')"
    by auto
  from while_loop_Some [OF wl] obtain n sn where n: "n < fuel" and sn: "iter R n s0 = Some sn"
    and lb: "loop_body R sn = Exit x"
    by blast
  have inv: "cached_traj sn = None \<or> (\<exists>t. cached_traj sn = Some t \<and> prefix t (qtraj sn))"
    using iter_cached_traj [OF sn q0 c0] by (cases "last_cache R s0 n") (auto simp: take_is_prefix)
  have "prefix traj (qtraj (exit_state x))
           \<and> (x = Break (exit_state x) \<and> traj = qtraj (exit_state x)
              \<or> (\<exists>e. x = Threw e (exit_state x) \<and> isinstance_PlanningError e
                    \<and> cached_traj (exit_state x) = Some traj))"
  proof (cases x)
    case (Break s')
    with fin show ?thesis by (simp add: finish_def)
  next
    case (Threw e s')
    with fin have "isinstance_PlanningError e" and c: "cached_traj s' = Some traj"
      by (auto simp: finish_def except_PlanningError_def split: if_splits option.splits)
    moreover from loop_body_Exit_cached [OF lb _ inv, of traj] c Threw
    have "prefix traj (qtraj s')" by simp
    ultimately show ?thesis using Threw by simp
  next
    case (Unmodelled s')
    with fin show ?thesis by (simp add: finish_def)
  qed
  with n sn lb show ?thesis by blast
qed

subsection \<open>Python's min over an array with infinities and nan\<close>

lemma py_min_from_NInf [simp]: "py_min_from NInf xs = NInf"
  by (induction xs) simp_all

lemma py_min_from_NaN [simp]: "py_min_from NaN xs = NaN"
  by (induction xs) simp_all

lemma py_min_from_Fin:
  assumes "py_min_from m xs = Fin d"
  shows "Fin d \<in> set (m # xs) \<and> (\<forall>y. Fin y \<in> set (m # xs) \<longrightarrow> d \<le> y)"
  using assms
proof (induction xs arbitrary: m)
  case Nil
  then show ?case by simp
next
  case (Cons x xs)
  let ?m = "if np_lt x m then x else m"
  from Cons.prems have r: "py_min_from ?m xs = Fin d" by simp
  from Cons.IH [OF r] have mem: "Fin d \<in> set (?m # xs)"
    and low: "\<And>y. Fin y \<in> set (?m # xs) \<Longrightarrow> d \<le> y"
    by blast+
  have "d \<le> y" if y: "Fin y \<in> set (m # x # xs)" for y
  proof -
    from y consider "Fin y \<in> set xs" | "m = Fin y" | "x = Fin y" by auto
    then show ?thesis
    proof cases
      case 1
      then show ?thesis using low by simp
    next
      case 2
      show ?thesis
      proof (cases "np_lt x m")
        case False
        with 2 low show ?thesis by simp
      next
        case True
        with 2 obtain a where "x = Fin a \<and> a < y \<or> x = NInf" by (cases x) auto
        with r True low [of a] show ?thesis by auto
      qed
    next
      case 3
      show ?thesis
      proof (cases "np_lt x m")
        case True
        with 3 low show ?thesis by simp
      next
        case False
        show ?thesis
        proof (cases m)
          case (Fin b)
          with False 3 have "b \<le> y" by simp
          moreover from Fin False low [of b] have "d \<le> b" by simp
          ultimately show ?thesis by simp
        next
          case PInf
          with False 3 show ?thesis by simp
        next
          case NInf
          with False r show ?thesis by simp
        next
          case NaN
          with False r show ?thesis by simp
        qed
      qed
    qed
  qed
  moreover from mem have "Fin d \<in> set (m # x # xs)" by (auto split: if_splits)
  ultimately show ?case by blast
qed

lemma py_min_Fin:
  assumes "py_min xs = Return (Fin d)"
  shows "Fin d \<in> set xs \<and> (\<forall>y. Fin y \<in> set xs \<longrightarrow> d \<le> y)"
proof (cases xs)
  case Nil
  with assms show ?thesis by (simp add: py_min_def)
next
  case (Cons x ys)
  with assms have "py_min_from x ys = Fin d" by (simp add: py_min_def)
  from py_min_from_Fin [OF this] Cons show ?thesis by simp
qed

lemma np_div_Fin: "np_div a b = Fin d \<longleftrightarrow> b \<noteq> 0 \<and> d = a / b"
  by (auto simp: np_div_def)

lemma timestep_minimum:
  assumes "timestep P = Return (Fin dt)"
  shows "(\<exists>j. j < length (GetDOFResolutions P) \<and> j < length (GetDOFVelocityLimits P)
             \<and> GetDOFVelocityLimits P ! j \<noteq> 0
             \<and> dt = GetDOFResolutions P ! j / GetDOFVelocityLimits P ! j)
       \<and> (\<forall>j. j < length (GetDOFResolutions P) \<and> j < length (GetDOFVelocityLimits P)
             \<and> GetDOFVelocityLimits P ! j \<noteq> 0
             \<longrightarrow> dt \<le> GetDOFResolutions P ! j / GetDOFVelocityLimits P ! j)"
proof -
  let ?xs = "map2 np_div (GetDOFResolutions P) (GetDOFVelocityLimits P)"
  from assms have "py_min ?xs = Return (Fin dt)" by (simp add: timestep_def)
  from py_min_Fin [OF this] have mem: "Fin dt \<in> set ?xs"
    and low: "\<And>y. Fin y \<in> set ?xs \<Longrightarrow> dt \<le> y"
    by blast+
  from mem obtain j where "j < length ?xs" and "?xs ! j = Fin dt"
    by (auto simp: in_set_conv_nth)
  then have "j < length (GetDOFResolutions P) \<and> j < length (GetDOFVelocityLimits P)
             \<and> GetDOFVelocityLimits P ! j \<noteq> 0
             \<and> dt = GetDOFResolutions P ! j / GetDOFVelocityLimits P ! j"
    by (auto simp: np_div_Fin)
  moreover have "dt \<le> GetDOFResolutions P ! j / GetDOFVelocityLimits P ! j"
    if "j < length (GetDOFResolutions P)" and "j < length (GetDOFVelocityLimits P)"
      and "GetDOFVelocityLimits P ! j \<noteq> 0" for j
  proof -
    from that have "j < length ?xs"
      and "?xs ! j = Fin (GetDOFResolutions P ! j / GetDOFVelocityLimits P ! j)"
      by (simp_all add: np_div_def)
    then have "Fin (GetDOFResolutions P ! j / GetDOFVelocityLimits P ! j) \<in> set ?xs"
      by (metis nth_mem)
    then show ?thesis by (rule low)
  qed
  ultimately show ?thesis by blast
qed

subsection \<open>The time step of a run\<close>

lemma FollowVectorField_Return_timestep:
  assumes "FollowVectorField fuel P fn_vectorfield fn_terminate timelimit dq_tol w
           = Some (Return traj, w')"
  shows "\<exists>dt. timestep P = Return (Fin dt)"
proof (cases "timestep P")
  case (Return x)
  with assms show ?thesis
    by (cases x) (simp_all add: FollowVectorField_def time_time_def)
next
  case (Raise e)
  with assms show ?thesis
    by (simp add: FollowVectorField_def time_time_def except_PlanningError_def
        split: if_splits)
next
  case NonFinite
  with assms show ?thesis
    by (simp add: FollowVectorField_def time_time_def)
qed

lemma loop_body_appends:
  "case loop_body R s of
     Next s' \<Rightarrow> \<exists>wp. qtraj s' = qtraj s @ [wp] \<and> wdt wp = run_dt R
   | Exit x \<Rightarrow> qtraj (exit_state x) = qtraj s
              \<or> (\<exists>wp. qtraj (exit_state x) = qtraj s @ [wp] \<and> wdt wp = run_dt R)"
proof (cases "loop_body R s")
  case (Next s')
  from loop_body_Next(1) [OF this] Next show ?thesis by simp
next
  case (Exit x)
  from loop_body_Exit_qtraj [OF this] Exit show ?thesis by auto
qed

lemma cumulative_time_Suc:
  assumes "k < length traj"
  shows "cumulative_time traj (Suc k) = cumulative_time traj k + wdt (traj ! k)"
  using assms by (simp add: cumulative_time_def take_Suc_conv_app_nth)

text \<open>
  Claim C7.  When FollowVectorField returns a trajectory, the time step was computed at
  setup as the minimum over the joints of resolution divided by velocity limit (it is
  one of these quotients and not above any of them), every waypoint of the trajectory
  carries this time step, and the cumulative time grows by it from each waypoint to the
  next.  A pass of the loop leaves the buffer as it is or appends one waypoint with the
  time step of the run; it never removes or reorders waypoints.
\<close>

theorem timestep_fixed_for_run:
  fixes P :: "'p provider"
  assumes "FollowVectorField fuel P fn_vectorfield fn_terminate timelimit dq_tol w
           = Some (Return traj, w')"
  shows "\<exists>dt. timestep P = Return (Fin dt)
       \<and> (\<exists>j. j < length (GetDOFResolutions P) \<and> j < length (GetDOFVelocityLimits P)
             \<and> GetDOFVelocityLimits P ! j \<noteq> 0
             \<and> dt = GetDOFResolutions P ! j / GetDOFVelocityLimits P ! j)
       \<and> (\<forall>j. j < length (GetDOFResolutions P) \<and> j < length (GetDOFVelocityLimits P)
             \<and> GetDOFVelocityLimits P ! j \<noteq> 0
             \<longrightarrow> dt \<le> GetDOFResolutions P ! j / GetDOFVelocityLimits P ! j)
       \<and> (\<forall>i<length traj. wdt (traj ! i) = dt)
       \<and> (\<forall>k<length traj. cumulative_time traj (Suc k) = cumulative_time traj k + dt)
       \<and> (\<forall>(R::'p run) s. run_dt R = dt \<longrightarrow>
            (case loop_body R s of
               Next s' \<Rightarrow> \<exists>wp. qtraj s' = qtraj s @ [wp] \<and> wdt wp = dt
             | Exit x \<Rightarrow> qtraj (exit_state x) = qtraj s
                        \<or> (\<exists>wp. qtraj (exit_state x) = qtraj s @ [wp] \<and> wdt wp = dt)))"
proof -
  from FollowVectorField_Return_timestep [OF assms] obtain dt
    where ts: "timestep P = Return (Fin dt)"
    by blast
  define R where "R = loop_locals P fn_vectorfield fn_terminate timelimit dq_tol
                        (clock P (ticks w)) dt"
  define s0 where "s0 = initial_state P (w\<lparr>ticks := Suc (ticks w)\<rparr>)"
  have q0: "qtraj s0 = []" by (simp add: s0_def initial_state_def)
  have dt: "run_dt R = dt" by (simp add: R_def loop_locals_def)
  from FollowVectorField_Return [OF ts R_def s0_def assms] obtain n sn x
    where sn: "iter R n s0 = Some sn" and lb: "loop_body R sn = Exit x"
      and pre: "prefix traj (qtraj (exit_state x))"
    by blast
  have wp: "wdt (traj ! i) = dt" if i: "i < length traj" for i
  proof -
    from pre have "length traj \<le> length (qtraj (exit_state x))" by (rule prefix_length_le)
    with i have i': "i < length (qtraj (exit_state x))" by simp
    from exit_waypoint [OF sn lb q0 i'] obtain si :: loop_state
      where "qtraj (exit_state x) ! i = \<lparr>wq = robot_q si, wdq = dqout si, wdt = run_dt R\<rparr>"
      by blast
    moreover from pre i have "traj ! i = qtraj (exit_state x) ! i"
      by (auto simp: prefix_def nth_append)
    ultimately show ?thesis using dt by simp
  qed
  have cum: "cumulative_time traj (Suc k) = cumulative_time traj k + dt"
    if "k < length traj" for k
    using cumulative_time_Suc [OF that] wp [OF that] by simp
  have app: "case loop_body R' s of
               Next s' \<Rightarrow> \<exists>wp. qtraj s' = qtraj s @ [wp] \<and> wdt wp = dt
             | Exit x \<Rightarrow> qtraj (exit_state x) = qtraj s
                        \<or> (\<exists>wp. qtraj (exit_state x) = qtraj s @ [wp] \<and> wdt wp = dt)"
    if "run_dt R' = dt" for R' :: "'p run" and s
    unfolding that [symmetric] by (rule loop_body_appends)
  from ts timestep_minimum [OF ts] wp cum app show ?thesis by blast
qed

theorem timestep_fixed_for_run_witness:
  "FollowVectorField 5 slider (vf_straightline slider 0 (1, 0, 0))
       (TerminateMove slider 0 (1, 0, 0) (1 / 20) (3 / 20) (1 / 100) (15 / 100))
       None (1 / 10000) world0
     = Some (Return [\<lparr>wq = [0], wdq = [0], wdt = 1 / 10\<rparr>,
                     \<lparr>wq = [1 / 10], wdq = [1], wdt = 1 / 10\<rparr>,
                     \<lparr>wq = [1 / 5], wdq = [1], wdt = 1 / 10\<rparr>],
             \<lparr>ticks = 4, draws = 0\<rparr>)
   \<and> timestep slider = Return (Fin (1 / 10))
   \<and> cumulative_time [\<lparr>wq = [0], wdq = [0], wdt = 1 / 10\<rparr>,
                       \<lparr>wq = [1 / 10], wdq = [1], wdt = 1 / 10\<rparr>,
                       \<lparr>wq = [1 / 5], wdq = [1], wdt = 1 / 10\<rparr>] (Suc 2)
     = cumulative_time [\<lparr>wq = [0], wdq = [0], wdt = 1 / 10\<rparr>,
                       \<lparr>wq = [1 / 10], wdq = [1], wdt = 1 / 10\<rparr>,
                       \<lparr>wq = [1 / 5], wdq = [1], wdt = 1 / 10\<rparr>] 2 + 1 / 10"
proof -
  define traj where "traj = [\<lparr>wq = [0], wdq = [0], wdt = 1 / 10\<rparr>,
                     \<lparr>wq = [1 / 10], wdq = [1], wdt = 1 / 10\<rparr>,
                     \<lparr>wq = [1 / 5::real], wdq = [1], wdt = 1 / 10\<rparr>]"
  have ts: "timestep slider = Return (Fin (1 / 10))"
    by (simp add: slider_eval)
  have run: "FollowVectorField 5 slider (vf_straightline slider 0 (1, 0, 0))
       (TerminateMove slider 0 (1, 0, 0) (1 / 20) (3 / 20) (1 / 100) (15 / 100))
       None (1 / 10000) world0 = Some (Return traj, \<lparr>ticks = 4, draws = 0\<rparr>)"
    by (simp add: traj_def slider_eval eval_nat_numeral)
  from timestep_fixed_for_run [OF run] obtain dt
    where "timestep slider = Return (Fin dt)"
      and cum: "\<forall>k<length traj. cumulative_time traj (Suc k) = cumulative_time traj k + dt"
    by blast
  with ts have "dt = 1 / 10" by simp
  moreover have "2 < length traj" by (simp add: traj_def)
  ultimately have "cumulative_time traj (Suc 2) = cumulative_time traj 2 + 1 / 10"
    using cum by blast
  with run ts show ?thesis unfolding traj_def by blast
qed

subsection \<open>PlanToEndEffectorPose\<close>

lemma CloseEnough_status:
  "CloseEnough P goal_pose pose_error_tol q = Return TERMINATE
   \<or> CloseEnough P goal_pose pose_error_tol q = Return CONTINUE"
  by (simp add: CloseEnough_def Let_def)

text \<open>
  Claim C10.  The evaluator that PlanToEndEffectorPose builds returns \<open>TERMINATE\<close> or
  \<open>CONTINUE\<close> and nothing else.  So in every run of PlanToEndEffectorPose the cache
  slot stays empty, a failure raised in the loop always reaches the caller, and a
  trajectory that is returned is the buffer of a run that left the loop through
  \<^verbatim>\<open>break\<close>, never a cached one.
\<close>

theorem pose_planner_never_returns_cache:
  fixes P :: "'p provider"
  assumes "timestep P = Return (Fin dt)"
    and "R = loop_locals P (vf_geodesic P goal_pose) (CloseEnough P goal_pose pose_error_tol)
               timelimit (1 / 10000) (clock P (ticks w)) dt"
    and "s0 = initial_state P (w\<lparr>ticks := Suc (ticks w)\<rparr>)"
  shows "(\<forall>q. CloseEnough P goal_pose pose_error_tol q = Return TERMINATE
             \<or> CloseEnough P goal_pose pose_error_tol q = Return CONTINUE)
       \<and> (\<forall>n sn. iter R n s0 = Some sn \<longrightarrow> cached_traj sn = None)
       \<and> (\<forall>n sn e s'. iter R n s0 = Some sn \<and> loop_body R sn = Exit (Threw e s') \<and> n < fuel
             \<longrightarrow> cached_traj s' = None
               \<and> PlanToEndEffectorPose fuel P goal_pose timelimit pose_error_tol w
                   = Some (Raise e, wld s'))
       \<and> (\<forall>traj w'. PlanToEndEffectorPose fuel P goal_pose timelimit pose_error_tol w
                       = Some (Return traj, w')
             \<longrightarrow> (\<exists>n sn s'. iter R n s0 = Some sn \<and> loop_body R sn = Exit (Break s')
                     \<and> traj = qtraj s'))"
proof -
  have q0: "qtraj s0 = []" and c0: "cached_traj s0 = None"
    using assms(3) by (simp_all add: initial_state_def)
  have ft: "run_terminate R = CloseEnough P goal_pose pose_error_tol"
    using assms(2) by (simp add: loop_locals_def)
  have never: "\<not> evaluates_cache R s0 k" for k
  proof
    assume "evaluates_cache R s0 k"
    then obtain s :: loop_state
      where "run_terminate R (robot_q s) = Return CACHE_AND_CONTINUE"
      unfolding evaluates_cache_def by (auto split: option.splits)
    with ft CloseEnough_status [of P goal_pose pose_error_tol "robot_q s"] show False
      by simp
  qed
  have empty: "cached_traj sn = None" if sn: "iter R n s0 = Some sn" for n sn
  proof -
    from never have "last_cache R s0 n = None" by (simp add: last_cache_None)
    with iter_cached_traj [OF sn q0 c0] show ?thesis by simp
  qed
  have fail: "cached_traj s' = None
               \<and> PlanToEndEffectorPose fuel P goal_pose timelimit pose_error_tol w
                   = Some (Raise e, wld s')"
    if sn: "iter R n s0 = Some sn" and lb: "loop_body R sn = Exit (Threw e s')" and n: "n < fuel"
    for n sn e s'
  proof -
    from loop_body_Threw(1) [OF lb] empty [OF sn] have c: "cached_traj s' = None" by simp
    from while_loop_iter [OF sn lb n] have "while_loop fuel R s0 = Some (Threw e s')" .
    with FollowVectorField_finite [OF assms(1)] assms(2,3) c
    have "PlanToEndEffectorPose fuel P goal_pose timelimit pose_error_tol w
            = Some (Raise e, wld s')"
      by (simp add: PlanToEndEffectorPose_def finish_def except_PlanningError_def)
    with c show ?thesis by simp
  qed
  have ret: "\<exists>n sn s'. iter R n s0 = Some sn \<and> loop_body R sn = Exit (Break s')
                     \<and> traj = qtraj s'"
    if r: "PlanToEndEffectorPose fuel P goal_pose timelimit pose_error_tol w
             = Some (Return traj, w')" for traj w'
  proof -
    from r have "FollowVectorField fuel P (vf_geodesic P goal_pose)
                   (CloseEnough P goal_pose pose_error_tol) timelimit (1 / 10000) w
                 = Some (Return traj, w')"
      by (simp add: PlanToEndEffectorPose_def)
    from FollowVectorField_Return [OF assms(1,2,3) this] obtain n sn x
      where sn: "iter R n s0 = Some sn" and lb: "loop_body R sn = Exit x"
        and x: "x = Break (exit_state x) \<and> traj = qtraj (exit_state x)
              \<or> (\<exists>e. x = Threw e (exit_state x) \<and> isinstance_PlanningError e
                    \<and> cached_traj (exit_state x) = Some traj)"
      by blast
    from x show ?thesis
    proof
      assume "x = Break (exit_state x) \<and> traj = qtraj (exit_state x)"
      with sn lb show ?thesis by metis
    next
      assume "\<exists>e. x = Threw e (exit_state x) \<and> isinstance_PlanningError e
                    \<and> cached_traj (exit_state x) = Some traj"
      then obtain e where "x = Threw e (exit_state x)"
        and c: "cached_traj (exit_state x) = Some traj"
        by blast
      with lb have "loop_body R sn = Exit (Threw e (exit_state x))" by simp
      from loop_body_Threw(1) [OF this] empty [OF sn] c show ?thesis by simp
    qed
  qed
  from CloseEnough_status [of P goal_pose pose_error_tol] empty fail ret
  show ?thesis by blast
qed

theorem pose_planner_never_returns_cache_witness:
  "PlanToEndEffectorPose 5 slider 1 None (1 / 100) world0
     = Some (Raise (PlanningError ''Encountered collision.''), \<lparr>ticks = 5, draws = 0\<rparr>)
   \<and> PlanToEndEffectorPose 5 slider 1 (Some (3 / 200)) (1 / 100) world0
     = Some (Raise (PlanningError ''Reached time limit.''), \<lparr>ticks = 3, draws = 0\<rparr>)"
proof -
  have ts: "timestep slider = Return (Fin (1 / 10))"
    by (simp add: slider_eval)
  define s0 where "s0 = initial_state slider (world0\<lparr>ticks := Suc (ticks world0)\<rparr>)"
  \<comment> \<open>without a time limit, pass 3 finds the collision\<close>
  define RA where "RA = loop_locals slider (vf_geodesic slider 1) (CloseEnough slider 1 (1 / 100))
               None (1 / 10000) (clock slider (ticks world0)) (1 / 10)"
  define sA where "sA = \<lparr>robot_q = [3 / 10], dqout = [1],
       qtraj = [\<lparr>wq = [0], wdq = [0], wdt = 1 / 10\<rparr>,
                \<lparr>wq = [1 / 10], wdq = [1], wdt = 1 / 10\<rparr>,
                \<lparr>wq = [1 / 5::real], wdq = [1], wdt = 1 / 10\<rparr>],
       cached_traj = None, wld = \<lparr>ticks = 4, draws = 0\<rparr>\<rparr>"
  have itA: "iter RA 3 s0 = Some sA"
    by (simp add: RA_def s0_def sA_def slider_eval eval_nat_numeral)
  have thA: "loop_body RA sA = Exit (Threw (PlanningError ''Encountered collision.'')
                (sA\<lparr>wld := \<lparr>ticks = 5, draws = 0\<rparr>\<rparr>))"
    by (simp add: RA_def sA_def slider_eval)
  have "(3::nat) < 5" by simp
  with pose_planner_never_returns_cache [OF ts RA_def s0_def, of 5] itA thA
  have A: "PlanToEndEffectorPose 5 slider 1 None (1 / 100) world0
     = Some (Raise (PlanningError ''Encountered collision.''),
             wld (sA\<lparr>wld := \<lparr>ticks = 5, draws = 0\<rparr>\<rparr>))"
    by blast
  \<comment> \<open>with a limit of 15 milliseconds, pass 1 finds the time used up\<close>
  define RB where "RB = loop_locals slider (vf_geodesic slider 1) (CloseEnough slider 1 (1 / 100))
               (Some (3 / 200)) (1 / 10000) (clock slider (ticks world0)) (1 / 10)"
  define sB where "sB = \<lparr>robot_q = [1 / 10], dqout = [1],
       qtraj = [\<lparr>wq = [0::real], wdq = [0], wdt = 1 / 10\<rparr>],
       cached_traj = None, wld = \<lparr>ticks = 2, draws = 0\<rparr>\<rparr>"
  have itB: "iter RB 1 s0 = Some sB"
    by (simp add: RB_def s0_def sB_def slider_eval)
  have thB: "loop_body RB sB = Exit (Threw (PlanningError ''Reached time limit.'')
                (sB\<lparr>wld := \<lparr>ticks = 3, draws = 0\<rparr>\<rparr>))"
    by (simp add: RB_def sB_def slider_eval)
  have "(1::nat) < 5" by simp
  with pose_planner_never_returns_cache [OF ts RB_def s0_def, of 5] itB thB
  have B: "PlanToEndEffectorPose 5 slider 1 (Some (3 / 200)) (1 / 100) world0
     = Some (Raise (PlanningError ''Reached time limit.''),
             wld (sB\<lparr>wld := \<lparr>ticks = 3, draws = 0\<rparr>\<rparr>))"
    by blast
  from A B show ?thesis by simp
qed

subsection \<open>What a call does to the clock, and which errors it raises\<close>

lemma loop_body_Exit_wld:
  assumes "loop_body R s = Exit x"
  shows "wld (exit_state x) = (wld s)\<lparr>ticks := Suc (ticks (wld s))\<rparr>"
proof (cases x)
  case (Break s')
  with assms loop_body_Break(4) [of R s s'] show ?thesis by simp
next
  case (Threw e s')
  with assms loop_body_Threw(3) [of R s e s'] show ?thesis by simp
next
  case (Unmodelled s')
  with assms loop_body_Unmodelled [of R s s'] show ?thesis by simp
qed

lemma finish_wld: "snd (finish x) = wld (exit_state x)"
  by (cases x) (simp_all add: finish_def)

lemma FollowVectorField_world:
  assumes "FollowVectorField fuel P fn_vectorfield fn_terminate timelimit dq_tol w = Some (r, w')"
  shows "draws w' = draws w \<and> ticks w < ticks w'"
proof (cases "\<exists>dt. timestep P = Return (Fin dt)")
  case False
  with assms show ?thesis
    by (auto simp: FollowVectorField_def time_time_def split: outcome.splits npfloat.splits)
next
  case True
  then obtain dt where ts: "timestep P = Return (Fin dt)" by blast
  define R where "R = loop_locals P fn_vectorfield fn_terminate timelimit dq_tol
                        (clock P (ticks w)) dt"
  define s0 where "s0 = initial_state P (w\<lparr>ticks := Suc (ticks w)\<rparr>)"
  from assms FollowVectorField_finite [OF ts] R_def s0_def
  obtain x where wl: "while_loop fuel R s0 = Some x" and fin: "finish x = (r, w')"
    by auto
  from while_loop_Some [OF wl] obtain n sn where sn: "iter R n s0 = Some sn"
    and lb: "loop_body R sn = Exit x"
    by blast
  from fin finish_wld [of x] have "w' = wld (exit_state x)" by simp
  with loop_body_Exit_wld [OF lb] iter_ticks [OF sn] show ?thesis
    by (simp add: s0_def initial_state_def)
qed

subsection \<open>PlanToTSR\<close>

text \<open>
  Claim C4, as stated, fails: for a chain that asks for start sampling the call raises
  the plain \<^verbatim>\<open>PlanningError\<close>, which is not an \<^verbatim>\<open>UnsupportedPlanningError\<close>.
\<close>

theorem PlanToTSR_unsupported_counterexample:
  "PlanToTSR 5 5 slider
       [\<lparr>sample_start = True, sample_goal = True, constrain = False, sample = (\<lambda>k. 1)\<rparr>]
       1 None (2 * pi) (1 / 100) world0
     = Some (Raise (PlanningError ''Cannot handle start or trajectory-wide TSR constraints.''),
             world0)
   \<and> \<not> isinstance_UnsupportedPlanningError
         (PlanningError ''Cannot handle start or trajectory-wide TSR constraints.'')"
  by (simp add: PlanToTSR_def)

text \<open>
  Claim C4, amended.  When some TSR chain asks for start sampling or for a constraint on
  the whole path, PlanToTSR raises a \<^verbatim>\<open>PlanningError\<close> (the base kind, which callers
  treat as a recoverable planning failure) before any goal is sampled: the world is as
  it was, no pose has been drawn and the clock has not been read.
\<close>

theorem PlanToTSR_rejects_start_and_path_constraints:
  assumes "\<exists>tsrchain \<in> set tsrchains. sample_start tsrchain \<or> constrain tsrchain"
  shows "PlanToTSR rounds fuel P tsrchains timelimit ranker max_deviation pose_error_tol w
         = Some (Raise (PlanningError
                   ''Cannot handle start or trajectory-wide TSR constraints.''), w)"
  using assms by (simp add: PlanToTSR_def list_ex_iff)

theorem PlanToTSR_rejects_start_and_path_constraints_witness:
  "PlanToTSR 5 5 slider
       [\<lparr>sample_start = False, sample_goal = True, constrain = False, sample = (\<lambda>k. 1)\<rparr>,
        \<lparr>sample_start = False, sample_goal = True, constrain = True, sample = (\<lambda>k. 1)\<rparr>]
       1 None (2 * pi) (1 / 100) world0
     = Some (Raise (PlanningError ''Cannot handle start or trajectory-wide TSR constraints.''),
             world0)"
  by (rule PlanToTSR_rejects_start_and_path_constraints) simp

lemma tsr_loop_Return:
  assumes "tsr_loop n fuel P tsrchains timelimit_time pose_error_tol i w
           = Some (Return traj, w')"
  shows "\<exists>c t wa. c \<in> set tsrchains \<and> draws wa = draws w' \<and> draws w < draws w'
           \<and> PlanToEndEffectorPose fuel P (sample c (draws w' - 1)) (Some t) pose_error_tol wa
               = Some (Return traj, w')"
  using assms
proof (induction n arbitrary: i w)
  case 0
  then show ?case by simp
next
  case (Suc n)
  let ?c = "tsrchains ! (i mod length tsrchains)"
  let ?w3 = "w\<lparr>ticks := Suc (ticks w), draws := Suc (draws w), ticks := Suc (Suc (ticks w))\<rparr>"
  let ?t = "min (1 / 10) (timelimit_time - clock P (Suc (ticks w)))"
  let ?plan = "PlanToEndEffectorPose fuel P (sample ?c (draws w)) (Some ?t) pose_error_tol ?w3"
  from Suc.prems have ne: "tsrchains \<noteq> []" and "clock P (ticks w) < timelimit_time"
    by (auto simp: time_time_def Let_def split: if_splits)
  with Suc.prems have step:
    "(case ?plan of
        None \<Rightarrow> None
      | Some (Return traj, w4) \<Rightarrow> Some (Return traj, w4)
      | Some (NonFinite, w4) \<Rightarrow> Some (NonFinite, w4)
      | Some (Raise e, w4) \<Rightarrow>
          if isinstance_PlanningError e
          then tsr_loop n fuel P tsrchains timelimit_time pose_error_tol (Suc i) w4
          else Some (Raise e, w4)) = Some (Return traj, w')"
    by (simp add: time_time_def Let_def)
  from ne have mem: "?c \<in> set tsrchains" by simp
  from step obtain r w4 where plan: "?plan = Some (r, w4)"
    by (cases ?plan) auto
  from plan have w4: "draws w4 = Suc (draws w)"
    unfolding PlanToEndEffectorPose_def by (auto dest: FollowVectorField_world)
  show ?case
  proof (cases r)
    case (Return traj')
    with step plan have "traj' = traj" and "w4 = w'" by simp_all
    with plan Return w4 mem
    have "?c \<in> set tsrchains \<and> draws ?w3 = draws w' \<and> draws w < draws w'
           \<and> PlanToEndEffectorPose fuel P (sample ?c (draws w' - 1)) (Some ?t) pose_error_tol ?w3
               = Some (Return traj, w')"
      by simp
    then show ?thesis by blast
  next
    case (Raise e)
    with step plan have "tsr_loop n fuel P tsrchains timelimit_time pose_error_tol (Suc i) w4
                         = Some (Return traj, w')"
      by (simp split: if_splits)
    from Suc.IH [OF this] obtain c t wa
      where "c \<in> set tsrchains" and "draws wa = draws w'" and "draws w4 < draws w'"
        and "PlanToEndEffectorPose fuel P (sample c (draws w' - 1)) (Some t) pose_error_tol wa
               = Some (Return traj, w')"
      by blast
    moreover from this(3) w4 have "draws w < draws w'" by simp
    ultimately show ?thesis by blast
  next
    case NonFinite
    with step plan show ?thesis by simp
  qed
qed

text \<open>
  Claim C9.  The ranker is built and never asked: whatever ranker is passed, or none,
  PlanToTSR draws the same poses, reads the clock as often and returns the same result.
  A trajectory it returns is the one the pose planner found for the pose drawn last, so
  the first sample that succeeds ends the sampling.
\<close>

theorem PlanToTSR_ignores_ranker:
  "PlanToTSR rounds fuel P tsrchains timelimit ranker1 max_deviation pose_error_tol w
     = PlanToTSR rounds fuel P tsrchains timelimit ranker2 max_deviation pose_error_tol w
   \<and> (\<forall>traj w'.
         PlanToTSR rounds fuel P tsrchains timelimit ranker1 max_deviation pose_error_tol w
           = Some (Return traj, w') \<longrightarrow>
         (\<exists>c t wa. c \<in> set tsrchains \<and> sample_goal c \<and> draws wa = draws w'
            \<and> draws w < draws w'
            \<and> PlanToEndEffectorPose fuel P (sample c (draws w' - 1)) (Some t) pose_error_tol wa
                = Some (Return traj, w')))"
proof -
  have same: "PlanToTSR rounds fuel P tsrchains timelimit ranker1 max_deviation pose_error_tol w
     = PlanToTSR rounds fuel P tsrchains timelimit ranker2 max_deviation pose_error_tol w"
    by (simp add: PlanToTSR_def)
  have first: "\<exists>c t wa. c \<in> set tsrchains \<and> sample_goal c \<and> draws wa = draws w'
            \<and> draws w < draws w'
            \<and> PlanToEndEffectorPose fuel P (sample c (draws w' - 1)) (Some t) pose_error_tol wa
                = Some (Return traj, w')"
    if r: "PlanToTSR rounds fuel P tsrchains timelimit ranker1 max_deviation pose_error_tol w
           = Some (Return traj, w')" for traj w'
  proof -
    from r have "tsr_loop rounds fuel P (filter sample_goal tsrchains)
                   (clock P (ticks w) + timelimit) pose_error_tol 0
                   (w\<lparr>ticks := Suc (ticks w)\<rparr>) = Some (Return traj, w')"
      by (simp add: PlanToTSR_def time_time_def Let_def split: if_splits)
    from tsr_loop_Return [OF this] show ?thesis by auto
  qed
  from same first show ?thesis by blast
qed

theorem PlanToTSR_ignores_ranker_witness:
  "PlanToTSR 2 5 slider
       [\<lparr>sample_start = False, sample_goal = True, constrain = False, sample = (\<lambda>k. 1)\<rparr>,
        \<lparr>sample_start = False, sample_goal = True, constrain = False, sample = (\<lambda>k. 1 / 5)\<rparr>]
       1 (Some (CustomRanker (\<lambda>qs. []))) (2 * pi) (1 / 100) world0
     = PlanToTSR 2 5 slider
       [\<lparr>sample_start = False, sample_goal = True, constrain = False, sample = (\<lambda>k. 1)\<rparr>,
        \<lparr>sample_start = False, sample_goal = True, constrain = False, sample = (\<lambda>k. 1 / 5)\<rparr>]
       1 None (2 * pi) (1 / 100) world0
   \<and> PlanToTSR 2 5 slider
       [\<lparr>sample_start = False, sample_goal = True, constrain = False, sample = (\<lambda>k. 1)\<rparr>,
        \<lparr>sample_start = False, sample_goal = True, constrain = False, sample = (\<lambda>k. 1 / 5)\<rparr>]
       1 (Some (CustomRanker (\<lambda>qs. []))) (2 * pi) (1 / 100) world0
     = Some (Return [\<lparr>wq = [0], wdq = [0], wdt = 1 / 10\<rparr>,
                     \<lparr>wq = [1 / 10], wdq = [1], wdt = 1 / 10\<rparr>,
                     \<lparr>wq = [1 / 5], wdq = [1], wdt = 1 / 10\<rparr>],
             \<lparr>ticks = 14, draws = 2\<rparr>)
   \<and> (\<exists>(c::real tsrchain) t wa. sample_goal c \<and> draws wa = 2
         \<and> PlanToEndEffectorPose 5 slider (sample c 1) (Some t) (1 / 100) wa
             = Some (Return [\<lparr>wq = [0], wdq = [0], wdt = 1 / 10\<rparr>,
                             \<lparr>wq = [1 / 10], wdq = [1], wdt = 1 / 10\<rparr>,
                             \<lparr>wq = [1 / 5], wdq = [1], wdt = 1 / 10\<rparr>],
                     \<lparr>ticks = 14, draws = 2\<rparr>))"
proof -
  define chains where "chains =
       [\<lparr>sample_start = False, sample_goal = True, constrain = False, sample = (\<lambda>k. 1::real)\<rparr>,
        \<lparr>sample_start = False, sample_goal = True, constrain = False, sample = (\<lambda>k. 1 / 5)\<rparr>]"
  define traj where "traj = [\<lparr>wq = [0], wdq = [0], wdt = 1 / 10\<rparr>,
                     \<lparr>wq = [1 / 10], wdq = [1], wdt = 1 / 10\<rparr>,
                     \<lparr>wq = [1 / 5::real], wdq = [1], wdt = 1 / 10\<rparr>]"
  have run: "PlanToTSR 2 5 slider chains 1 (Some (CustomRanker (\<lambda>qs. []))) (2 * pi) (1 / 100)
               world0 = Some (Return traj, \<lparr>ticks = 14, draws = 2\<rparr>)"
    by (simp add: PlanToTSR_def chains_def traj_def slider_eval eval_nat_numeral)
  note inst = PlanToTSR_ignores_ranker [of 2 5 slider chains 1 "Some (CustomRanker (\<lambda>qs. []))"
      "2 * pi" "1 / 100" world0 None]
  from inst have same: "PlanToTSR 2 5 slider chains 1 (Some (CustomRanker (\<lambda>qs. []))) (2 * pi)
      (1 / 100) world0 = PlanToTSR 2 5 slider chains 1 None (2 * pi) (1 / 100) world0"
    by blast
  from inst run obtain c :: "real tsrchain" and t wa where "sample_goal c" and "draws wa = draws \<lparr>ticks = 14, draws = 2\<rparr>"
    and "PlanToEndEffectorPose 5 slider (sample c (draws \<lparr>ticks = 14, draws = 2\<rparr> - 1)) (Some t)
           (1 / 100) wa = Some (Return traj, \<lparr>ticks = 14, draws = 2\<rparr>)"
    by blast
  then have "\<exists>(c::real tsrchain) t wa. sample_goal c \<and> draws wa = 2
         \<and> PlanToEndEffectorPose 5 slider (sample c 1) (Some t) (1 / 100) wa
             = Some (Return traj, \<lparr>ticks = 14, draws = 2\<rparr>)"
    by auto
  with same run show ?thesis unfolding chains_def traj_def by blast
qed

subsection \<open>The loop of the source does what the specification describes\<close>

lemma spec_pass_velocity:
  assumes "spec_pass R tick q = Caches \<or> spec_pass R tick q = Continues"
  shows "\<exists>dq. run_vectorfield R q = Return dq"
  using assms unfolding spec_pass_def
  by (auto split: if_splits outcome.splits Status.splits)

lemma loop_body_Fails:
  assumes "spec_pass R (ticks (wld s)) (robot_q s) = Fails e"
  shows "loop_body R s =
           Exit (Threw e
             (s\<lparr>wld := (wld s)\<lparr>ticks := Suc (ticks (wld s))\<rparr>,
                qtraj := (if spec_blocked R (ticks (wld s)) (robot_q s) then qtraj s
                          else qtraj s @ [\<lparr>wq = robot_q s, wdq = dqout s, wdt = run_dt R\<rparr>])\<rparr>))"
  using assms
  unfolding loop_body_def spec_pass_def spec_blocked_def spec_timeout_def Let_def time_time_def
  by (auto split: if_splits outcome.splits option.splits Status.splits)

lemma loop_body_Terminates:
  assumes "spec_pass R (ticks (wld s)) (robot_q s) = Terminates"
  shows "loop_body R s =
           Exit (Break
             (s\<lparr>wld := (wld s)\<lparr>ticks := Suc (ticks (wld s))\<rparr>,
                qtraj := qtraj s @ [\<lparr>wq = robot_q s, wdq = dqout s, wdt = run_dt R\<rparr>]\<rparr>))"
  using assms
  unfolding loop_body_def spec_pass_def spec_blocked_def spec_timeout_def Let_def time_time_def
  by (auto split: if_splits outcome.splits option.splits Status.splits)

lemma loop_body_Caches:
  assumes "spec_pass R (ticks (wld s)) (robot_q s) = Caches"
    and "run_vectorfield R (robot_q s) = Return dq"
  shows "loop_body R s =
           Next \<lparr>robot_q = vec_add (robot_q s) (vec_scale dq (run_dt R)),
                 dqout = dq,
                 qtraj = qtraj s @ [\<lparr>wq = robot_q s, wdq = dqout s, wdt = run_dt R\<rparr>],
                 cached_traj =
                   Some (qtraj s @ [\<lparr>wq = robot_q s, wdq = dqout s, wdt = run_dt R\<rparr>]),
                 wld = (wld s)\<lparr>ticks := Suc (ticks (wld s))\<rparr>\<rparr>"
  using assms
  unfolding loop_body_def spec_pass_def spec_blocked_def spec_timeout_def Let_def time_time_def
    CopyTrajectory_def
  by (auto split: if_splits outcome.splits option.splits Status.splits)

lemma loop_body_Continues:
  assumes "spec_pass R (ticks (wld s)) (robot_q s) = Continues"
    and "run_vectorfield R (robot_q s) = Return dq"
  shows "loop_body R s =
           Next \<lparr>robot_q = vec_add (robot_q s) (vec_scale dq (run_dt R)),
                 dqout = dq,
                 qtraj = qtraj s @ [\<lparr>wq = robot_q s, wdq = dqout s, wdt = run_dt R\<rparr>],
                 cached_traj = cached_traj s,
                 wld = (wld s)\<lparr>ticks := Suc (ticks (wld s))\<rparr>\<rparr>"
  using assms
  unfolding loop_body_def spec_pass_def spec_blocked_def spec_timeout_def Let_def time_time_def
    CopyTrajectory_def
  by (auto split: if_splits outcome.splits option.splits Status.splits)

subsection \<open>A run of the loop, pass by pass\<close>

lemma spec_buffer_Suc:
  "spec_buffer R q0 dq0 (Suc n) = spec_buffer R q0 dq0 n @ [spec_waypoint R q0 dq0 n]"
  by (simp add: spec_buffer_def)

lemma length_spec_buffer [simp]: "length (spec_buffer R q0 dq0 n) = n"
  by (simp add: spec_buffer_def)

lemma spec_buffer_prefix: "m \<le> n \<Longrightarrow> prefix (spec_buffer R q0 dq0 m) (spec_buffer R q0 dq0 n)"
proof (induction n)
  case 0
  then show ?case by simp
next
  case (Suc n)
  show ?case
  proof (cases "m = Suc n")
    case True
    then show ?thesis by simp
  next
    case False
    with Suc.prems have "m \<le> n" by simp
    from Suc.IH [OF this] show ?thesis by (simp add: spec_buffer_Suc prefix_order.trans)
  qed
qed

lemma spec_last_cache_None:
  "spec_last_cache R t0 q0 n = None \<longleftrightarrow> (\<forall>k<n. spec_run R t0 q0 k \<noteq> Caches)"
  by (induction n) (auto simp: less_Suc_eq)

lemma spec_last_cache_Some:
  "spec_last_cache R t0 q0 n = Some m \<longleftrightarrow>
     m < n \<and> spec_run R t0 q0 m = Caches \<and> (\<forall>j<n. m < j \<longrightarrow> spec_run R t0 q0 j \<noteq> Caches)"
proof (induction n)
  case 0
  show ?case by simp
next
  case (Suc n)
  show ?case
  proof (cases "spec_run R t0 q0 n = Caches")
    case True
    then show ?thesis
      by (auto simp: less_Suc_eq intro: antisym dest: not_less_iff_gr_or_eq [THEN iffD1])
  next
    case False
    then show ?thesis using Suc.IH by (auto simp: less_Suc_eq)
  qed
qed

lemma iter_spec:
  assumes "\<forall>k<n. spec_run R t0 q0 k = Caches \<or> spec_run R t0 q0 k = Continues"
  shows "iter R n \<lparr>robot_q = q0, dqout = dq0, qtraj = [], cached_traj = None,
                    wld = \<lparr>ticks = t0, draws = d\<rparr>\<rparr>
         = Some \<lparr>robot_q = spec_configuration R q0 n,
                 dqout = spec_velocity R q0 dq0 n,
                 qtraj = spec_buffer R q0 dq0 n,
                 cached_traj = map_option (\<lambda>m. spec_buffer R q0 dq0 (Suc m))
                                 (spec_last_cache R t0 q0 n),
                 wld = \<lparr>ticks = t0 + n, draws = d\<rparr>\<rparr>"
  using assms
proof (induction n)
  case 0
  show ?case by (simp add: spec_buffer_def)
next
  case (Suc n)
  let ?s = "\<lparr>robot_q = spec_configuration R q0 n,
                 dqout = spec_velocity R q0 dq0 n,
                 qtraj = spec_buffer R q0 dq0 n,
                 cached_traj = map_option (\<lambda>m. spec_buffer R q0 dq0 (Suc m))
                                 (spec_last_cache R t0 q0 n),
                 wld = \<lparr>ticks = t0 + n, draws = d\<rparr>\<rparr>"
  from Suc.prems have "\<forall>k<n. spec_run R t0 q0 k = Caches \<or> spec_run R t0 q0 k = Continues"
    by simp
  from Suc.IH [OF this]
  have it: "iter R n \<lparr>robot_q = q0, dqout = dq0, qtraj = [], cached_traj = None,
                    wld = \<lparr>ticks = t0, draws = d\<rparr>\<rparr> = Some ?s" .
  from Suc.prems have v: "spec_run R t0 q0 n = Caches \<or> spec_run R t0 q0 n = Continues"
    by simp
  then have v': "spec_pass R (t0 + n) (spec_configuration R q0 n) = Caches
               \<or> spec_pass R (t0 + n) (spec_configuration R q0 n) = Continues"
    by (simp add: spec_run_def)
  from spec_pass_velocity [OF v'] obtain dq
    where dq: "run_vectorfield R (spec_configuration R q0 n) = Return dq"
    by blast
  have wp: "\<lparr>wq = spec_configuration R q0 n, wdq = spec_velocity R q0 dq0 n, wdt = run_dt R\<rparr>
            = spec_waypoint R q0 dq0 n"
    by (simp add: spec_waypoint_def)
  have "loop_body R ?s
        = Next \<lparr>robot_q = spec_configuration R q0 (Suc n),
                 dqout = spec_velocity R q0 dq0 (Suc n),
                 qtraj = spec_buffer R q0 dq0 (Suc n),
                 cached_traj = map_option (\<lambda>m. spec_buffer R q0 dq0 (Suc m))
                                 (spec_last_cache R t0 q0 (Suc n)),
                 wld = \<lparr>ticks = t0 + Suc n, draws = d\<rparr>\<rparr>"
  proof (cases "spec_run R t0 q0 n = Caches")
    case True
    then have "spec_pass R (ticks (wld ?s)) (robot_q ?s) = Caches"
      by (simp add: spec_run_def)
    from loop_body_Caches [OF this, of dq] dq True show ?thesis
      by (simp add: wp spec_buffer_Suc)
  next
    case False
    with v have c: "spec_run R t0 q0 n = Continues" by simp
    then have "spec_pass R (ticks (wld ?s)) (robot_q ?s) = Continues"
      by (simp add: spec_run_def)
    from loop_body_Continues [OF this, of dq] dq False show ?thesis
      by (simp add: wp spec_buffer_Suc)
  qed
  with it show ?case unfolding iter_Suc_snoc by simp
qed

lemma initial_state_record:
  "initial_state P (w\<lparr>ticks := t0\<rparr>)
   = \<lparr>robot_q = GetActiveDOFValues P, dqout = GetActiveDOFVelocities P, qtraj = [],
      cached_traj = None, wld = \<lparr>ticks = t0, draws = draws w\<rparr>\<rparr>"
  by (simp add: initial_state_def)

lemma loop_body_spec_Fails:
  assumes "spec_run R t0 q0 n = Fails e"
  shows "loop_body R
           \<lparr>robot_q = spec_configuration R q0 n,
            dqout = spec_velocity R q0 dq0 n,
            qtraj = spec_buffer R q0 dq0 n,
            cached_traj = c,
            wld = \<lparr>ticks = t0 + n, draws = d\<rparr>\<rparr>
         = Exit (Threw e
             \<lparr>robot_q = spec_configuration R q0 n,
              dqout = spec_velocity R q0 dq0 n,
              qtraj = spec_buffer R q0 dq0
                        (if spec_blocked R (t0 + n) (spec_configuration R q0 n) then n else Suc n),
              cached_traj = c,
              wld = \<lparr>ticks = Suc (t0 + n), draws = d\<rparr>\<rparr>)"
proof -
  let ?s = "\<lparr>robot_q = spec_configuration R q0 n,
            dqout = spec_velocity R q0 dq0 n,
            qtraj = spec_buffer R q0 dq0 n,
            cached_traj = c,
            wld = \<lparr>ticks = t0 + n, draws = d\<rparr>\<rparr>"
  have wp: "\<lparr>wq = spec_configuration R q0 n, wdq = spec_velocity R q0 dq0 n, wdt = run_dt R\<rparr>
            = spec_waypoint R q0 dq0 n"
    by (simp add: spec_waypoint_def)
  from assms have "spec_pass R (ticks (wld ?s)) (robot_q ?s) = Fails e"
    by (simp add: spec_run_def)
  from loop_body_Fails [OF this] show ?thesis
    by (simp add: wp spec_buffer_Suc)
qed

lemma while_loop_spec_Fails:
  assumes "\<forall>k<n. spec_run R t0 q0 k = Caches \<or> spec_run R t0 q0 k = Continues"
    and "spec_run R t0 q0 n = Fails e"
    and "n < fuel"
  shows "while_loop fuel R \<lparr>robot_q = q0, dqout = dq0, qtraj = [], cached_traj = None,
                             wld = \<lparr>ticks = t0, draws = d\<rparr>\<rparr>
         = Some (Threw e
             \<lparr>robot_q = spec_configuration R q0 n,
              dqout = spec_velocity R q0 dq0 n,
              qtraj = spec_buffer R q0 dq0
                        (if spec_blocked R (t0 + n) (spec_configuration R q0 n) then n else Suc n),
              cached_traj = map_option (\<lambda>m. spec_buffer R q0 dq0 (Suc m))
                              (spec_last_cache R t0 q0 n),
              wld = \<lparr>ticks = Suc (t0 + n), draws = d\<rparr>\<rparr>)"
  by (rule while_loop_iter [OF iter_spec [OF assms(1)] loop_body_spec_Fails [OF assms(2)] assms(3)])

lemma while_loop_spec_Terminates:
  assumes "\<forall>k<n. spec_run R t0 q0 k = Caches \<or> spec_run R t0 q0 k = Continues"
    and "spec_run R t0 q0 n = Terminates"
    and "n < fuel"
  shows "while_loop fuel R \<lparr>robot_q = q0, dqout = dq0, qtraj = [], cached_traj = None,
                             wld = \<lparr>ticks = t0, draws = d\<rparr>\<rparr>
         = Some (Break
             \<lparr>robot_q = spec_configuration R q0 n,
              dqout = spec_velocity R q0 dq0 n,
              qtraj = spec_buffer R q0 dq0 (Suc n),
              cached_traj = map_option (\<lambda>m. spec_buffer R q0 dq0 (Suc m))
                              (spec_last_cache R t0 q0 n),
              wld = \<lparr>ticks = Suc (t0 + n), draws = d\<rparr>\<rparr>)"
proof -
  let ?s = "\<lparr>robot_q = spec_configuration R q0 n,
                 dqout = spec_velocity R q0 dq0 n,
                 qtraj = spec_buffer R q0 dq0 n,
                 cached_traj = map_option (\<lambda>m. spec_buffer R q0 dq0 (Suc m))
                                 (spec_last_cache R t0 q0 n),
                 wld = \<lparr>ticks = t0 + n, draws = d\<rparr>\<rparr>"
  have wp: "\<lparr>wq = spec_configuration R q0 n, wdq = spec_velocity R q0 dq0 n, wdt = run_dt R\<rparr>
            = spec_waypoint R q0 dq0 n"
    by (simp add: spec_waypoint_def)
  from assms(2) have "spec_pass R (ticks (wld ?s)) (robot_q ?s) = Terminates"
    by (simp add: spec_run_def)
  from loop_body_Terminates [OF this]
  have "loop_body R ?s = Exit (Break
             \<lparr>robot_q = spec_configuration R q0 n,
              dqout = spec_velocity R q0 dq0 n,
              qtraj = spec_buffer R q0 dq0 (Suc n),
              cached_traj = map_option (\<lambda>m. spec_buffer R q0 dq0 (Suc m))
                              (spec_last_cache R t0 q0 n),
              wld = \<lparr>ticks = Suc (t0 + n), draws = d\<rparr>\<rparr>)"
    by (simp add: wp spec_buffer_Suc)
  from while_loop_iter [OF iter_spec [OF assms(1)] this assms(3)] show ?thesis .
qed

subsection \<open>A failure in the loop, with and without a cached trajectory\<close>

text \<open>
  Claim C1.  Take a call of FollowVectorField for which the specification's description
  of the loop says: passes \<open>0\<close> to \<open>n - 1\<close> go on to the integration step, and pass
  \<open>n\<close> fails with a planning failure \<open>e\<close> (a timeout, a collision, a
  self-collision, a stall or a violated constraint).  Then the loop of the source
  raises \<open>e\<close> in pass \<open>n\<close>, and with more fuel than passes the call of the source
  does this: if none of the passes before \<open>n\<close> evaluated
  \<open>CACHE_AND_CONTINUE\<close>, it raises \<open>e\<close> itself; if pass \<open>m\<close> was the last one that
  did, it returns the waypoints of the passes \<open>0\<close> to \<open>m\<close>, which is the buffer of
  the loop as it was at the end of pass \<open>m\<close> and a prefix of the buffer with which the
  loop was left.  In both cases the clock has been read once at the start and once in
  each pass.
\<close>

theorem FollowVectorField_failure_returns_cache:
  fixes P :: "'p provider"
  assumes "timestep P = Return (Fin dt)"
    and "R = loop_locals P fn_vectorfield fn_terminate timelimit dq_tol (clock P (ticks w)) dt"
    and "q0 = GetActiveDOFValues P"
    and "dq0 = GetActiveDOFVelocities P"
    and "t0 = Suc (ticks w)"
    and "\<forall>k<n. spec_run R t0 q0 k = Caches \<or> spec_run R t0 q0 k = Continues"
    and "spec_run R t0 q0 n = Fails e"
    and "isinstance_PlanningError e"
    and "n < fuel"
    and "call = FollowVectorField fuel P fn_vectorfield fn_terminate timelimit dq_tol w"
    and "w' = w\<lparr>ticks := ticks w + n + 2\<rparr>"
  shows "(\<exists>s sf. iter R n (initial_state P (w\<lparr>ticks := t0\<rparr>)) = Some s
                  \<and> loop_body R s = Exit (Threw e sf))
       \<and> ((\<forall>k<n. spec_run R t0 q0 k \<noteq> Caches) \<longrightarrow> call = Some (Raise e, w'))
       \<and> (\<forall>m<n. spec_run R t0 q0 m = Caches \<and> (\<forall>j<n. m < j \<longrightarrow> spec_run R t0 q0 j \<noteq> Caches) \<longrightarrow>
              call = Some (Return (spec_buffer R q0 dq0 (Suc m)), w')
            \<and> (\<exists>sm. iter R (Suc m) (initial_state P (w\<lparr>ticks := t0\<rparr>)) = Some sm
                   \<and> qtraj sm = spec_buffer R q0 dq0 (Suc m))
            \<and> (\<exists>sf. while_loop fuel R (initial_state P (w\<lparr>ticks := t0\<rparr>)) = Some (Threw e sf)
                   \<and> prefix (spec_buffer R q0 dq0 (Suc m)) (qtraj sf)))"
proof -
  let ?s0 = "initial_state P (w\<lparr>ticks := t0\<rparr>)"
  let ?len = "if spec_blocked R (t0 + n) (spec_configuration R q0 n) then n else Suc n"
  let ?sf = "\<lparr>robot_q = spec_configuration R q0 n,
              dqout = spec_velocity R q0 dq0 n,
              qtraj = spec_buffer R q0 dq0 ?len,
              cached_traj = map_option (\<lambda>m. spec_buffer R q0 dq0 (Suc m))
                              (spec_last_cache R t0 q0 n),
              wld = \<lparr>ticks = Suc (t0 + n), draws = draws w\<rparr>\<rparr>"
  have s0: "?s0 = \<lparr>robot_q = q0, dqout = dq0, qtraj = [], cached_traj = None,
                   wld = \<lparr>ticks = t0, draws = draws w\<rparr>\<rparr>"
    using assms(3,4) by (simp add: initial_state_record)
  have wl: "while_loop fuel R ?s0 = Some (Threw e ?sf)"
    unfolding s0 by (rule while_loop_spec_Fails [OF assms(6,7,9)])
  have raised: "\<exists>s sf. iter R n ?s0 = Some s \<and> loop_body R s = Exit (Threw e sf)"
    unfolding s0
    using iter_spec [OF assms(6), of dq0 "draws w"]
      loop_body_spec_Fails [OF assms(7), of dq0 "map_option (\<lambda>m. spec_buffer R q0 dq0 (Suc m))
                              (spec_last_cache R t0 q0 n)" "draws w"]
    by blast
  have w': "wld ?sf = w'"
    using assms(5,11) by simp
  have res: "call = Some (except_PlanningError e (cached_traj ?sf), w')"
    using FollowVectorField_finite [OF assms(1), of fuel fn_vectorfield fn_terminate timelimit
        dq_tol w] wl w' assms(2,5,10)
    by (simp add: finish_def)
  have none: "call = Some (Raise e, w')" if "\<forall>k<n. spec_run R t0 q0 k \<noteq> Caches"
  proof -
    from that have "spec_last_cache R t0 q0 n = None" by (simp add: spec_last_cache_None)
    with res show ?thesis by (simp add: except_PlanningError_def)
  qed
  have some: "call = Some (Return (spec_buffer R q0 dq0 (Suc m)), w')
            \<and> (\<exists>sm. iter R (Suc m) ?s0 = Some sm \<and> qtraj sm = spec_buffer R q0 dq0 (Suc m))
            \<and> (\<exists>sf. while_loop fuel R ?s0 = Some (Threw e sf)
                   \<and> prefix (spec_buffer R q0 dq0 (Suc m)) (qtraj sf))"
    if m: "m < n" and c: "spec_run R t0 q0 m = Caches"
      and later: "\<forall>j<n. m < j \<longrightarrow> spec_run R t0 q0 j \<noteq> Caches" for m
  proof -
    from m c later have "spec_last_cache R t0 q0 n = Some m" by (simp add: spec_last_cache_Some)
    with res assms(8) have r: "call = Some (Return (spec_buffer R q0 dq0 (Suc m)), w')"
      by (simp add: except_PlanningError_def)
    from m assms(6)
    have "\<forall>k<Suc m. spec_run R t0 q0 k = Caches \<or> spec_run R t0 q0 k = Continues"
      by simp
    from iter_spec [OF this, of dq0 "draws w"]
    have i: "\<exists>sm. iter R (Suc m) ?s0 = Some sm \<and> qtraj sm = spec_buffer R q0 dq0 (Suc m)"
      unfolding s0 by simp
    from m have "Suc m \<le> ?len" by simp
    then have "prefix (spec_buffer R q0 dq0 (Suc m)) (qtraj ?sf)"
      using spec_buffer_prefix [of "Suc m" ?len R q0 dq0] by simp
    with wl have f: "\<exists>sf. while_loop fuel R ?s0 = Some (Threw e sf)
                   \<and> prefix (spec_buffer R q0 dq0 (Suc m)) (qtraj sf)"
      by blast
    from r i f show ?thesis by blast
  qed
  from raised none some show ?thesis by blast
qed

theorem FollowVectorField_failure_returns_cache_witness:
  "FollowVectorField 5 slider (vf_straightline slider 0 (1, 0, 0))
       (TerminateMove slider 0 (1, 0, 0) (1 / 10) (1 / 2) (1 / 100) (15 / 100))
       None (1 / 10000) world0
     = Some (Return [\<lparr>wq = [0], wdq = [0], wdt = 1 / 10\<rparr>,
                     \<lparr>wq = [1 / 10], wdq = [1], wdt = 1 / 10\<rparr>,
                     \<lparr>wq = [1 / 5], wdq = [1], wdt = 1 / 10\<rparr>],
             \<lparr>ticks = 5, draws = 0\<rparr>)
   \<and> FollowVectorField 5 slider (vf_geodesic slider 1) (CloseEnough slider 1 (1 / 100))
       None (1 / 10000) world0
     = Some (Raise (PlanningError ''Encountered collision.''), \<lparr>ticks = 5, draws = 0\<rparr>)
   \<and> FollowVectorField 6 flyer (vf_straightline flyer [0, 0, 0, 0] (1, 0, 0))
       (TerminateMove flyer [0, 0, 0, 0] (1, 0, 0) (1 / 2) 5 (1 / 100) (15 / 100))
       (Some (9 / 2)) (1 / 10000) world0
     = Some (Return [\<lparr>wq = [0, 0, 0, 0], wdq = [0, 0, 0, 0], wdt = 1 / 3\<rparr>,
                     \<lparr>wq = [1 / 3, 0, 0, 0], wdq = [1, 0, 0, 0], wdt = 1 / 3\<rparr>,
                     \<lparr>wq = [2 / 3, 0, 0, 0], wdq = [1, 0, 0, 0], wdt = 1 / 3\<rparr>,
                     \<lparr>wq = [1, 0, 0, 0], wdq = [1, 0, 0, 0], wdt = 1 / 3\<rparr>],
             \<lparr>ticks = 6, draws = 0\<rparr>)"
proof -
  have ts: "timestep slider = Return (Fin (1 / 10))"
    by (simp add: slider_eval)
  have q0: "[0] = GetActiveDOFValues slider" and dq0: "[0] = GetActiveDOFVelocities slider"
    and t0: "1 = Suc (ticks world0)"
    by (simp_all add: slider_def world0_def)
  have pe: "isinstance_PlanningError (PlanningError ''Encountered collision.'')"
    and fuel: "(3::nat) < 5"
    by simp_all
  have w': "\<lparr>ticks = 5, draws = 0\<rparr> = world0\<lparr>ticks := ticks world0 + 3 + 2\<rparr>"
    by (simp add: world0_def)
  \<comment> \<open>the straight-line run: the evaluator caches in pass 2, pass 3 finds the collision\<close>
  define RA where "RA = loop_locals slider (vf_straightline slider 0 (1, 0, 0))
       (TerminateMove slider 0 (1, 0, 0) (1 / 10) (1 / 2) (1 / 100) (15 / 100))
       None (1 / 10000) (clock slider (ticks world0)) (1 / 10)"
  have A0: "spec_run RA 1 [0] 0 = Continues" and A1: "spec_run RA 1 [0] 1 = Continues"
    and A2: "spec_run RA 1 [0] 2 = Caches"
    and A3: "spec_run RA 1 [0] 3 = Fails (PlanningError ''Encountered collision.'')"
    by (simp_all add: RA_def spec_eval slider_eval eval_nat_numeral)
  from A0 A1 A2 have passA: "\<forall>k<3. spec_run RA 1 [0] k = Caches \<or> spec_run RA 1 [0] k = Continues"
    by (simp add: eval_nat_numeral less_Suc_eq)
  have lastA: "spec_run RA 1 [0] 2 = Caches \<and> (\<forall>j<3. 2 < j \<longrightarrow> spec_run RA 1 [0] j \<noteq> Caches)"
    using A2 by (simp add: eval_nat_numeral less_Suc_eq)
  have bufA: "spec_buffer RA [0] [0] (Suc 2) = [\<lparr>wq = [0], wdq = [0], wdt = 1 / 10\<rparr>,
                     \<lparr>wq = [1 / 10], wdq = [1], wdt = 1 / 10\<rparr>,
                     \<lparr>wq = [1 / 5], wdq = [1], wdt = 1 / 10\<rparr>]"
    by (simp add: RA_def spec_eval slider_eval eval_nat_numeral upt_rec)
  from FollowVectorField_failure_returns_cache [OF ts RA_def q0 dq0 t0 passA A3 pe fuel refl w']
  have "\<forall>m<3. spec_run RA 1 [0] m = Caches \<and> (\<forall>j<3. m < j \<longrightarrow> spec_run RA 1 [0] j \<noteq> Caches) \<longrightarrow>
          FollowVectorField 5 slider (vf_straightline slider 0 (1, 0, 0))
            (TerminateMove slider 0 (1, 0, 0) (1 / 10) (1 / 2) (1 / 100) (15 / 100))
            None (1 / 10000) world0
          = Some (Return (spec_buffer RA [0] [0] (Suc m)), \<lparr>ticks = 5, draws = 0\<rparr>)"
    by blast
  moreover have "(2::nat) < 3" by simp
  ultimately have A: "FollowVectorField 5 slider (vf_straightline slider 0 (1, 0, 0))
            (TerminateMove slider 0 (1, 0, 0) (1 / 10) (1 / 2) (1 / 100) (15 / 100))
            None (1 / 10000) world0
          = Some (Return (spec_buffer RA [0] [0] (Suc 2)), \<lparr>ticks = 5, draws = 0\<rparr>)"
    using lastA by blast
  \<comment> \<open>the run towards the pose 1: no pass caches, pass 3 finds the collision\<close>
  define RB where "RB = loop_locals slider (vf_geodesic slider 1) (CloseEnough slider 1 (1 / 100))
       None (1 / 10000) (clock slider (ticks world0)) (1 / 10)"
  have B0: "spec_run RB 1 [0] 0 = Continues" and B1: "spec_run RB 1 [0] 1 = Continues"
    and B2: "spec_run RB 1 [0] 2 = Continues"
    and B3: "spec_run RB 1 [0] 3 = Fails (PlanningError ''Encountered collision.'')"
    by (simp_all add: RB_def spec_eval slider_eval eval_nat_numeral)
  from B0 B1 B2 have passB: "\<forall>k<3. spec_run RB 1 [0] k = Caches \<or> spec_run RB 1 [0] k = Continues"
    and noneB: "\<forall>k<3. spec_run RB 1 [0] k \<noteq> Caches"
    by (simp_all add: eval_nat_numeral less_Suc_eq)
  from FollowVectorField_failure_returns_cache [OF ts RB_def q0 dq0 t0 passB B3 pe fuel refl w']
    noneB
  have B: "FollowVectorField 5 slider (vf_geodesic slider 1) (CloseEnough slider 1 (1 / 100))
       None (1 / 10000) world0
     = Some (Raise (PlanningError ''Encountered collision.''), \<lparr>ticks = 5, draws = 0\<rparr>)"
    by blast
  \<comment> \<open>four joints: the evaluator caches in passes 2 and 3, pass 4 finds the time used up\<close>
  have tsF: "timestep flyer = Return (Fin (1 / 3))"
    by (simp add: flyer_eval)
  have q0F: "[0, 0, 0, 0] = GetActiveDOFValues flyer"
    and dq0F: "[0, 0, 0, 0] = GetActiveDOFVelocities flyer"
    by (simp_all add: flyer_def)
  have peF: "isinstance_PlanningError (PlanningError ''Reached time limit.'')"
    and fuelF: "(4::nat) < 6"
    by simp_all
  have w'F: "\<lparr>ticks = 6, draws = 0\<rparr> = world0\<lparr>ticks := ticks world0 + 4 + 2\<rparr>"
    by (simp add: world0_def)
  define RF where "RF = loop_locals flyer (vf_straightline flyer [0, 0, 0, 0] (1, 0, 0))
       (TerminateMove flyer [0, 0, 0, 0] (1, 0, 0) (1 / 2) 5 (1 / 100) (15 / 100))
       (Some (9 / 2)) (1 / 10000) (clock flyer (ticks world0)) (1 / 3)"
  have F0: "spec_run RF 1 [0, 0, 0, 0] 0 = Continues"
    and F1: "spec_run RF 1 [0, 0, 0, 0] 1 = Continues"
    and F2: "spec_run RF 1 [0, 0, 0, 0] 2 = Caches"
    and F3: "spec_run RF 1 [0, 0, 0, 0] 3 = Caches"
    and F4: "spec_run RF 1 [0, 0, 0, 0] 4 = Fails (PlanningError ''Reached time limit.'')"
    by (simp_all add: RF_def spec_eval flyer_eval eval_nat_numeral)
  from F0 F1 F2 F3
  have passF: "\<forall>k<4. spec_run RF 1 [0, 0, 0, 0] k = Caches \<or> spec_run RF 1 [0, 0, 0, 0] k = Continues"
    by (simp add: eval_nat_numeral less_Suc_eq)
  have lastF: "spec_run RF 1 [0, 0, 0, 0] 3 = Caches
               \<and> (\<forall>j<4. 3 < j \<longrightarrow> spec_run RF 1 [0, 0, 0, 0] j \<noteq> Caches)"
    using F3 by (simp add: eval_nat_numeral less_Suc_eq)
  have bufF: "spec_buffer RF [0, 0, 0, 0] [0, 0, 0, 0] (Suc 3)
     = [\<lparr>wq = [0, 0, 0, 0], wdq = [0, 0, 0, 0], wdt = 1 / 3\<rparr>,
        \<lparr>wq = [1 / 3, 0, 0, 0], wdq = [1, 0, 0, 0], wdt = 1 / 3\<rparr>,
        \<lparr>wq = [2 / 3, 0, 0, 0], wdq = [1, 0, 0, 0], wdt = 1 / 3\<rparr>,
        \<lparr>wq = [1, 0, 0, 0], wdq = [1, 0, 0, 0], wdt = 1 / 3\<rparr>]"
    by (simp add: RF_def spec_eval flyer_eval eval_nat_numeral upt_rec)
  from FollowVectorField_failure_returns_cache [OF tsF RF_def q0F dq0F t0 passF F4 peF fuelF refl w'F]
  have "\<forall>m<4. spec_run RF 1 [0, 0, 0, 0] m = Caches
              \<and> (\<forall>j<4. m < j \<longrightarrow> spec_run RF 1 [0, 0, 0, 0] j \<noteq> Caches) \<longrightarrow>
          FollowVectorField 6 flyer (vf_straightline flyer [0, 0, 0, 0] (1, 0, 0))
            (TerminateMove flyer [0, 0, 0, 0] (1, 0, 0) (1 / 2) 5 (1 / 100) (15 / 100))
            (Some (9 / 2)) (1 / 10000) world0
          = Some (Return (spec_buffer RF [0, 0, 0, 0] [0, 0, 0, 0] (Suc m)), \<lparr>ticks = 6, draws = 0\<rparr>)"
    by blast
  moreover have "(3::nat) < 4" by simp
  ultimately have F: "FollowVectorField 6 flyer (vf_straightline flyer [0, 0, 0, 0] (1, 0, 0))
            (TerminateMove flyer [0, 0, 0, 0] (1, 0, 0) (1 / 2) 5 (1 / 100) (15 / 100))
            (Some (9 / 2)) (1 / 10000) world0
          = Some (Return (spec_buffer RF [0, 0, 0, 0] [0, 0, 0, 0] (Suc 3)), \<lparr>ticks = 6, draws = 0\<rparr>)"
    using lastF by blast
  from A B F show ?thesis unfolding bufA bufF by blast
qed

subsection \<open>Every run of the loop is one the specification describes\<close>

lemma loop_body_described:
  shows "loop_body R s = Next s' \<Longrightarrow>
           spec_pass R (ticks (wld s)) (robot_q s) = Caches
           \<or> spec_pass R (ticks (wld s)) (robot_q s) = Continues"
    and "loop_body R s = Exit (Threw e s') \<Longrightarrow> spec_pass R (ticks (wld s)) (robot_q s) = Fails e"
    and "loop_body R s = Exit (Break s') \<Longrightarrow> spec_pass R (ticks (wld s)) (robot_q s) = Terminates"
  unfolding loop_body_def spec_pass_def spec_timeout_def Let_def time_time_def
  by (auto split: if_splits outcome.splits option.splits Status.splits)

lemma iter_described:
  assumes "iter R n \<lparr>robot_q = q0, dqout = dq0, qtraj = [], cached_traj = None,
                      wld = \<lparr>ticks = t0, draws = d\<rparr>\<rparr> = Some s"
  shows "\<forall>k<n. spec_run R t0 q0 k = Caches \<or> spec_run R t0 q0 k = Continues"
  using assms
proof (induction n arbitrary: s)
  case 0
  show ?case by simp
next
  case (Suc n)
  from Suc.prems obtain sn
    where sn: "iter R n \<lparr>robot_q = q0, dqout = dq0, qtraj = [], cached_traj = None,
                          wld = \<lparr>ticks = t0, draws = d\<rparr>\<rparr> = Some sn"
      and nx: "loop_body R sn = Next s"
    by (rule iter_SucD)
  from Suc.IH [OF sn]
  have before: "\<forall>k<n. spec_run R t0 q0 k = Caches \<or> spec_run R t0 q0 k = Continues" .
  from iter_spec [OF before, of dq0 d] sn
  have "robot_q sn = spec_configuration R q0 n" and "ticks (wld sn) = t0 + n"
    by auto
  with loop_body_described(1) [OF nx]
  have "spec_run R t0 q0 n = Caches \<or> spec_run R t0 q0 n = Continues"
    by (simp add: spec_run_def)
  with before show ?case by (simp add: less_Suc_eq)
qed

text \<open>
  Every run of the loop that raises in pass \<open>n\<close> is one that the specification
  describes so.
\<close>

lemma failing_run_described:
  assumes "iter R n (initial_state P (w\<lparr>ticks := t0\<rparr>)) = Some s"
    and "loop_body R s = Exit (Threw e s')"
  shows "(\<forall>k<n. spec_run R t0 (GetActiveDOFValues P) k = Caches
               \<or> spec_run R t0 (GetActiveDOFValues P) k = Continues)
       \<and> spec_run R t0 (GetActiveDOFValues P) n = Fails e"
proof -
  note it = assms(1) [unfolded initial_state_record]
  from iter_described [OF it]
  have before: "\<forall>k<n. spec_run R t0 (GetActiveDOFValues P) k = Caches
               \<or> spec_run R t0 (GetActiveDOFValues P) k = Continues" .
  from iter_spec [OF before, of "GetActiveDOFVelocities P" "draws w"] it
  have "robot_q s = spec_configuration R (GetActiveDOFValues P) n" and "ticks (wld s) = t0 + n"
    by auto
  with loop_body_described(2) [OF assms(2)]
  have "spec_run R t0 (GetActiveDOFValues P) n = Fails e"
    by (simp add: spec_run_def)
  with before show ?thesis by simp
qed

lemma loop_body_appends_waypoint:
  assumes "\<not> spec_blocked R (ticks (wld s)) (robot_q s)"
  shows "(case loop_body R s of
            Next s' \<Rightarrow> qtraj s' = qtraj s @ [\<lparr>wq = robot_q s, wdq = dqout s, wdt = run_dt R\<rparr>]
          | Exit x \<Rightarrow>
              qtraj (exit_state x) = qtraj s @ [\<lparr>wq = robot_q s, wdq = dqout s, wdt = run_dt R\<rparr>])"
  using assms
  unfolding loop_body_def spec_blocked_def spec_timeout_def Let_def time_time_def
  by (auto split: if_splits outcome.splits option.splits Status.splits)

lemma spec_blocked_Fails:
  assumes "spec_blocked R tick q"
  shows "\<exists>msg. spec_pass R tick q = Fails (PlanningError msg)"
  using assms unfolding spec_blocked_def spec_pass_def by auto

lemma spec_velocity_Suc:
  assumes "spec_run R t0 q0 k = Caches \<or> spec_run R t0 q0 k = Continues"
  shows "run_vectorfield R (spec_configuration R q0 k) = Return (spec_velocity R q0 dq0 (Suc k))"
    and "spec_configuration R q0 (Suc k)
         = vec_add (spec_configuration R q0 k) (vec_scale (spec_velocity R q0 dq0 (Suc k)) (run_dt R))"
proof -
  from assms have "spec_pass R (t0 + k) (spec_configuration R q0 k) = Caches
                 \<or> spec_pass R (t0 + k) (spec_configuration R q0 k) = Continues"
    by (simp add: spec_run_def)
  from spec_pass_velocity [OF this] obtain dq
    where "run_vectorfield R (spec_configuration R q0 k) = Return dq"
    by blast
  then show "run_vectorfield R (spec_configuration R q0 k) = Return (spec_velocity R q0 dq0 (Suc k))"
    and "spec_configuration R q0 (Suc k)
         = vec_add (spec_configuration R q0 k) (vec_scale (spec_velocity R q0 dq0 (Suc k)) (run_dt R))"
    by simp_all
qed

subsection \<open>The velocity of a waypoint lags one pass behind\<close>

text \<open>
  Claim C2.  Take a call of FollowVectorField in which, by the specification's
  description, passes \<open>0\<close> to \<open>n - 1\<close> go on to the integration step.  Then the loop
  of the source reaches pass \<open>n\<close>, and there the buffer holds one waypoint for each of
  the passes \<open>0\<close> to \<open>n - 1\<close>: waypoint \<open>k\<close> pairs the configuration at the start of
  pass \<open>k\<close> with the velocity computed in pass \<open>k - 1\<close> (the robot's own velocity for
  \<open>k = 0\<close>) and the time step.  Pass \<open>n\<close> appends the waypoint of the same kind, however
  it ends, unless it fails before step 3 (time limit or collision), and then it raises
  with the buffer as it was.  The velocity that the generator returns in pass \<open>k\<close> is
  the one recorded by pass \<open>k + 1\<close>.  When pass \<open>n\<close> ends the loop with success, the
  call returns the waypoints of the passes \<open>0\<close> to \<open>n\<close>, so the velocity computed
  in pass \<open>n\<close> is in none of them.
\<close>

theorem waypoint_records_previous_velocity:
  fixes P :: "'p provider"
  assumes "timestep P = Return (Fin dt)"
    and "R = loop_locals P fn_vectorfield fn_terminate timelimit dq_tol (clock P (ticks w)) dt"
    and "q0 = GetActiveDOFValues P"
    and "dq0 = GetActiveDOFVelocities P"
    and "t0 = Suc (ticks w)"
    and "s0 = initial_state P (w\<lparr>ticks := t0\<rparr>)"
    and "\<forall>k<n. spec_run R t0 q0 k = Caches \<or> spec_run R t0 q0 k = Continues"
    and "waypoint = (\<lambda>k. \<lparr>wq = spec_configuration R q0 k, wdq = spec_velocity R q0 dq0 k, wdt = dt\<rparr>)"
  shows "spec_velocity R q0 dq0 0 = GetActiveDOFVelocities P
       \<and> (\<forall>k<n. fn_vectorfield (spec_configuration R q0 k) = Return (spec_velocity R q0 dq0 (Suc k)))
       \<and> (\<exists>sn. iter R n s0 = Some sn
              \<and> robot_q sn = spec_configuration R q0 n
              \<and> dqout sn = spec_velocity R q0 dq0 n
              \<and> qtraj sn = map waypoint [0..<n]
              \<and> (spec_blocked R (t0 + n) (spec_configuration R q0 n) \<longrightarrow>
                    (\<exists>msg s'. loop_body R sn = Exit (Threw (PlanningError msg) s')
                             \<and> qtraj s' = map waypoint [0..<n]))
              \<and> (\<not> spec_blocked R (t0 + n) (spec_configuration R q0 n) \<longrightarrow>
                    (case loop_body R sn of
                       Next s' \<Rightarrow> qtraj s' = map waypoint [0..<n] @ [waypoint n]
                     | Exit x \<Rightarrow> qtraj (exit_state x) = map waypoint [0..<n] @ [waypoint n])))
       \<and> (spec_run R t0 q0 n = Terminates \<and> n < fuel \<longrightarrow>
            FollowVectorField fuel P fn_vectorfield fn_terminate timelimit dq_tol w
              = Some (Return (map waypoint [0..<Suc n]), w\<lparr>ticks := ticks w + n + 2\<rparr>))"
proof -
  have dt: "run_dt R = dt" and fv: "run_vectorfield R = fn_vectorfield"
    using assms(2) by (simp_all add: loop_locals_def)
  have wp: "waypoint = spec_waypoint R q0 dq0"
    using assms(8) dt by (simp add: spec_waypoint_def fun_eq_iff)
  note buf = spec_buffer_def [symmetric]
  have s0: "s0 = \<lparr>robot_q = q0, dqout = dq0, qtraj = [], cached_traj = None,
                   wld = \<lparr>ticks = t0, draws = draws w\<rparr>\<rparr>"
    using assms(3,4,6) by (simp add: initial_state_record)
  let ?sn = "\<lparr>robot_q = spec_configuration R q0 n,
              dqout = spec_velocity R q0 dq0 n,
              qtraj = spec_buffer R q0 dq0 n,
              cached_traj = map_option (\<lambda>m. spec_buffer R q0 dq0 (Suc m))
                              (spec_last_cache R t0 q0 n),
              wld = \<lparr>ticks = t0 + n, draws = draws w\<rparr>\<rparr>"
  have it: "iter R n s0 = Some ?sn"
    unfolding s0 by (rule iter_spec [OF assms(7)])
  have first: "spec_velocity R q0 dq0 0 = GetActiveDOFVelocities P"
    using assms(4) by simp
  have lag: "fn_vectorfield (spec_configuration R q0 k) = Return (spec_velocity R q0 dq0 (Suc k))"
    if "k < n" for k
    using spec_velocity_Suc(1) [of R t0 q0 k dq0] assms(7) that fv by simp
  have blocked: "\<exists>msg s'. loop_body R ?sn = Exit (Threw (PlanningError msg) s')
                             \<and> qtraj s' = spec_buffer R q0 dq0 n"
    if b: "spec_blocked R (t0 + n) (spec_configuration R q0 n)"
  proof -
    from spec_blocked_Fails [OF b] obtain msg
      where "spec_pass R (t0 + n) (spec_configuration R q0 n) = Fails (PlanningError msg)"
      by blast
    then have "spec_pass R (ticks (wld ?sn)) (robot_q ?sn) = Fails (PlanningError msg)"
      by simp
    from loop_body_Fails [OF this] b
    have "loop_body R ?sn = Exit (Threw (PlanningError msg)
            (?sn\<lparr>wld := (wld ?sn)\<lparr>ticks := Suc (ticks (wld ?sn))\<rparr>\<rparr>))
          \<and> qtraj (?sn\<lparr>wld := (wld ?sn)\<lparr>ticks := Suc (ticks (wld ?sn))\<rparr>\<rparr>)
            = spec_buffer R q0 dq0 n"
      by simp
    then show ?thesis by blast
  qed
  have free: "(case loop_body R ?sn of
                 Next s' \<Rightarrow> qtraj s' = spec_buffer R q0 dq0 n @ [spec_waypoint R q0 dq0 n]
               | Exit x \<Rightarrow>
                   qtraj (exit_state x) = spec_buffer R q0 dq0 n @ [spec_waypoint R q0 dq0 n])"
    if b: "\<not> spec_blocked R (t0 + n) (spec_configuration R q0 n)"
  proof -
    from b have "\<not> spec_blocked R (ticks (wld ?sn)) (robot_q ?sn)" by simp
    from loop_body_appends_waypoint [OF this] show ?thesis
      by (cases "loop_body R ?sn") (simp_all add: spec_waypoint_def)
  qed
  have ret: "FollowVectorField fuel P fn_vectorfield fn_terminate timelimit dq_tol w
              = Some (Return (spec_buffer R q0 dq0 (Suc n)), w\<lparr>ticks := ticks w + n + 2\<rparr>)"
    if t: "spec_run R t0 q0 n = Terminates" and f: "n < fuel"
  proof -
    from while_loop_spec_Terminates [OF assms(7) t f, of dq0 "draws w"]
    have "while_loop fuel R s0 = Some (Break
             \<lparr>robot_q = spec_configuration R q0 n,
              dqout = spec_velocity R q0 dq0 n,
              qtraj = spec_buffer R q0 dq0 (Suc n),
              cached_traj = map_option (\<lambda>m. spec_buffer R q0 dq0 (Suc m))
                              (spec_last_cache R t0 q0 n),
              wld = \<lparr>ticks = Suc (t0 + n), draws = draws w\<rparr>\<rparr>)"
      unfolding s0 .
    with FollowVectorField_finite [OF assms(1), of fuel fn_vectorfield fn_terminate timelimit
        dq_tol w] assms(2,5,6)
    show ?thesis by (simp add: finish_def)
  qed
  from it blocked free
  have "\<exists>sn. iter R n s0 = Some sn
              \<and> robot_q sn = spec_configuration R q0 n
              \<and> dqout sn = spec_velocity R q0 dq0 n
              \<and> qtraj sn = spec_buffer R q0 dq0 n
              \<and> (spec_blocked R (t0 + n) (spec_configuration R q0 n) \<longrightarrow>
                    (\<exists>msg s'. loop_body R sn = Exit (Threw (PlanningError msg) s')
                             \<and> qtraj s' = spec_buffer R q0 dq0 n))
              \<and> (\<not> spec_blocked R (t0 + n) (spec_configuration R q0 n) \<longrightarrow>
                    (case loop_body R sn of
                       Next s' \<Rightarrow> qtraj s' = spec_buffer R q0 dq0 n @ [spec_waypoint R q0 dq0 n]
                     | Exit x \<Rightarrow>
                         qtraj (exit_state x)
                         = spec_buffer R q0 dq0 n @ [spec_waypoint R q0 dq0 n]))"
    by (intro exI [of _ ?sn]) simp
  with first lag ret show ?thesis unfolding wp buf by blast
qed

theorem waypoint_records_previous_velocity_witness:
  "FollowVectorField 5 slider (vf_straightline slider 0 (1, 0, 0))
       (TerminateMove slider 0 (1, 0, 0) (1 / 20) (3 / 20) (1 / 100) (15 / 100))
       None (1 / 10000) world0
     = Some (Return [\<lparr>wq = [0], wdq = [0], wdt = 1 / 10\<rparr>,
                     \<lparr>wq = [1 / 10], wdq = [1], wdt = 1 / 10\<rparr>,
                     \<lparr>wq = [1 / 5], wdq = [1], wdt = 1 / 10\<rparr>],
             \<lparr>ticks = 4, draws = 0\<rparr>)
   \<and> vf_straightline slider 0 (1, 0, 0) [1 / 10] = Return [1]
   \<and> FollowVectorField 6 flyer (vf_straightline flyer [0, 0, 0, 0] (1, 0, 0))
       (TerminateMove flyer [0, 0, 0, 0] (1, 0, 0) (1 / 2) (5 / 6) (1 / 100) (15 / 100))
       None (1 / 10000) world0
     = Some (Return [\<lparr>wq = [0, 0, 0, 0], wdq = [0, 0, 0, 0], wdt = 1 / 3\<rparr>,
                     \<lparr>wq = [1 / 3, 0, 0, 0], wdq = [1, 0, 0, 0], wdt = 1 / 3\<rparr>,
                     \<lparr>wq = [2 / 3, 0, 0, 0], wdq = [1, 0, 0, 0], wdt = 1 / 3\<rparr>,
                     \<lparr>wq = [1, 0, 0, 0], wdq = [1, 0, 0, 0], wdt = 1 / 3\<rparr>],
             \<lparr>ticks = 5, draws = 0\<rparr>)"
proof -
  have t0: "1 = Suc (ticks world0)" by (simp add: world0_def)
  \<comment> \<open>one joint: pass 2 ends the loop\<close>
  have ts: "timestep slider = Return (Fin (1 / 10))"
    by (simp add: slider_eval)
  have q0: "[0] = GetActiveDOFValues slider" and dq0: "[0] = GetActiveDOFVelocities slider"
    by (simp_all add: slider_def)
  define RA where "RA = loop_locals slider (vf_straightline slider 0 (1, 0, 0))
       (TerminateMove slider 0 (1, 0, 0) (1 / 20) (3 / 20) (1 / 100) (15 / 100))
       None (1 / 10000) (clock slider (ticks world0)) (1 / 10)"
  have A0: "spec_run RA 1 [0] 0 = Continues" and A1: "spec_run RA 1 [0] 1 = Caches"
    and A2: "spec_run RA 1 [0] 2 = Terminates"
    by (simp_all add: RA_def spec_eval slider_eval eval_nat_numeral)
  from A0 A1 have passA: "\<forall>k<2. spec_run RA 1 [0] k = Caches \<or> spec_run RA 1 [0] k = Continues"
    by (simp add: eval_nat_numeral less_Suc_eq)
  have cA: "spec_configuration RA [0] 1 = [1 / 10]" and vA: "spec_velocity RA [0] [0] (Suc 1) = [1]"
    by (simp_all add: RA_def slider_eval eval_nat_numeral)
  have bufA: "map (\<lambda>k. \<lparr>wq = spec_configuration RA [0] k, wdq = spec_velocity RA [0] [0] k,
                          wdt = 1 / 10\<rparr>) [0..<Suc 2]
              = [\<lparr>wq = [0], wdq = [0], wdt = 1 / 10\<rparr>,
                 \<lparr>wq = [1 / 10], wdq = [1], wdt = 1 / 10\<rparr>,
                 \<lparr>wq = [1 / 5], wdq = [1], wdt = 1 / 10\<rparr>]"
    by (simp add: RA_def slider_eval eval_nat_numeral upt_rec)
  note instA = waypoint_records_previous_velocity [OF ts RA_def q0 dq0 t0 refl passA refl,
      where fuel = 5]
  have "(2::nat) < 5" and "(1::nat) < 2" by simp_all
  with instA A2
  have "FollowVectorField 5 slider (vf_straightline slider 0 (1, 0, 0))
       (TerminateMove slider 0 (1, 0, 0) (1 / 20) (3 / 20) (1 / 100) (15 / 100))
       None (1 / 10000) world0
     = Some (Return (map (\<lambda>k. \<lparr>wq = spec_configuration RA [0] k, wdq = spec_velocity RA [0] [0] k,
                          wdt = 1 / 10\<rparr>) [0..<Suc 2]), world0\<lparr>ticks := ticks world0 + 2 + 2\<rparr>)"
    and "vf_straightline slider 0 (1, 0, 0) (spec_configuration RA [0] 1)
         = Return (spec_velocity RA [0] [0] (Suc 1))"
    by blast+
  then have A: "FollowVectorField 5 slider (vf_straightline slider 0 (1, 0, 0))
       (TerminateMove slider 0 (1, 0, 0) (1 / 20) (3 / 20) (1 / 100) (15 / 100))
       None (1 / 10000) world0
     = Some (Return [\<lparr>wq = [0], wdq = [0], wdt = 1 / 10\<rparr>,
                     \<lparr>wq = [1 / 10], wdq = [1], wdt = 1 / 10\<rparr>,
                     \<lparr>wq = [1 / 5], wdq = [1], wdt = 1 / 10\<rparr>],
             \<lparr>ticks = 4, draws = 0\<rparr>)"
    and L: "vf_straightline slider 0 (1, 0, 0) [1 / 10] = Return [1]"
    unfolding bufA cA vA by (simp_all add: world0_def)
  \<comment> \<open>four joints: pass 3 ends the loop\<close>
  have tsF: "timestep flyer = Return (Fin (1 / 3))"
    by (simp add: flyer_eval)
  have q0F: "[0, 0, 0, 0] = GetActiveDOFValues flyer"
    and dq0F: "[0, 0, 0, 0] = GetActiveDOFVelocities flyer"
    by (simp_all add: flyer_def)
  define RF where "RF = loop_locals flyer (vf_straightline flyer [0, 0, 0, 0] (1, 0, 0))
       (TerminateMove flyer [0, 0, 0, 0] (1, 0, 0) (1 / 2) (5 / 6) (1 / 100) (15 / 100))
       None (1 / 10000) (clock flyer (ticks world0)) (1 / 3)"
  have F0: "spec_run RF 1 [0, 0, 0, 0] 0 = Continues"
    and F1: "spec_run RF 1 [0, 0, 0, 0] 1 = Continues"
    and F2: "spec_run RF 1 [0, 0, 0, 0] 2 = Caches"
    and F3: "spec_run RF 1 [0, 0, 0, 0] 3 = Terminates"
    by (simp_all add: RF_def spec_eval flyer_eval eval_nat_numeral)
  from F0 F1 F2
  have passF: "\<forall>k<3. spec_run RF 1 [0, 0, 0, 0] k = Caches \<or> spec_run RF 1 [0, 0, 0, 0] k = Continues"
    by (simp add: eval_nat_numeral less_Suc_eq)
  have bufF: "map (\<lambda>k. \<lparr>wq = spec_configuration RF [0, 0, 0, 0] k,
                          wdq = spec_velocity RF [0, 0, 0, 0] [0, 0, 0, 0] k,
                          wdt = 1 / 3\<rparr>) [0..<Suc 3]
     = [\<lparr>wq = [0, 0, 0, 0], wdq = [0, 0, 0, 0], wdt = 1 / 3\<rparr>,
        \<lparr>wq = [1 / 3, 0, 0, 0], wdq = [1, 0, 0, 0], wdt = 1 / 3\<rparr>,
        \<lparr>wq = [2 / 3, 0, 0, 0], wdq = [1, 0, 0, 0], wdt = 1 / 3\<rparr>,
        \<lparr>wq = [1, 0, 0, 0], wdq = [1, 0, 0, 0], wdt = 1 / 3\<rparr>]"
    by (simp add: RF_def flyer_eval eval_nat_numeral upt_rec)
  note instF = waypoint_records_previous_velocity [OF tsF RF_def q0F dq0F t0 refl passF refl,
      where fuel = 6]
  have "(3::nat) < 6" by simp
  with instF F3
  have "FollowVectorField 6 flyer (vf_straightline flyer [0, 0, 0, 0] (1, 0, 0))
       (TerminateMove flyer [0, 0, 0, 0] (1, 0, 0) (1 / 2) (5 / 6) (1 / 100) (15 / 100))
       None (1 / 10000) world0
     = Some (Return (map (\<lambda>k. \<lparr>wq = spec_configuration RF [0, 0, 0, 0] k,
                          wdq = spec_velocity RF [0, 0, 0, 0] [0, 0, 0, 0] k,
                          wdt = 1 / 3\<rparr>) [0..<Suc 3]), world0\<lparr>ticks := ticks world0 + 3 + 2\<rparr>)"
    by blast
  then have F: "FollowVectorField 6 flyer (vf_straightline flyer [0, 0, 0, 0] (1, 0, 0))
       (TerminateMove flyer [0, 0, 0, 0] (1, 0, 0) (1 / 2) (5 / 6) (1 / 100) (15 / 100))
       None (1 / 10000) world0
     = Some (Return [\<lparr>wq = [0, 0, 0, 0], wdq = [0, 0, 0, 0], wdt = 1 / 3\<rparr>,
                     \<lparr>wq = [1 / 3, 0, 0, 0], wdq = [1, 0, 0, 0], wdt = 1 / 3\<rparr>,
                     \<lparr>wq = [2 / 3, 0, 0, 0], wdq = [1, 0, 0, 0], wdt = 1 / 3\<rparr>,
                     \<lparr>wq = [1, 0, 0, 0], wdq = [1, 0, 0, 0], wdt = 1 / 3\<rparr>],
             \<lparr>ticks = 5, draws = 0\<rparr>)"
    unfolding bufF by (simp add: world0_def)
  from A L F show ?thesis by blast
qed

subsection \<open>The offset planner with distance zero\<close>

text \<open>
  Claim C5, as stated, fails: with \<open>distance = 0\<close> and \<open>max_distance = 0\<close> the first
  call of the evaluator, at the start pose, returns \<open>CONTINUE\<close>, since \<open>0 > 0\<close> is
  false, and the planner takes a step before it terminates.
\<close>

theorem zero_offset_first_evaluation_counterexample:
  "TerminateMove slider (GetEndEffectorTransform slider (GetActiveDOFValues slider)) (1, 0, 0)
      0 0 (1 / 100) (15 / 100) (GetActiveDOFValues slider) = Return CONTINUE
   \<and> PlanToEndEffectorOffset 5 slider (1, 0, 0) 0 (Some 0) None (1 / 100) (15 / 100) world0
     = Some (Return [\<lparr>wq = [0], wdq = [0], wdt = 1 / 10\<rparr>,
                     \<lparr>wq = [1 / 10], wdq = [1], wdt = 1 / 10\<rparr>],
             \<lparr>ticks = 3, draws = 0\<rparr>)"
  by (simp add: slider_eval eval_nat_numeral)

lemma TerminateMove_on_zero_error:
  assumes "0 \<le> position_tolerance" and "0 \<le> angular_tolerance"
    and "linalg_norm P [0, 0, 0] = Fin 0"
  shows "TerminateMove_on P direction 0 0 position_tolerance angular_tolerance ((0, 0, 0), 0)
         = Return CONTINUE"
  using assms
  by (cases direction) (simp add: TerminateMove_on_def norm3_def)

text \<open>
  Claim C5, amended.  With \<open>distance = 0\<close> and \<open>max_distance = 0\<close>, tolerances that
  are not negative (as the validation requires) and a robot at the captured start pose
  (the geodesic error is zero, and the norm of the zero vector is zero), the evaluator
  returns \<open>CONTINUE\<close>, not \<open>TERMINATE\<close>, at its first call, which is made at the
  start configuration, before any integration step.  So the first pass of a loop that runs
  with this evaluator never leaves it through \<^verbatim>\<open>break\<close>.
\<close>

theorem zero_offset_first_evaluation:
  fixes P :: "'p provider"
  assumes "GeodesicError P Tstart (GetEndEffectorTransform P (GetActiveDOFValues P))
           = ((0, 0, 0), 0)"
    and "0 \<le> position_tolerance" and "0 \<le> angular_tolerance"
    and "linalg_norm P [0, 0, 0] = Fin 0"
  shows "TerminateMove P Tstart direction 0 0 position_tolerance angular_tolerance
           (GetActiveDOFValues P) = Return CONTINUE
       \<and> (\<forall>(R::'p run) w s.
             run_robot R = P
             \<and> run_terminate R = TerminateMove P Tstart direction 0 0 position_tolerance
                                   angular_tolerance
             \<longrightarrow> loop_body R (initial_state P w) \<noteq> Exit (Break s))"
proof -
  have ev: "TerminateMove P Tstart direction 0 0 position_tolerance angular_tolerance
           (GetActiveDOFValues P) = Return CONTINUE"
    using assms(1) TerminateMove_on_zero_error [OF assms(2,3,4)]
    by (simp add: TerminateMove_def)
  have "loop_body R (initial_state P w) \<noteq> Exit (Break s)"
    if "run_robot R = P"
      and t: "run_terminate R = TerminateMove P Tstart direction 0 0 position_tolerance
                                   angular_tolerance"
    for R :: "'p run" and w s
  proof
    assume "loop_body R (initial_state P w) = Exit (Break s)"
    from loop_body_Break(2) [OF this] t ev show False
      by (simp add: initial_state_def)
  qed
  with ev show ?thesis by blast
qed

theorem zero_offset_first_evaluation_witness:
  "TerminateMove slider 0 (1, 0, 0) 0 0 (1 / 100) (15 / 100) (GetActiveDOFValues slider)
     = Return CONTINUE
   \<and> (\<forall>s. loop_body
          \<lparr>run_robot = slider, run_vectorfield = vf_straightline slider 0 (1, 0, 0),
           run_terminate = TerminateMove slider 0 (1, 0, 0) 0 0 (1 / 100) (15 / 100),
           run_timelimit = None, run_dq_tol = 1 / 10000, run_start_time = 0,
           run_dt = 1 / 10\<rparr>
          (initial_state slider world0) \<noteq> Exit (Break s))"
proof -
  have a: "GeodesicError slider 0 (GetEndEffectorTransform slider (GetActiveDOFValues slider))
           = ((0, 0, 0), 0)"
    by (simp add: slider_def)
  have b: "(0::real) \<le> 1 / 100" and c: "(0::real) \<le> 15 / 100" by simp_all
  have d: "linalg_norm slider [0, 0, 0] = Fin 0"
    by (simp add: slider_def exact_norm_def euclidean_norm_def)
  define R where "R = \<lparr>run_robot = slider, run_vectorfield = vf_straightline slider 0 (1, 0, 0),
           run_terminate = TerminateMove slider 0 (1, 0, 0) 0 0 (1 / 100) (15 / 100),
           run_timelimit = None, run_dq_tol = 1 / 10000, run_start_time = 0,
           run_dt = 1 / 10\<rparr>"
  have r: "run_robot R = slider
           \<and> run_terminate R = TerminateMove slider 0 (1, 0, 0) 0 0 (1 / 100) (15 / 100)"
    by (simp add: R_def)
  from zero_offset_first_evaluation [OF a b c d, of "(1, 0, 0)"] r
  have "TerminateMove slider 0 (1, 0, 0) 0 0 (1 / 100) (15 / 100) (GetActiveDOFValues slider)
          = Return CONTINUE
        \<and> (\<forall>s. loop_body R (initial_state slider world0) \<noteq> Exit (Break s))"
    by blast
  then show ?thesis unfolding R_def .
qed

subsection \<open>The direction divided by its norm\<close>

lemma div3_not_Raise: "div3 P direction n \<noteq> Raise e"
proof -
  have v: "vec3_of a b c \<noteq> Raise e" for a b c
    by (cases a; cases b; cases c) simp_all
  obtain x y z where "direction = (x, y, z)" by (cases direction) auto
  with v show ?thesis by (cases n) simp_all
qed

lemma vec3_of_Return:
  "vec3_of a b c = Return d \<longleftrightarrow> a = Fin (fst d) \<and> b = Fin (fst (snd d)) \<and> c = Fin (snd (snd d))"
  by (cases a; cases b; cases c; cases d) auto

lemma euclidean_norm_normalized:
  assumes "euclidean_norm [x, y, z] \<noteq> 0" and "n = euclidean_norm [x, y, z]"
  shows "euclidean_norm [x / n, y / n, z / n] = 1"
proof -
  have n: "n = sqrt (x * x + y * y + z * z)"
    using assms(2) by (simp add: euclidean_norm_def add.assoc)
  from assms have n0: "n \<noteq> 0" by simp
  have nn: "n * n = x * x + y * y + z * z"
    unfolding n by simp
  have "x * x / (n * n) + (y * y / (n * n) + z * z / (n * n)) = (x * x + y * y + z * z) / (n * n)"
    by (simp add: add_divide_distrib)
  also have "\<dots> = 1" unfolding nn [symmetric] using n0 by simp
  finally have key: "x * x / (n * n) + (y * y / (n * n) + z * z / (n * n)) = 1" .
  show ?thesis
    unfolding euclidean_norm_def by (simp add: key)
qed

subsection \<open>Computing with doubles\<close>

lemma bexp_numeral:
  "bexp (numeral k) x =
     (if 2 \<le> x then bexp (pred_numeral k) (x / 2) + 1
      else if x < 1 then bexp (pred_numeral k) (2 * x) - 1
      else 0)"
  by (simp add: numeral_eq_Suc)

lemmas binary64_eval = binary64_def bexp_numeral pow2_def round_even_def Let_def

lemma norm64_overflow: "norm64 [2 ^ 600, 0, 0] = PInf"
  by (simp add: norm64_def binary64_def)

lemma norm64_underflow: "norm64 [1 / 2 ^ 600, 0, 0] = Fin 0"
  by (simp add: norm64_def binary64_def)

lemma binary64_one: "binary64 1 = Fin 1"
  by (simp add: binary64_eval)

lemma binary64_quotient:
  "binary64 (3 / (5750131667089115 / 281474976710656)) = Fin (661367777446017 / 4503599627370496)"
  by (simp add: binary64_eval)

lemma binary64_product:
  "binary64 (661367777446017 / 4503599627370496 * (5750131667089115 / 281474976710656))
   = Fin (3 + 1 / 2 ^ 51)"
  by (simp add: binary64_eval)

subsection \<open>PlanToEndEffectorOffset checks its arguments\<close>

text \<open>
  Claim C6, as stated, fails in three ways.  A robot with six joints, four of them in
  the arm: on valid arguments the call raises a \<^verbatim>\<open>ValueError\<close> in the first pass of the
  loop, before any integration step, because line 147 divides the six velocity limits by
  the four velocities of the arm.  In double precision the direction \<open>(2^-600, 0, 0)\<close>
  is not zero, yet its computed norm is zero (the square underflows) and the call raises
  \<^verbatim>\<open>ValueError\<close>; and for the direction \<open>(2^600, 0, 0)\<close> the computed norm is \<^verbatim>\<open>inf\<close>
  (the square overflows), and the direction that the planner goes on with is the zero
  vector, not a vector of length one.
\<close>

theorem PlanToEndEffectorOffset_validation_counterexample:
  "PlanToEndEffectorOffset 5 (bench [1, 1, 1, 1, 1, 1] [1, 0, 0, 0] exact_norm Fin) (1, 0, 0)
       (1 / 10) None None (1 / 100) (15 / 100) world0
     = Some (Raise (ValueError ''operands could not be broadcast together with shapes''),
             \<lparr>ticks = 2, draws = 0\<rparr>)
   \<and> euclidean_norm [1, 0, 0] = 1
   \<and> loop_body
        (loop_locals (bench [1, 1, 1, 1, 1, 1] [1, 0, 0, 0] exact_norm Fin)
           (vf_straightline (bench [1, 1, 1, 1, 1, 1] [1, 0, 0, 0] exact_norm Fin) () (1, 0, 0))
           (TerminateMove (bench [1, 1, 1, 1, 1, 1] [1, 0, 0, 0] exact_norm Fin) () (1, 0, 0)
              (1 / 10) (1 / 10) (1 / 100) (15 / 100))
           None (1 / 10000) 0 1)
        (initial_state (bench [1, 1, 1, 1, 1, 1] [1, 0, 0, 0] exact_norm Fin)
           \<lparr>ticks = 1, draws = 0\<rparr>)
     = Exit (Threw (ValueError ''operands could not be broadcast together with shapes'')
          \<lparr>robot_q = [0, 0, 0, 0], dqout = [0, 0, 0, 0],
           qtraj = [\<lparr>wq = [0, 0, 0, 0], wdq = [0, 0, 0, 0], wdt = 1\<rparr>],
           cached_traj = None, wld = \<lparr>ticks = 2, draws = 0\<rparr>\<rparr>)
   \<and> euclidean_norm [1 / 2 ^ 600, 0, 0] \<noteq> 0
   \<and> PlanToEndEffectorOffset 5 (bench [1] [1] norm64 binary64) (1 / 2 ^ 600, 0, 0)
       (1 / 10) None None (1 / 100) (15 / 100) world0
     = Some (Raise (ValueError ''Direction must be non-zero''), world0)
   \<and> PlanToEndEffectorOffset 5 (bench [1] [1] norm64 binary64) (2 ^ 600, 0, 0)
       (1 / 10) None None (1 / 100) (15 / 100) world0
     = FollowVectorField 5 (bench [1] [1] norm64 binary64)
         (vf_straightline (bench [1] [1] norm64 binary64) () (0, 0, 0))
         (TerminateMove (bench [1] [1] norm64 binary64) () (0, 0, 0)
            (1 / 10) (1 / 10) (1 / 100) (15 / 100))
         None (1 / 10000) world0
   \<and> euclidean_norm [0, 0, 0] \<noteq> 1"
proof -
  have 1: "PlanToEndEffectorOffset 5 (bench [1, 1, 1, 1, 1, 1] [1, 0, 0, 0] exact_norm Fin) (1, 0, 0)
       (1 / 10) None None (1 / 100) (15 / 100) world0
     = Some (Raise (ValueError ''operands could not be broadcast together with shapes''),
             \<lparr>ticks = 2, draws = 0\<rparr>)"
    by (simp add: bench_eval eval_nat_numeral)
  have 2: "euclidean_norm [1, 0, 0] = 1" and 4: "euclidean_norm [1 / 2 ^ 600, 0, 0] \<noteq> 0"
    and 7: "euclidean_norm [0, 0, 0] \<noteq> 1"
    by (simp_all add: euclidean_norm_def)
  have 3: "loop_body
        (loop_locals (bench [1, 1, 1, 1, 1, 1] [1, 0, 0, 0] exact_norm Fin)
           (vf_straightline (bench [1, 1, 1, 1, 1, 1] [1, 0, 0, 0] exact_norm Fin) () (1, 0, 0))
           (TerminateMove (bench [1, 1, 1, 1, 1, 1] [1, 0, 0, 0] exact_norm Fin) () (1, 0, 0)
              (1 / 10) (1 / 10) (1 / 100) (15 / 100))
           None (1 / 10000) 0 1)
        (initial_state (bench [1, 1, 1, 1, 1, 1] [1, 0, 0, 0] exact_norm Fin)
           \<lparr>ticks = 1, draws = 0\<rparr>)
     = Exit (Threw (ValueError ''operands could not be broadcast together with shapes'')
          \<lparr>robot_q = [0, 0, 0, 0], dqout = [0, 0, 0, 0],
           qtraj = [\<lparr>wq = [0, 0, 0, 0], wdq = [0, 0, 0, 0], wdt = 1\<rparr>],
           cached_traj = None, wld = \<lparr>ticks = 2, draws = 0\<rparr>\<rparr>)"
    by (simp add: bench_eval)
  have n5: "linalg_norm (bench [1] [1] norm64 binary64) [1 / 2 ^ 600, 0, 0] = Fin 0"
    and n6: "linalg_norm (bench [1] [1] norm64 binary64) [2 ^ 600, 0, 0] = PInf"
    by (simp_all add: bench_def norm64_def binary64_def)
  have 5: "PlanToEndEffectorOffset 5 (bench [1] [1] norm64 binary64) (1 / 2 ^ 600, 0, 0)
       (1 / 10) None None (1 / 100) (15 / 100) world0
     = Some (Raise (ValueError ''Direction must be non-zero''), world0)"
    unfolding PlanToEndEffectorOffset_def norm3_def list3.simps n5 by simp
  have 6: "PlanToEndEffectorOffset 5 (bench [1] [1] norm64 binary64) (2 ^ 600, 0, 0)
       (1 / 10) None None (1 / 100) (15 / 100) world0
     = FollowVectorField 5 (bench [1] [1] norm64 binary64)
         (vf_straightline (bench [1] [1] norm64 binary64) () (0, 0, 0))
         (TerminateMove (bench [1] [1] norm64 binary64) () (0, 0, 0)
            (1 / 10) (1 / 10) (1 / 100) (15 / 100))
         None (1 / 10000) world0"
    unfolding PlanToEndEffectorOffset_def norm3_def list3.simps n6 by simp
  from 1 2 3 4 5 6 7 show ?thesis by blast
qed

text \<open>
  Claim C6, amended.  PlanToEndEffectorOffset raises a \<^verbatim>\<open>ValueError\<close> at its argument
  checks (the world is as it was: the clock has not been read and no pass of the loop has
  run, so nothing has moved) exactly when \<open>distance < 0\<close>, or the norm that numpy
  computes for the direction is zero, or \<open>max_distance\<close> is given and smaller than
  \<open>distance\<close>, or a tolerance is negative.  On arguments that pass the checks it
  divides the direction by its computed norm, and when the quotients are numbers it
  follows the vector field with them and with \<open>max_distance\<close> set to \<open>distance\<close>
  when it was not given.  Each component of the new direction is the rounded quotient;
  the vector has length one when the norm and the quotients are exact, and it is the
  zero vector when the computed norm is \<^verbatim>\<open>inf\<close>.  A \<^verbatim>\<open>ValueError\<close> that numpy raises
  later, inside the loop, is not excluded.
\<close>

theorem PlanToEndEffectorOffset_validation:
  fixes P :: "'p provider"
  assumes "invalid = (distance < 0 \<or> norm3 P direction = Fin 0
                      \<or> (case max_distance of None \<Rightarrow> False | Some m \<Rightarrow> m < distance)
                      \<or> position_tolerance < 0 \<or> angular_tolerance < 0)"
    and "normalized = div3 P direction (norm3 P direction)"
    and "max_distance' = (case max_distance of None \<Rightarrow> distance | Some m \<Rightarrow> m)"
    and "Tstart = GetEndEffectorTransform P (GetActiveDOFValues P)"
    and "call = PlanToEndEffectorOffset fuel P direction distance max_distance timelimit
                  position_tolerance angular_tolerance w"
  shows "((\<exists>msg. call = Some (Raise (ValueError msg), w)) \<longleftrightarrow> invalid)
       \<and> (\<not> invalid \<longrightarrow>
            (\<forall>direction'. normalized = Return direction' \<longrightarrow>
               call = FollowVectorField fuel P (vf_straightline P Tstart direction')
                        (TerminateMove P Tstart direction' distance max_distance'
                           position_tolerance angular_tolerance)
                        timelimit (1 / 10000) w)
          \<and> (\<forall>n direction'. norm3 P direction = Fin n \<and> normalized = Return direction' \<longrightarrow>
               n \<noteq> 0
             \<and> round_float P (fst direction / n) = Fin (fst direction')
             \<and> round_float P (fst (snd direction) / n) = Fin (fst (snd direction'))
             \<and> round_float P (snd (snd direction) / n) = Fin (snd (snd direction')))
          \<and> (norm3 P direction = PInf \<longrightarrow> normalized = Return (0, 0, 0))
          \<and> (norm3 P direction = Fin (euclidean_norm (list3 direction)) \<and> round_float P = Fin \<longrightarrow>
               (\<exists>direction'. normalized = Return direction'
                            \<and> euclidean_norm (list3 direction') = 1)))"
proof -
  have bad: "\<exists>msg. call = Some (Raise (ValueError msg), w)" if invalid
    using that assms(1,5) by (auto simp: PlanToEndEffectorOffset_def)
  have good: "call = FollowVectorField fuel P (vf_straightline P Tstart direction')
                        (TerminateMove P Tstart direction' distance max_distance'
                           position_tolerance angular_tolerance)
                        timelimit (1 / 10000) w"
    if "\<not> invalid" and "normalized = Return direction'" for direction'
    using that assms
    by (auto simp: PlanToEndEffectorOffset_def Let_def split: option.splits)
  have nonfinite: "call = Some (NonFinite, w)" if "\<not> invalid" and "normalized = NonFinite"
    using that assms
    by (auto simp: PlanToEndEffectorOffset_def Let_def split: option.splits)
  have untouched: "call \<noteq> Some (Raise (ValueError msg), w)" if v: "\<not> invalid" for msg
  proof
    assume c: "call = Some (Raise (ValueError msg), w)"
    show False
    proof (cases normalized)
      case (Return direction')
      from good [OF v Return] c
      have "FollowVectorField fuel P (vf_straightline P Tstart direction')
                        (TerminateMove P Tstart direction' distance max_distance'
                           position_tolerance angular_tolerance)
                        timelimit (1 / 10000) w = Some (Raise (ValueError msg), w)"
        by simp
      from FollowVectorField_world [OF this] show False by simp
    next
      case (Raise e)
      with assms(2) div3_not_Raise [of P direction "norm3 P direction" e] show False by simp
    next
      case NonFinite
      from nonfinite [OF v NonFinite] c show False by simp
    qed
  qed
  obtain x y z where d: "direction = (x, y, z)" by (cases direction) auto
  have quot: "n \<noteq> 0
             \<and> round_float P (fst direction / n) = Fin (fst direction')
             \<and> round_float P (fst (snd direction) / n) = Fin (fst (snd direction'))
             \<and> round_float P (snd (snd direction) / n) = Fin (snd (snd direction'))"
    if v: "\<not> invalid" and n: "norm3 P direction = Fin n" and r: "normalized = Return direction'"
    for n direction'
  proof -
    from v n assms(1) have n0: "n \<noteq> 0" by auto
    from r n assms(2) d
    have "vec3_of (np_divide P x n) (np_divide P y n) (np_divide P z n) = Return direction'"
      by simp
    with n0 d show ?thesis by (simp add: vec3_of_Return np_divide_def)
  qed
  have inf: "normalized = Return (0, 0, 0)" if "norm3 P direction = PInf"
    using that assms(2) d by simp
  have unit: "\<exists>direction'. normalized = Return direction' \<and> euclidean_norm (list3 direction') = 1"
    if v: "\<not> invalid" and n: "norm3 P direction = Fin (euclidean_norm (list3 direction))"
      and e: "round_float P = Fin"
  proof -
    define m where "m = euclidean_norm [x, y, z]"
    from v n assms(1) d have m0: "euclidean_norm [x, y, z] \<noteq> 0" by auto
    from n d assms(2) e m0
    have "normalized = Return (x / m, y / m, z / m)"
      by (simp add: np_divide_def m_def)
    moreover from euclidean_norm_normalized [OF m0 m_def]
    have "euclidean_norm (list3 (x / m, y / m, z / m)) = 1" by simp
    ultimately show ?thesis by blast
  qed
  from bad untouched have "(\<exists>msg. call = Some (Raise (ValueError msg), w)) \<longleftrightarrow> invalid"
    by blast
  with good quot inf unit show ?thesis by blast
qed

theorem PlanToEndEffectorOffset_validation_witness:
  "(\<exists>msg. PlanToEndEffectorOffset 5 slider (0, 0, 0) (1 / 10) None None (1 / 100) (15 / 100)
            world0 = Some (Raise (ValueError msg), world0))
   \<and> (\<exists>msg. PlanToEndEffectorOffset 5 slider (1, 0, 0) (1 / 10) (Some (1 / 20)) None
            (1 / 100) (15 / 100) world0 = Some (Raise (ValueError msg), world0))
   \<and> PlanToEndEffectorOffset 5 slider (2, 0, 0) (1 / 20) None None (1 / 100) (15 / 100) world0
     = FollowVectorField 5 slider
         (vf_straightline slider (GetEndEffectorTransform slider (GetActiveDOFValues slider))
            (1, 0, 0))
         (TerminateMove slider (GetEndEffectorTransform slider (GetActiveDOFValues slider))
            (1, 0, 0) (1 / 20) (1 / 20) (1 / 100) (15 / 100))
         None (1 / 10000) world0
   \<and> (\<exists>direction'. div3 slider (2, 0, 0) (norm3 slider (2, 0, 0)) = Return direction'
                    \<and> euclidean_norm (list3 direction') = 1)"
proof -
  have n2: "norm3 slider (2, 0, 0) = Fin 2" and n1: "norm3 slider (1, 0, 0) = Fin 1"
    and n0: "norm3 slider (0, 0, 0) = Fin 0"
    and e2: "euclidean_norm (list3 (2, 0, 0)) = 2"
    and rf: "round_float slider = Fin"
    by (simp_all add: norm3_def slider_def exact_norm_def euclidean_norm_def)
  have A: "\<exists>msg. PlanToEndEffectorOffset 5 slider (0, 0, 0) (1 / 10) None None (1 / 100)
            (15 / 100) world0 = Some (Raise (ValueError msg), world0)"
    using PlanToEndEffectorOffset_validation [OF refl refl refl refl refl,
        where P = slider and direction = "(0, 0, 0)" and distance = "1 / 10"
          and max_distance = None and timelimit = None and position_tolerance = "1 / 100"
          and angular_tolerance = "15 / 100" and w = world0 and fuel = 5]
    by (simp add: n0)
  have B: "\<exists>msg. PlanToEndEffectorOffset 5 slider (1, 0, 0) (1 / 10) (Some (1 / 20)) None
            (1 / 100) (15 / 100) world0 = Some (Raise (ValueError msg), world0)"
    using PlanToEndEffectorOffset_validation [OF refl refl refl refl refl,
        where P = slider and direction = "(1, 0, 0)" and distance = "1 / 10"
          and max_distance = "Some (1 / 20)" and timelimit = None
          and position_tolerance = "1 / 100"
          and angular_tolerance = "15 / 100" and w = world0 and fuel = 5]
    by (simp add: n1)
  have nz: "div3 slider (2, 0, 0) (norm3 slider (2, 0, 0)) = Return (1, 0, 0)"
    by (simp add: n2 np_divide_def rf)
  have C: "PlanToEndEffectorOffset 5 slider (2, 0, 0) (1 / 20) None None (1 / 100) (15 / 100) world0
     = FollowVectorField 5 slider
         (vf_straightline slider (GetEndEffectorTransform slider (GetActiveDOFValues slider))
            (1, 0, 0))
         (TerminateMove slider (GetEndEffectorTransform slider (GetActiveDOFValues slider))
            (1, 0, 0) (1 / 20) (1 / 20) (1 / 100) (15 / 100))
         None (1 / 10000) world0
   \<and> (\<exists>direction'. div3 slider (2, 0, 0) (norm3 slider (2, 0, 0)) = Return direction'
                    \<and> euclidean_norm (list3 direction') = 1)"
    using PlanToEndEffectorOffset_validation [OF refl refl refl refl refl,
        where P = slider and direction = "(2, 0, 0)" and distance = "1 / 20"
          and max_distance = None and timelimit = None
          and position_tolerance = "1 / 100"
          and angular_tolerance = "15 / 100" and w = world0 and fuel = 5]
    unfolding nz by (simp add: n2 e2 rf euclidean_norm_def)
  from A B C show ?thesis by blast
qed

subsection \<open>Going as fast as possible\<close>

lemma py_min_from_finite:
  assumes "\<forall>x \<in> set (m # xs). x \<noteq> NaN \<and> x \<noteq> NInf" and "\<exists>a. Fin a \<in> set (m # xs)"
  shows "\<exists>d. py_min_from m xs = Fin d"
  using assms
proof (induction xs arbitrary: m)
  case Nil
  then show ?case by auto
next
  case (Cons x xs)
  let ?m = "if np_lt x m then x else m"
  from Cons.prems(1) have ok: "\<forall>y \<in> set (?m # xs). y \<noteq> NaN \<and> y \<noteq> NInf" by auto
  have "\<exists>a. Fin a \<in> set (?m # xs)"
  proof (cases "\<exists>a. Fin a \<in> set xs")
    case True
    then show ?thesis by auto
  next
    case False
    with Cons.prems(2) consider a where "m = Fin a" | a where "x = Fin a" by auto
    then show ?thesis
    proof cases
      case 1
      with Cons.prems(1) show ?thesis by (cases x) auto
    next
      case 2
      with Cons.prems(1) show ?thesis by (cases m) auto
    qed
  qed
  from Cons.IH [OF ok this] show ?case by simp
qed

lemma speed_ratio:
  assumes "0 \<le> l" and "l = 0 \<longrightarrow> v \<noteq> 0"
  shows "np_abs (np_div l v) = (if v = 0 then PInf else Fin \<bar>l / v\<bar>)"
  using assms by (auto simp: np_div_def)

lemma finite_values_map_Fin: "finite_values (map Fin v) = Some v"
  by (induction v) simp_all

lemma finite_values_Some: "finite_values xs = Some v \<Longrightarrow> xs = map Fin v"
proof (induction xs arbitrary: v)
  case Nil
  then show ?case by simp
next
  case (Cons x xs)
  then show ?case by (cases x) auto
qed

lemma np_array_Return: "np_array xs = Return v \<longleftrightarrow> xs = map Fin v"
  by (auto simp: np_array_def finite_values_map_Fin split: option.splits
      dest: finite_values_Some)

lemma np_array_not_Raise: "np_array xs \<noteq> Raise e"
  by (simp add: np_array_def split: option.splits)

lemma np_scale_not_Raise: "np_scale P m v \<noteq> Raise e"
  by (simp add: np_scale_def np_array_not_Raise split: npfloat.splits)

lemma np_scale_Return:
  assumes "np_scale P m v = Return out"
  shows "\<exists>s. m = Fin s \<and> length out = length v
            \<and> (\<forall>i<length v. round_float P (s * v ! i) = Fin (out ! i))"
proof (cases m)
  case (Fin s)
  with assms have "map (\<lambda>x. round_float P (s * x)) v = map Fin out"
    by (simp add: np_scale_def np_array_Return)
  then have "length out = length v
            \<and> (\<forall>i<length v. round_float P (s * v ! i) = Fin (out ! i))"
    by (metis length_map nth_map)
  with Fin show ?thesis by blast
qed (use assms in \<open>simp_all add: np_scale_def\<close>)

lemma np_abs_Fin: "np_abs x = Fin s \<Longrightarrow> 0 \<le> s"
  by (cases x) auto

lemma np_abs_np_divide_Fin:
  assumes "np_abs (np_divide P l v) = Fin s"
  shows "v \<noteq> 0 \<and> np_abs (round_float P (l / v)) = Fin s"
  using assms by (auto simp: np_divide_def split: if_splits)

lemma go_as_fast_as_possible_same_length:
  assumes "length limits = length dq"
  shows "go_as_fast_as_possible P limits dq =
           (case py_min (map np_abs (map2 (np_divide P) limits dq)) of
              Raise e \<Rightarrow> Raise e
            | NonFinite \<Rightarrow> NonFinite
            | Return m \<Rightarrow> np_scale P m dq)"
  using assms by (simp add: go_as_fast_as_possible_def np_broadcast_def)

lemma go_as_fast_as_possible_no_error:
  assumes "length limits = length dq" and "dq \<noteq> []"
  shows "go_as_fast_as_possible P limits dq \<noteq> Raise e"
proof
  assume r: "go_as_fast_as_possible P limits dq = Raise e"
  let ?xs = "map np_abs (map2 (np_divide P) limits dq)"
  from assms have "?xs \<noteq> []" by (cases limits; cases dq) simp_all
  then obtain m where "py_min ?xs = Return m"
    by (cases ?xs) (simp_all add: py_min_def)
  with r assms(1) np_scale_not_Raise [of P m dq e] show False
    by (simp add: go_as_fast_as_possible_same_length)
qed

lemma go_as_fast_as_possible_rounded:
  assumes len: "length limits = length dq"
    and r: "go_as_fast_as_possible P limits dq = Return out"
  shows "\<exists>s j. 0 \<le> s \<and> j < length dq \<and> dq ! j \<noteq> 0
           \<and> np_abs (round_float P (limits ! j / dq ! j)) = Fin s
           \<and> (\<forall>i<length dq. \<forall>y. dq ! i \<noteq> 0
                  \<and> np_abs (round_float P (limits ! i / dq ! i)) = Fin y \<longrightarrow> s \<le> y)
           \<and> length out = length dq
           \<and> (\<forall>i<length dq. round_float P (s * dq ! i) = Fin (out ! i))"
proof -
  define xs where "xs = map np_abs (map2 (np_divide P) limits dq)"
  have lx: "length xs = length dq" using len by (simp add: xs_def)
  have el: "xs ! i = np_abs (np_divide P (limits ! i) (dq ! i))" if "i < length dq" for i
    using that len by (simp add: xs_def)
  from r len obtain m where pm: "py_min xs = Return m" and sc: "np_scale P m dq = Return out"
    by (auto simp: go_as_fast_as_possible_same_length xs_def split: outcome.splits)
  from np_scale_Return [OF sc] obtain s where m: "m = Fin s" and lo: "length out = length dq"
    and pr: "\<forall>i<length dq. round_float P (s * dq ! i) = Fin (out ! i)"
    by blast
  from py_min_Fin [OF pm [unfolded m]] have mem: "Fin s \<in> set xs"
    and low: "\<And>y. Fin y \<in> set xs \<Longrightarrow> s \<le> y"
    by blast+
  from mem obtain j where j: "j < length dq" and xj: "xs ! j = Fin s"
    using lx by (auto simp: in_set_conv_nth)
  from xj el [OF j] have aj: "np_abs (np_divide P (limits ! j) (dq ! j)) = Fin s" by simp
  from np_abs_Fin [OF aj] have s0: "0 \<le> s" .
  from np_abs_np_divide_Fin [OF aj] have dj: "dq ! j \<noteq> 0"
    and rj: "np_abs (round_float P (limits ! j / dq ! j)) = Fin s"
    by simp_all
  have least: "s \<le> y"
    if i: "i < length dq" and di: "dq ! i \<noteq> 0"
      and y: "np_abs (round_float P (limits ! i / dq ! i)) = Fin y" for i y
  proof -
    from el [OF i] di y have "xs ! i = Fin y" by (simp add: np_divide_def)
    with i lx have "Fin y \<in> set xs" by (metis nth_mem)
    then show ?thesis by (rule low)
  qed
  from s0 j dj rj least lo pr show ?thesis by blast
qed

lemma go_as_fast_as_possible_scale:
  assumes len: "length limits = length dq"
    and nz: "\<exists>i<length dq. dq ! i \<noteq> 0"
    and pos: "\<forall>i<length dq. 0 \<le> limits ! i"
    and nan: "\<forall>i<length dq. limits ! i = 0 \<longrightarrow> dq ! i \<noteq> 0"
    and exact: "round_float P = Fin"
  shows "\<exists>s. 0 \<le> s
       \<and> go_as_fast_as_possible P limits dq = Return (map (\<lambda>x. s * x) dq)
       \<and> (\<exists>j<length dq. dq ! j \<noteq> 0 \<and> s = \<bar>limits ! j / dq ! j\<bar>)
       \<and> (\<forall>i<length dq. dq ! i \<noteq> 0 \<longrightarrow> s \<le> \<bar>limits ! i / dq ! i\<bar>)
       \<and> (\<forall>i<length dq. \<bar>s * dq ! i\<bar> \<le> limits ! i)
       \<and> (\<exists>j<length dq. \<bar>s * dq ! j\<bar> = limits ! j)"
proof -
  have dv: "np_divide P = np_div"
    by (simp add: fun_eq_iff np_divide_def np_div_def exact)
  define xs where "xs = map np_abs (map2 np_div limits dq)"
  have lx: "length xs = length dq" using len by (simp add: xs_def)
  have el: "xs ! i = (if dq ! i = 0 then PInf else Fin \<bar>limits ! i / dq ! i\<bar>)"
    if "i < length dq" for i
    using that len pos nan by (simp add: xs_def speed_ratio)
  have ok: "\<forall>x \<in> set xs. x \<noteq> NaN \<and> x \<noteq> NInf"
  proof
    fix x assume "x \<in> set xs"
    then obtain i where "i < length xs" and "xs ! i = x" by (auto simp: in_set_conv_nth)
    with el [of i] lx show "x \<noteq> NaN \<and> x \<noteq> NInf" by (auto split: if_splits)
  qed
  from nz obtain i0 where i0: "i0 < length dq" "dq ! i0 \<noteq> 0" by blast
  with el [of i0] lx have "Fin \<bar>limits ! i0 / dq ! i0\<bar> \<in> set xs"
    by (metis nth_mem)
  then have fin: "\<exists>a. Fin a \<in> set xs" by blast
  from i0 lx obtain x ys where xs: "xs = x # ys" by (cases xs) auto
  from ok fin have "\<exists>d. py_min_from x ys = Fin d"
    unfolding xs by (rule py_min_from_finite)
  then obtain s where "py_min_from x ys = Fin s" by blast
  with xs have pm: "py_min xs = Return (Fin s)" by (simp add: py_min_def)
  from py_min_Fin [OF pm] have mem: "Fin s \<in> set xs"
    and low: "\<And>y. Fin y \<in> set xs \<Longrightarrow> s \<le> y"
    by blast+
  from mem obtain j where j: "j < length dq" and xj: "xs ! j = Fin s"
    using lx by (auto simp: in_set_conv_nth)
  with el [of j] have dj: "dq ! j \<noteq> 0" and sj: "s = \<bar>limits ! j / dq ! j\<bar>"
    by (auto split: if_splits)
  have s0: "0 \<le> s" using sj by simp
  have sc: "np_scale P (Fin s) dq = Return (map (\<lambda>x. s * x) dq)"
    using finite_values_map_Fin [of "map (\<lambda>x. s * x) dq"]
    by (simp add: np_scale_def np_array_def exact comp_def)
  have res: "go_as_fast_as_possible P limits dq = Return (map (\<lambda>x. s * x) dq)"
    unfolding go_as_fast_as_possible_same_length [OF len] dv xs_def [symmetric] pm
    using sc by simp
  have least: "s \<le> \<bar>limits ! i / dq ! i\<bar>" if "i < length dq" and "dq ! i \<noteq> 0" for i
  proof -
    from that el [of i] lx have "Fin \<bar>limits ! i / dq ! i\<bar> \<in> set xs"
      by (metis nth_mem)
    then show ?thesis by (rule low)
  qed
  have bound: "\<bar>s * dq ! i\<bar> \<le> limits ! i" if i: "i < length dq" for i
  proof (cases "dq ! i = 0")
    case True
    with pos i show ?thesis by simp
  next
    case False
    from least [OF i False] have "s \<le> \<bar>limits ! i\<bar> / \<bar>dq ! i\<bar>" by simp
    with False have "s * \<bar>dq ! i\<bar> \<le> \<bar>limits ! i\<bar>" by (simp add: pos_le_divide_eq)
    with s0 pos i show ?thesis by (simp add: abs_mult)
  qed
  have exact: "\<bar>s * dq ! j\<bar> = limits ! j"
  proof -
    have "\<bar>s * dq ! j\<bar> = \<bar>limits ! j\<bar> / \<bar>dq ! j\<bar> * \<bar>dq ! j\<bar>"
      using sj by (simp add: abs_mult)
    also have "\<dots> = \<bar>limits ! j\<bar>" using dj by simp
    finally show ?thesis using pos j by simp
  qed
  from s0 res j dj sj least bound exact show ?thesis by blast
qed

text \<open>
  Claim C8, as stated, fails in three ways, each for a vector from the Jacobian solve
  that is not zero.  A robot with six joints, four of them in the arm: both fields raise
  \<^verbatim>\<open>ValueError\<close>, because the six velocity limits are divided by the four velocities.  A
  robot with a joint whose velocity limit and velocity are both zero: the quotient is
  \<^verbatim>\<open>nan\<close>, which Python's \<^verbatim>\<open>min\<close> keeps, and the output holds no number.  A robot with one
  joint, velocity limit \<open>3\<close>, in double precision: for the velocity
  \<open>5750131667089115 / 2^48\<close> (the double \<^verbatim>\<open>20.428571428571427\<close>) the rounded quotient times
  the velocity rounds to \<open>3 + 2^-51\<close>, more than the limit.
\<close>

theorem velocity_fields_rescale_to_limit_counterexample:
  "vf_geodesic (bench [1, 1, 1, 1, 1, 1] [1, 0, 0, 0] exact_norm Fin) () [0, 0, 0, 0]
     = Raise (ValueError ''operands could not be broadcast together with shapes'')
   \<and> vf_straightline (bench [1, 1, 1, 1, 1, 1] [1, 0, 0, 0] exact_norm Fin) () (1, 0, 0)
       [0, 0, 0, 0]
     = Raise (ValueError ''operands could not be broadcast together with shapes'')
   \<and> vf_geodesic (bench [0, 1] [0, 1] exact_norm Fin) () [0, 0] = NonFinite
   \<and> vf_geodesic (bench [3] [5750131667089115 / 2 ^ 48] norm64 binary64) () [0]
     = Return [3 + 1 / 2 ^ 51]
   \<and> vf_straightline (bench [3] [5750131667089115 / 2 ^ 48] norm64 binary64) () (1, 0, 0) [0]
     = Return [3 + 1 / 2 ^ 51]
   \<and> \<not> \<bar>3 + 1 / 2 ^ 51\<bar> \<le> (3::real)"
  by (simp add: vf_geodesic_def vf_straightline_def bench_def go_as_fast_as_possible_def
      np_broadcast_def np_divide_def np_scale_def np_array_def py_min_def binary64_eval)

text \<open>
  Claim C8, amended.  Let the Jacobian-based solve return a vector \<open>dq\<close> with one
  component for each velocity limit of the robot (the arm holds all its joints) and with
  a component that is not zero, for a robot whose velocity limits are not negative and
  which has no joint with limit zero and velocity zero at once.  Then both velocity
  fields return the rescaling of \<open>dq\<close>, and the rescaling raises no error.  When it
  returns a vector, that vector holds the rounded products of a scalar \<open>s\<close> with the
  components of \<open>dq\<close>, where \<open>s\<close> is not negative and is the least of the finite
  rounded quotients \<open>\<bar>limit / velocity\<bar>\<close> over the joints that move (a joint with
  velocity zero gives \<^verbatim>\<open>inf\<close>, which \<^verbatim>\<open>min\<close> passes over).  When quotients and products
  are exact, the rescaling returns \<open>s\<close> times \<open>dq\<close> with \<open>s\<close> the least of the
  quotients \<open>\<bar>limit / velocity\<bar>\<close> over the joints that move; no joint is faster than
  its limit, and one joint runs at its limit exactly.
\<close>

theorem velocity_fields_rescale_to_limit:
  fixes P :: "'p provider"
  assumes "limits = GetDOFVelocityLimits P"
    and "length limits = length dq"
    and "\<exists>i<length dq. dq ! i \<noteq> 0"
    and "\<forall>i<length dq. 0 \<le> limits ! i"
    and "\<forall>i<length dq. limits ! i = 0 \<longrightarrow> dq ! i \<noteq> 0"
    and "rescaled = go_as_fast_as_possible P limits dq"
  shows "(dq = ComputeJointVelocityFromTwist P q
                   (GeodesicTwist P (GetEndEffectorTransform P q) goal_pose) \<longrightarrow>
            vf_geodesic P goal_pose q = rescaled)
       \<and> (dq = ComputeJointVelocityFromTwist P q
                   (direction, snd (GeodesicTwist P (GetEndEffectorTransform P q) Tstart)) \<longrightarrow>
            vf_straightline P Tstart direction q = rescaled)
       \<and> (\<forall>e. rescaled \<noteq> Raise e)
       \<and> (\<forall>out. rescaled = Return out \<longrightarrow>
            (\<exists>s j. 0 \<le> s \<and> j < length dq \<and> dq ! j \<noteq> 0
               \<and> np_abs (round_float P (limits ! j / dq ! j)) = Fin s
               \<and> (\<forall>i<length dq. \<forall>y. dq ! i \<noteq> 0
                      \<and> np_abs (round_float P (limits ! i / dq ! i)) = Fin y \<longrightarrow> s \<le> y)
               \<and> length out = length dq
               \<and> (\<forall>i<length dq. round_float P (s * dq ! i) = Fin (out ! i))))
       \<and> (round_float P = Fin \<longrightarrow>
            (\<exists>s. 0 \<le> s
               \<and> rescaled = Return (map (\<lambda>x. s * x) dq)
               \<and> (\<exists>j<length dq. dq ! j \<noteq> 0 \<and> s = \<bar>limits ! j / dq ! j\<bar>)
               \<and> (\<forall>i<length dq. dq ! i \<noteq> 0 \<longrightarrow> s \<le> \<bar>limits ! i / dq ! i\<bar>)
               \<and> (\<forall>i<length dq. \<bar>s * dq ! i\<bar> \<le> limits ! i)
               \<and> (\<exists>j<length dq. \<bar>s * dq ! j\<bar> = limits ! j)))"
proof -
  have g: "vf_geodesic P goal_pose q = rescaled"
    if "dq = ComputeJointVelocityFromTwist P q
                   (GeodesicTwist P (GetEndEffectorTransform P q) goal_pose)"
    using assms(1,6) that by (simp add: vf_geodesic_def Let_def)
  have l: "vf_straightline P Tstart direction q = rescaled"
    if "dq = ComputeJointVelocityFromTwist P q
                   (direction, snd (GeodesicTwist P (GetEndEffectorTransform P q) Tstart))"
    using assms(1,6) that by (simp add: vf_straightline_def Let_def)
  from assms(3) have ne: "dq \<noteq> []" by auto
  have noerr: "rescaled \<noteq> Raise e" for e
    unfolding assms(6) by (rule go_as_fast_as_possible_no_error [OF assms(2) ne])
  have rounded: "\<exists>s j. 0 \<le> s \<and> j < length dq \<and> dq ! j \<noteq> 0
               \<and> np_abs (round_float P (limits ! j / dq ! j)) = Fin s
               \<and> (\<forall>i<length dq. \<forall>y. dq ! i \<noteq> 0
                      \<and> np_abs (round_float P (limits ! i / dq ! i)) = Fin y \<longrightarrow> s \<le> y)
               \<and> length out = length dq
               \<and> (\<forall>i<length dq. round_float P (s * dq ! i) = Fin (out ! i))"
    if "rescaled = Return out" for out
    using that unfolding assms(6) by (rule go_as_fast_as_possible_rounded [OF assms(2)])
  have exact: "\<exists>s. 0 \<le> s
               \<and> rescaled = Return (map (\<lambda>x. s * x) dq)
               \<and> (\<exists>j<length dq. dq ! j \<noteq> 0 \<and> s = \<bar>limits ! j / dq ! j\<bar>)
               \<and> (\<forall>i<length dq. dq ! i \<noteq> 0 \<longrightarrow> s \<le> \<bar>limits ! i / dq ! i\<bar>)
               \<and> (\<forall>i<length dq. \<bar>s * dq ! i\<bar> \<le> limits ! i)
               \<and> (\<exists>j<length dq. \<bar>s * dq ! j\<bar> = limits ! j)"
    if "round_float P = Fin"
    unfolding assms(6) by (rule go_as_fast_as_possible_scale [OF assms(2-5) that])
  from g l noerr rounded exact show ?thesis by blast
qed

theorem velocity_fields_rescale_to_limit_witness:
  "vf_geodesic flyer [0, 4, - 3, 0] [0, 0, 0, 0] = Return [0, 2, - (3 / 2), 0]
   \<and> vf_straightline flyer [0, 0, 0, 0] (0, 4 / 5, - (3 / 5)) [0, 0, 0, 0]
       = Return [0, 2, - (3 / 2), 0]"
proof -
  have lim: "[1, 2, 3, 1] = GetDOFVelocityLimits flyer" and rf: "round_float flyer = Fin"
    by (simp_all add: flyer_def)
  \<comment> \<open>the geodesic field towards the pose \<open>[0, 4, -3, 0]\<close>: the scalar is \<open>1 / 2\<close>\<close>
  define dA :: "real list" where "dA = [0, 4, - 3, 0]"
  have lenA: "length [1, 2, 3, 1::real] = length dA" by (simp add: dA_def)
  have nzA: "\<exists>i<length dA. dA ! i \<noteq> 0"
    by (rule exI [of _ 1]) (simp add: dA_def)
  have posA: "\<forall>i<length dA. 0 \<le> [1, 2, 3, 1::real] ! i"
    by (simp add: dA_def All_less_Suc2)
  have nanA: "\<forall>i<length dA. [1, 2, 3, 1::real] ! i = 0 \<longrightarrow> dA ! i \<noteq> 0"
    by (simp add: dA_def All_less_Suc2)
  have twA: "dA = ComputeJointVelocityFromTwist flyer [0, 0, 0, 0]
              (GeodesicTwist flyer (GetEndEffectorTransform flyer [0, 0, 0, 0]) [0, 4, - 3, 0])"
    by (simp add: dA_def flyer_def)
  from velocity_fields_rescale_to_limit [OF lim lenA nzA posA nanA refl,
      where q = "[0, 0, 0, 0]" and goal_pose = "[0, 4, - 3, 0]"] twA rf
  obtain s where sj: "\<exists>j<length dA. dA ! j \<noteq> 0 \<and> s = \<bar>[1, 2, 3, 1] ! j / dA ! j\<bar>"
    and le: "\<forall>i<length dA. dA ! i \<noteq> 0 \<longrightarrow> s \<le> \<bar>[1, 2, 3, 1] ! i / dA ! i\<bar>"
    and g: "vf_geodesic flyer [0, 4, - 3, 0] [0, 0, 0, 0] = Return (map (\<lambda>x. s * x) dA)"
    by metis
  from sj have "s = 1 / 2 \<or> s = 1" by (simp add: dA_def Ex_less_Suc2)
  moreover from le have "s \<le> 1 / 2" by (simp add: dA_def All_less_Suc2)
  ultimately have "s = 1 / 2" by simp
  with g have A: "vf_geodesic flyer [0, 4, - 3, 0] [0, 0, 0, 0] = Return [0, 2, - (3 / 2), 0]"
    by (simp add: dA_def)
  \<comment> \<open>the straight-line field along \<open>(0, 4/5, -3/5)\<close>: the scalar is \<open>5 / 2\<close>\<close>
  define dB :: "real list" where "dB = [0, 4 / 5, - (3 / 5), 0]"
  have lenB: "length [1, 2, 3, 1::real] = length dB" by (simp add: dB_def)
  have nzB: "\<exists>i<length dB. dB ! i \<noteq> 0"
    by (rule exI [of _ 1]) (simp add: dB_def)
  have posB: "\<forall>i<length dB. 0 \<le> [1, 2, 3, 1::real] ! i"
    by (simp add: dB_def All_less_Suc2)
  have nanB: "\<forall>i<length dB. [1, 2, 3, 1::real] ! i = 0 \<longrightarrow> dB ! i \<noteq> 0"
    by (simp add: dB_def All_less_Suc2)
  have twB: "dB = ComputeJointVelocityFromTwist flyer [0, 0, 0, 0]
              ((0, 4 / 5, - (3 / 5)),
               snd (GeodesicTwist flyer (GetEndEffectorTransform flyer [0, 0, 0, 0])
                      [0, 0, 0, 0]))"
    by (simp add: dB_def flyer_def)
  from velocity_fields_rescale_to_limit [OF lim lenB nzB posB nanB refl,
      where q = "[0, 0, 0, 0]" and Tstart = "[0, 0, 0, 0]"
        and direction = "(0, 4 / 5, - (3 / 5))"] twB rf
  obtain t where tj: "\<exists>j<length dB. dB ! j \<noteq> 0 \<and> t = \<bar>[1, 2, 3, 1] ! j / dB ! j\<bar>"
    and le: "\<forall>i<length dB. dB ! i \<noteq> 0 \<longrightarrow> t \<le> \<bar>[1, 2, 3, 1] ! i / dB ! i\<bar>"
    and l: "vf_straightline flyer [0, 0, 0, 0] (0, 4 / 5, - (3 / 5)) [0, 0, 0, 0]
              = Return (map (\<lambda>x. t * x) dB)"
    by metis
  from tj have "t = 5 / 2 \<or> t = 5" by (simp add: dB_def Ex_less_Suc2)
  moreover from le have "t \<le> 5 / 2" by (simp add: dB_def All_less_Suc2)
  ultimately have "t = 5 / 2" by simp
  with l have B: "vf_straightline flyer [0, 0, 0, 0] (0, 4 / 5, - (3 / 5)) [0, 0, 0, 0]
       = Return [0, 2, - (3 / 2), 0]"
    by (simp add: dB_def)
  from A B show ?thesis by blast
qed

end
